theory Spec2Isabelle
  imports Complex_Main "HOL-Library.Monad_Syntax"
begin

section \<open>Raw values\<close>

text \<open>
  The validator, the normalizer and the renderer of the repository work on values
  that come out of \<^verbatim>\<open>JSON.parse\<close>. A finite number is the rational that the double
  denotes, and there are the three non-finite values a JavaScript number can also
  hold. Comparisons of doubles are exact; the sums and differences of coordinates
  are taken exactly, and the product and the quotient of the pill radius are
  rounded as the machine rounds them. An object is an association list; the first
  binding of a key is the one a property read returns.
\<close>

datatype jsnum = Finite rat | PosInfinity | NegInfinity | NaN

datatype json =
    JNull
  | JBool bool
  | JNum jsnum
  | JStr string
  | JArr "json list"
  | JObj "(string \<times> json) list"

text \<open>JavaScript truthiness of a property that may be absent (\<^verbatim>\<open>undefined\<close>).\<close>

fun truthy :: "json option \<Rightarrow> bool" where
  "truthy None = False"
| "truthy (Some JNull) = False"
| "truthy (Some (JBool b)) = b"
| "truthy (Some (JNum (Finite q))) = (q \<noteq> 0)"
| "truthy (Some (JNum NaN)) = False"
| "truthy (Some (JNum _)) = True"
| "truthy (Some (JStr s)) = (s \<noteq> [])"
| "truthy (Some (JArr _)) = True"
| "truthy (Some (JObj _)) = True"

section \<open>The schema (src/unnamed/part_000)\<close>

subsection \<open>Validated values\<close>

record RGBA =
  rgba_r :: rat
  rgba_g :: rat
  rgba_b :: rat
  rgba_a :: "rat option"

record NodeBase =
  nb_name :: "string option"
  nb_x :: rat
  nb_y :: rat
  nb_width :: rat
  nb_height :: rat
  nb_opacity :: "rat option"

datatype AlignHorizontal = LEFT | CENTER | RIGHT | JUSTIFIED

datatype LayoutMode = NONE | HORIZONTAL | VERTICAL

datatype ScaleMode = FILL | FIT | CROP | TILE

record RectProps =
  rect_fill :: "RGBA option"
  rect_stroke :: "RGBA option"
  rect_strokeWidth :: "rat option"
  rect_cornerRadius :: "rat option"

record TextProps =
  text_text :: string
  text_fontFamily :: "string option"
  text_fontStyle :: "string option"
  text_fontSize :: "rat option"
  text_fill :: "RGBA option"
  text_alignHorizontal :: "AlignHorizontal option"

record FramePadding =
  pad_top :: "rat option"
  pad_right :: "rat option"
  pad_bottom :: "rat option"
  pad_left :: "rat option"

record FrameProps =
  frame_layoutMode :: LayoutMode
  frame_padding :: "FramePadding option"
  frame_itemSpacing :: "rat option"
  frame_fill :: "RGBA option"
  frame_stroke :: "RGBA option"
  frame_strokeWidth :: "rat option"
  frame_cornerRadius :: "rat option"

record EllipseProps =
  ellipse_fill :: "RGBA option"
  ellipse_stroke :: "RGBA option"
  ellipse_strokeWidth :: "rat option"

record ImageProps =
  image_imageUrl :: "string option"
  image_imageDataUrl :: "string option"
  image_scaleMode :: "ScaleMode option"
  image_cornerRadius :: "rat option"
  image_stroke :: "RGBA option"
  image_strokeWidth :: "rat option"

text \<open>
  The tagged union \<^verbatim>\<open>DesignNode\<close>: a shared base and the fields of the variant. A
  validated frame always carries its layout mode and its children (the schema
  inserts the defaults).
\<close>

datatype DesignNode =
    RectNode NodeBase RectProps
  | TextNode NodeBase TextProps
  | FrameNode NodeBase FrameProps "DesignNode list"
  | EllipseNode NodeBase EllipseProps
  | ImageNode NodeBase ImageProps

record Canvas =
  canvas_name :: string
  canvas_width :: rat
  canvas_height :: rat

record DesignSpec =
  spec_canvas :: Canvas
  spec_nodes :: "DesignNode list"

subsection \<open>The combinators of the validation library\<close>

text \<open>
  The schemas are written with the combinators of the zod library, which is not
  part of the repository. A parser takes the value of a property, \<open>None\<close> when the
  property is absent, and returns the parsed value, or \<open>None\<close> when the library
  raises its validation error (the SchemaViolation of the spec).
\<close>

definition z_string :: "json option \<Rightarrow> string option" where
  "z_string v = (case v of Some (JStr s) \<Rightarrow> Some s | _ \<Rightarrow> None)"

text \<open>
  Modelled from the spec: the number schema \<^verbatim>\<open>z.number()\<close> of the validation library,
  whose code is not under src/. It refuses NaN and every value that is no number;
  the releases of the library differ on the two infinities. Section 4.1 of the
  spec says that numeric fields are checked to be finite, so an infinite number
  is refused here.
\<close>

definition z_number :: "json option \<Rightarrow> rat option" where
  "z_number v = (case v of Some (JNum (Finite q)) \<Rightarrow> Some q | _ \<Rightarrow> None)"

definition z_refine :: "('a \<Rightarrow> bool) \<Rightarrow> (json option \<Rightarrow> 'a option) \<Rightarrow> json option \<Rightarrow> 'a option" where
  "z_refine P p v = (case p v of None \<Rightarrow> None | Some x \<Rightarrow> if P x then Some x else None)"

definition z_optional :: "(json option \<Rightarrow> 'a option) \<Rightarrow> json option \<Rightarrow> 'a option option" where
  "z_optional p v = (case v of None \<Rightarrow> Some None | Some _ \<Rightarrow> map_option Some (p v))"

definition z_default :: "'a \<Rightarrow> (json option \<Rightarrow> 'a option) \<Rightarrow> json option \<Rightarrow> 'a option" where
  "z_default d p v = (case v of None \<Rightarrow> Some d | Some _ \<Rightarrow> p v)"

definition z_literal :: "string \<Rightarrow> json option \<Rightarrow> unit option" where
  "z_literal l v = (if v = Some (JStr l) then Some () else None)"

definition z_enum :: "(string \<times> 'a) list \<Rightarrow> json option \<Rightarrow> 'a option" where
  "z_enum tbl v = (case v of Some (JStr s) \<Rightarrow> map_of tbl s | _ \<Rightarrow> None)"

text \<open>\<^verbatim>\<open>z.number().min(0)\<close>, \<^verbatim>\<open>z.number().min(0).max(1)\<close>, \<^verbatim>\<open>z.number().positive()\<close>.\<close>

definition z_number_min0 :: "json option \<Rightarrow> rat option" where
  "z_number_min0 = z_refine (\<lambda>q. 0 \<le> q) z_number"

definition z_number_min0_max1 :: "json option \<Rightarrow> rat option" where
  "z_number_min0_max1 = z_refine (\<lambda>q. q \<le> 1) (z_refine (\<lambda>q. 0 \<le> q) z_number)"

definition z_number_positive :: "json option \<Rightarrow> rat option" where
  "z_number_positive = z_refine (\<lambda>q. 0 < q) z_number"

subsection \<open>The schemas\<close>

definition ColorSchema :: "json option \<Rightarrow> RGBA option" where
  "ColorSchema v =
     (case v of
        Some (JObj c) \<Rightarrow>
          do {
            r \<leftarrow> z_number_min0_max1 (map_of c ''r'');
            g \<leftarrow> z_number_min0_max1 (map_of c ''g'');
            b \<leftarrow> z_number_min0_max1 (map_of c ''b'');
            a \<leftarrow> z_optional z_number_min0_max1 (map_of c ''a'');
            Some \<lparr>rgba_r = r, rgba_g = g, rgba_b = b, rgba_a = a\<rparr>
          }
      | _ \<Rightarrow> None)"

definition NodeBaseSchema :: "(string \<times> json) list \<Rightarrow> NodeBase option" where
  "NodeBaseSchema flds =
     do {
       name \<leftarrow> z_optional z_string (map_of flds ''name'');
       x \<leftarrow> z_number (map_of flds ''x'');
       y \<leftarrow> z_number (map_of flds ''y'');
       width \<leftarrow> z_number_positive (map_of flds ''width'');
       height \<leftarrow> z_number_positive (map_of flds ''height'');
       opacity \<leftarrow> z_optional z_number_min0_max1 (map_of flds ''opacity'');
       Some \<lparr>nb_name = name, nb_x = x, nb_y = y, nb_width = width, nb_height = height,
             nb_opacity = opacity\<rparr>
     }"

definition RectNodeSchema :: "json \<Rightarrow> DesignNode option" where
  "RectNodeSchema j =
     (case j of
        JObj flds \<Rightarrow>
          do {
            base \<leftarrow> NodeBaseSchema flds;
            tag \<leftarrow> z_literal ''rect'' (map_of flds ''type'');
            fill \<leftarrow> z_optional ColorSchema (map_of flds ''fill'');
            stroke \<leftarrow> z_optional ColorSchema (map_of flds ''stroke'');
            strokeWidth \<leftarrow> z_optional z_number_min0 (map_of flds ''strokeWidth'');
            cornerRadius \<leftarrow> z_optional z_number_min0 (map_of flds ''cornerRadius'');
            Some (RectNode base \<lparr>rect_fill = fill, rect_stroke = stroke,
                    rect_strokeWidth = strokeWidth, rect_cornerRadius = cornerRadius\<rparr>)
          }
      | _ \<Rightarrow> None)"

definition TextNodeSchema :: "json \<Rightarrow> DesignNode option" where
  "TextNodeSchema j =
     (case j of
        JObj flds \<Rightarrow>
          do {
            base \<leftarrow> NodeBaseSchema flds;
            tag \<leftarrow> z_literal ''text'' (map_of flds ''type'');
            text \<leftarrow> z_string (map_of flds ''text'');
            fontFamily \<leftarrow> z_optional z_string (map_of flds ''fontFamily'');
            fontStyle \<leftarrow> z_optional z_string (map_of flds ''fontStyle'');
            fontSize \<leftarrow> z_optional z_number_positive (map_of flds ''fontSize'');
            fill \<leftarrow> z_optional ColorSchema (map_of flds ''fill'');
            alignHorizontal \<leftarrow>
              z_optional (z_enum [(''LEFT'', LEFT), (''CENTER'', CENTER), (''RIGHT'', RIGHT),
                                  (''JUSTIFIED'', JUSTIFIED)])
                (map_of flds ''alignHorizontal'');
            Some (TextNode base \<lparr>text_text = text, text_fontFamily = fontFamily,
                    text_fontStyle = fontStyle, text_fontSize = fontSize, text_fill = fill,
                    text_alignHorizontal = alignHorizontal\<rparr>)
          }
      | _ \<Rightarrow> None)"

definition PaddingSchema :: "json option \<Rightarrow> FramePadding option" where
  "PaddingSchema v =
     (case v of
        Some (JObj p) \<Rightarrow>
          do {
            top \<leftarrow> z_optional z_number_min0 (map_of p ''top'');
            right \<leftarrow> z_optional z_number_min0 (map_of p ''right'');
            bottom \<leftarrow> z_optional z_number_min0 (map_of p ''bottom'');
            left \<leftarrow> z_optional z_number_min0 (map_of p ''left'');
            Some \<lparr>pad_top = top, pad_right = right, pad_bottom = bottom, pad_left = left\<rparr>
          }
      | _ \<Rightarrow> None)"

definition EllipseNodeSchema :: "json \<Rightarrow> DesignNode option" where
  "EllipseNodeSchema j =
     (case j of
        JObj flds \<Rightarrow>
          do {
            base \<leftarrow> NodeBaseSchema flds;
            tag \<leftarrow> z_literal ''ellipse'' (map_of flds ''type'');
            fill \<leftarrow> z_optional ColorSchema (map_of flds ''fill'');
            stroke \<leftarrow> z_optional ColorSchema (map_of flds ''stroke'');
            strokeWidth \<leftarrow> z_optional z_number_min0 (map_of flds ''strokeWidth'');
            Some (EllipseNode base \<lparr>ellipse_fill = fill, ellipse_stroke = stroke,
                    ellipse_strokeWidth = strokeWidth\<rparr>)
          }
      | _ \<Rightarrow> None)"

text \<open>\<^verbatim>\<open>z.string().min(1)\<close> and \<^verbatim>\<open>z.string().startsWith("data:image/")\<close>.\<close>

definition z_string_min1 :: "json option \<Rightarrow> string option" where
  "z_string_min1 = z_refine (\<lambda>s. 1 \<le> length s) z_string"

definition startsWith :: "string \<Rightarrow> string \<Rightarrow> bool" where
  "startsWith p s = (take (length p) s = p)"

definition z_string_startsWith :: "string \<Rightarrow> json option \<Rightarrow> string option" where
  "z_string_startsWith p = z_refine (startsWith p) z_string"

text \<open>\<^verbatim>\<open>Boolean(s)\<close> of an optional string: absent and empty are false.\<close>

definition str_truthy :: "string option \<Rightarrow> bool" where
  "str_truthy s = (case s of None \<Rightarrow> False | Some t \<Rightarrow> t \<noteq> [])"

text \<open>
  The image schema is an object schema with a refinement on top: the object schema
  checks the fields, the refinement asks for one of the two sources.
\<close>

definition ImageNodeObject :: "(string \<times> json) list \<Rightarrow> (NodeBase \<times> ImageProps) option" where
  "ImageNodeObject flds =
     do {
       base \<leftarrow> NodeBaseSchema flds;
       tag \<leftarrow> z_literal ''image'' (map_of flds ''type'');
       imageUrl \<leftarrow> z_optional z_string_min1 (map_of flds ''imageUrl'');
       imageDataUrl \<leftarrow>
         z_optional (z_string_startsWith ''data:image/'') (map_of flds ''imageDataUrl'');
       scaleMode \<leftarrow>
         z_optional (z_enum [(''FILL'', FILL), (''FIT'', FIT), (''CROP'', CROP),
                             (''TILE'', TILE)])
           (map_of flds ''scaleMode'');
       cornerRadius \<leftarrow> z_optional z_number_min0 (map_of flds ''cornerRadius'');
       stroke \<leftarrow> z_optional ColorSchema (map_of flds ''stroke'');
       strokeWidth \<leftarrow> z_optional z_number_min0 (map_of flds ''strokeWidth'');
       Some (base, \<lparr>image_imageUrl = imageUrl, image_imageDataUrl = imageDataUrl,
               image_scaleMode = scaleMode, image_cornerRadius = cornerRadius,
               image_stroke = stroke, image_strokeWidth = strokeWidth\<rparr>)
     }"

definition ImageNodeSchema :: "json \<Rightarrow> DesignNode option" where
  "ImageNodeSchema j =
     (case j of
        JObj flds \<Rightarrow>
          (case ImageNodeObject flds of
             None \<Rightarrow> None
           | Some (base, v) \<Rightarrow>
               if str_truthy (image_imageUrl v) \<or> str_truthy (image_imageDataUrl v)
               then Some (ImageNode base v)
               else None)
      | _ \<Rightarrow> None)"

text \<open>
  The fields of a frame other than its children, and the raw children: an absent
  \<^verbatim>\<open>children\<close> is the empty array (the default), anything but an array is refused.
\<close>

definition FrameFields :: "(string \<times> json) list \<Rightarrow> (NodeBase \<times> FrameProps) option" where
  "FrameFields flds =
     do {
       base \<leftarrow> NodeBaseSchema flds;
       tag \<leftarrow> z_literal ''frame'' (map_of flds ''type'');
       layoutMode \<leftarrow>
         z_default NONE (z_enum [(''NONE'', NONE), (''HORIZONTAL'', HORIZONTAL),
                                 (''VERTICAL'', VERTICAL)])
           (map_of flds ''layoutMode'');
       padding \<leftarrow> z_optional PaddingSchema (map_of flds ''padding'');
       itemSpacing \<leftarrow> z_optional z_number_min0 (map_of flds ''itemSpacing'');
       fill \<leftarrow> z_optional ColorSchema (map_of flds ''fill'');
       stroke \<leftarrow> z_optional ColorSchema (map_of flds ''stroke'');
       strokeWidth \<leftarrow> z_optional z_number_min0 (map_of flds ''strokeWidth'');
       cornerRadius \<leftarrow> z_optional z_number_min0 (map_of flds ''cornerRadius'');
       Some (base, \<lparr>frame_layoutMode = layoutMode, frame_padding = padding,
               frame_itemSpacing = itemSpacing, frame_fill = fill, frame_stroke = stroke,
               frame_strokeWidth = strokeWidth, frame_cornerRadius = cornerRadius\<rparr>)
     }"

definition raw_children :: "(string \<times> json) list \<Rightarrow> json list option" where
  "raw_children flds =
     (case map_of flds ''children'' of
        None \<Rightarrow> Some []
      | Some (JArr cs) \<Rightarrow> Some cs
      | Some _ \<Rightarrow> None)"

text \<open>All elements of an array parse, or the array is refused.\<close>

fun all_some :: "'a option list \<Rightarrow> 'a list option" where
  "all_some [] = Some []"
| "all_some (None # xs) = None"
| "all_some (Some x # xs) = map_option ((#) x) (all_some xs)"

text \<open>
  The union schema tries the five variants in the order of the source and returns
  the first that accepts; the frame schema validates its children against the
  union again (\<^verbatim>\<open>z.lazy\<close>), with no depth limit.
\<close>

function FrameNodeSchema :: "json \<Rightarrow> DesignNode option"
  and DesignNodeSchema :: "json \<Rightarrow> DesignNode option" where
  "FrameNodeSchema j =
     (case j of
        JObj flds \<Rightarrow>
          (case FrameFields flds of
             None \<Rightarrow> None
           | Some (base, props) \<Rightarrow>
               (case raw_children flds of
                  None \<Rightarrow> None
                | Some cs \<Rightarrow>
                    map_option (FrameNode base props) (all_some (map DesignNodeSchema cs))))
      | _ \<Rightarrow> None)"
| "DesignNodeSchema j =
     (case RectNodeSchema j of
        Some n \<Rightarrow> Some n
      | None \<Rightarrow>
     (case TextNodeSchema j of
        Some n \<Rightarrow> Some n
      | None \<Rightarrow>
     (case FrameNodeSchema j of
        Some n \<Rightarrow> Some n
      | None \<Rightarrow>
     (case EllipseNodeSchema j of
        Some n \<Rightarrow> Some n
      | None \<Rightarrow> ImageNodeSchema j))))"
  by pat_completeness auto
termination
proof -
  have smaller: "size c < size (JObj flds)"
    if a: "raw_children flds = Some cs" and c: "c \<in> set cs" for flds cs c
  proof (cases "map_of flds ''children''")
    case None
    with a c show ?thesis by (simp add: raw_children_def)
  next
    case (Some v)
    with a have v: "v = JArr cs"
      by (cases v) (simp_all add: raw_children_def)
    from Some have "(''children'', v) \<in> set flds" by (rule map_of_SomeD)
    then have "size v \<le> size_list (size_prod (\<lambda>_. 0) size) flds"
      by (induction flds) auto
    moreover from c have "size c < size (JArr cs)"
      by (induction cs) auto
    ultimately show ?thesis using v by simp
  qed
  show ?thesis
    by (relation "measure (\<lambda>v. case v of Inl j \<Rightarrow> 2 * size j | Inr j \<Rightarrow> 2 * size j + 1)")
       (auto dest: smaller)
qed

declare FrameNodeSchema.simps [simp del] DesignNodeSchema.simps [simp del]

definition CanvasSchema :: "json option \<Rightarrow> Canvas option" where
  "CanvasSchema v =
     (case v of
        Some (JObj c) \<Rightarrow>
          do {
            name \<leftarrow> z_default ''Generated from Image'' z_string (map_of c ''name'');
            width \<leftarrow> z_number_positive (map_of c ''width'');
            height \<leftarrow> z_number_positive (map_of c ''height'');
            Some \<lparr>canvas_name = name, canvas_width = width, canvas_height = height\<rparr>
          }
      | _ \<Rightarrow> None)"

definition NodesSchema :: "json option \<Rightarrow> DesignNode list option" where
  "NodesSchema v =
     (case v of
        None \<Rightarrow> Some []
      | Some (JArr ns) \<Rightarrow> all_some (map DesignNodeSchema ns)
      | Some _ \<Rightarrow> None)"

definition DesignSpecSchema :: "json \<Rightarrow> DesignSpec option" where
  "DesignSpecSchema j =
     (case j of
        JObj flds \<Rightarrow>
          do {
            canvas \<leftarrow> CanvasSchema (map_of flds ''canvas'');
            nodes \<leftarrow> NodesSchema (map_of flds ''nodes'');
            Some \<lparr>spec_canvas = canvas, spec_nodes = nodes\<rparr>
          }
      | _ \<Rightarrow> None)"

section \<open>The normalizer (src/unnamed/part_003: normalizeNode, normalizeSpec)\<close>

text \<open>A property read \<^verbatim>\<open>v.k\<close> on a value that may be no object: \<^verbatim>\<open>undefined\<close> is \<open>None\<close>.\<close>

definition get_prop :: "json option \<Rightarrow> string \<Rightarrow> json option" where
  "get_prop v k = (case v of Some (JObj flds) \<Rightarrow> map_of flds k | _ \<Rightarrow> None)"

text \<open>\<^verbatim>\<open>typeof v === "string" ? v : undefined\<close>.\<close>

definition as_string :: "json option \<Rightarrow> string option" where
  "as_string v = (case v of Some (JStr s) \<Rightarrow> Some s | _ \<Rightarrow> None)"

text \<open>
  White space in the sense of \<^verbatim>\<open>String.prototype.trim\<close>, among the characters below
  256; \<^verbatim>\<open>s.trim() !== ""\<close> holds when some character of \<open>s\<close> is not white space.
\<close>

definition is_space :: "char \<Rightarrow> bool" where
  "is_space c = (c \<in> set [CHR 0x09, CHR 0x0A, CHR 0x0B, CHR 0x0C, CHR 0x0D, CHR 0x20, CHR 0xA0])"

definition trim_nonempty :: "string \<Rightarrow> bool" where
  "trim_nonempty s = (\<exists>c \<in> set s. \<not> is_space c)"

text \<open>
  \<^verbatim>\<open>toNumber\<close>. The conversion \<^verbatim>\<open>Number(s)\<close> of a string is a built-in of the
  language; it is the parameter \<open>Number\<close> of the normalizer.
\<close>

definition toNumber :: "(string \<Rightarrow> jsnum) \<Rightarrow> json option \<Rightarrow> rat option" where
  "toNumber Number v =
     (case v of
        Some (JNum (Finite q)) \<Rightarrow> Some q
      | Some (JStr s) \<Rightarrow>
          (if trim_nonempty s
           then (case Number s of Finite q \<Rightarrow> Some q | _ \<Rightarrow> None)
           else None)
      | _ \<Rightarrow> None)"

definition json_num :: "rat \<Rightarrow> json" where
  "json_num q = JNum (Finite q)"

text \<open>An assignment \<^verbatim>\<open>if (v != null) base.k = v\<close>: the key is set when the value is there.\<close>

definition opt_field :: "string \<Rightarrow> ('a \<Rightarrow> json) \<Rightarrow> 'a option \<Rightarrow> (string \<times> json) list" where
  "opt_field k f v = (case v of None \<Rightarrow> [] | Some x \<Rightarrow> [(k, f x)])"

text \<open>\<^verbatim>\<open>if (v) base.k = v\<close>: the raw value is copied when it is truthy.\<close>

definition truthy_field :: "string \<Rightarrow> json option \<Rightarrow> (string \<times> json) list" where
  "truthy_field k v = (if truthy v then opt_field k id v else [])"

definition to_lower_char :: "char \<Rightarrow> char" where
  "to_lower_char c =
     (if (65::nat) \<le> of_char c \<and> of_char c \<le> (90::nat)
      then char_of (of_char c + (32::nat)) else c)"

definition toLowerCase :: "string \<Rightarrow> string" where
  "toLowerCase s = map to_lower_char s"

text \<open>
  The named style of a numeric font weight (the else-branch of the text case).
  In \<open>normalizeText\<close> below, the table of \<^verbatim>\<open>textAlign\<close> is read at its own four keys
  only; the keys an object literal inherits are not modelled.
\<close>

definition weight_style :: "rat \<Rightarrow> string" where
  "weight_style weight =
     (if weight \<ge> 700 then ''Bold''
      else if weight \<ge> 600 then ''Semibold''
      else if weight \<ge> 500 then ''Medium''
      else ''Regular'')"

definition normalizeText :: "(string \<Rightarrow> jsnum) \<Rightarrow> (string \<times> json) list \<Rightarrow> (string \<times> json) list" where
  "normalizeText Number flds =
     [(''text'', JStr (case as_string (map_of flds ''text'') of Some t \<Rightarrow> t | None \<Rightarrow> ''''))]
     @ opt_field ''fontFamily'' JStr (as_string (map_of flds ''fontFamily''))
     @ (case as_string (map_of flds ''fontStyle'') of
          Some st \<Rightarrow> [(''fontStyle'', JStr st)]
        | None \<Rightarrow>
            opt_field ''fontStyle'' (\<lambda>weight. JStr (weight_style weight))
              (toNumber Number (map_of flds ''fontWeight'')))
     @ opt_field ''fontSize'' json_num (toNumber Number (map_of flds ''fontSize''))
     @ (if truthy (map_of flds ''fill'') then truthy_field ''fill'' (map_of flds ''fill'')
        else truthy_field ''fill'' (map_of flds ''color''))
     @ (case as_string (map_of flds ''alignHorizontal'') of
          Some al \<Rightarrow> [(''alignHorizontal'', JStr al)]
        | None \<Rightarrow>
            (case as_string (map_of flds ''textAlign'') of
               Some ta \<Rightarrow>
                 opt_field ''alignHorizontal'' JStr
                   (map_of [(''left'', ''LEFT''), (''center'', ''CENTER''), (''right'', ''RIGHT''),
                            (''justified'', ''JUSTIFIED'')] (toLowerCase ta))
             | None \<Rightarrow> []))"

definition normalizeRect :: "(string \<Rightarrow> jsnum) \<Rightarrow> (string \<times> json) list \<Rightarrow> (string \<times> json) list" where
  "normalizeRect Number flds =
     truthy_field ''fill'' (map_of flds ''fill'')
     @ truthy_field ''stroke'' (map_of flds ''stroke'')
     @ opt_field ''strokeWidth'' json_num (toNumber Number (map_of flds ''strokeWidth''))
     @ opt_field ''cornerRadius'' json_num (toNumber Number (map_of flds ''cornerRadius''))"

definition normalizeEllipse :: "(string \<Rightarrow> jsnum) \<Rightarrow> (string \<times> json) list \<Rightarrow> (string \<times> json) list" where
  "normalizeEllipse Number flds =
     truthy_field ''fill'' (map_of flds ''fill'')
     @ truthy_field ''stroke'' (map_of flds ''stroke'')
     @ opt_field ''strokeWidth'' json_num (toNumber Number (map_of flds ''strokeWidth''))"

text \<open>The rectangle an image node without a source is rewritten into.\<close>

definition imagePlaceholder ::
  "(string \<Rightarrow> jsnum) \<Rightarrow> (string \<times> json) list \<Rightarrow> rat \<Rightarrow> rat \<Rightarrow> rat \<Rightarrow> rat \<Rightarrow> json" where
  "imagePlaceholder Number flds x y width height =
     JObj [(''type'', JStr ''rect''),
           (''name'', JStr (case as_string (map_of flds ''name'') of
                             Some n \<Rightarrow> n @ '' Placeholder''
                           | None \<Rightarrow> ''Image Placeholder'')),
           (''x'', json_num x), (''y'', json_num y),
           (''width'', json_num width), (''height'', json_num height),
           (''cornerRadius'', json_num (case toNumber Number (map_of flds ''cornerRadius'') of
                                         Some cr \<Rightarrow> cr | None \<Rightarrow> 8)),
           (''fill'', JObj [(''r'', json_num (9 / 10)), (''g'', json_num (92 / 100)),
                            (''b'', json_num (95 / 100)), (''a'', json_num 1)])]"

definition normalizeImage :: "(string \<Rightarrow> jsnum) \<Rightarrow> (string \<times> json) list \<Rightarrow> (string \<times> json) list" where
  "normalizeImage Number flds =
     opt_field ''imageUrl'' JStr (as_string (map_of flds ''imageUrl''))
     @ opt_field ''imageDataUrl'' JStr (as_string (map_of flds ''imageDataUrl''))
     @ opt_field ''scaleMode'' JStr (as_string (map_of flds ''scaleMode''))
     @ opt_field ''cornerRadius'' json_num (toNumber Number (map_of flds ''cornerRadius''))
     @ truthy_field ''stroke'' (map_of flds ''stroke'')
     @ opt_field ''strokeWidth'' json_num (toNumber Number (map_of flds ''strokeWidth''))"

text \<open>
  \<^verbatim>\<open>typeof v === "object"\<close> for a truthy value: an object or an array. A padding
  side that does not convert is \<^verbatim>\<open>undefined\<close>, which is an absent key here.
\<close>

definition is_object :: "json option \<Rightarrow> bool" where
  "is_object v = (case v of Some (JObj _) \<Rightarrow> True | Some (JArr _) \<Rightarrow> True | _ \<Rightarrow> False)"

definition normalizeFrame :: "(string \<Rightarrow> jsnum) \<Rightarrow> (string \<times> json) list \<Rightarrow> (string \<times> json) list" where
  "normalizeFrame Number flds =
     opt_field ''layoutMode'' JStr (as_string (map_of flds ''layoutMode''))
     @ (if is_object (map_of flds ''padding'')
        then [(''padding'',
                JObj (opt_field ''top'' json_num (toNumber Number (get_prop (map_of flds ''padding'') ''top''))
                    @ opt_field ''right'' json_num (toNumber Number (get_prop (map_of flds ''padding'') ''right''))
                    @ opt_field ''bottom'' json_num (toNumber Number (get_prop (map_of flds ''padding'') ''bottom''))
                    @ opt_field ''left'' json_num (toNumber Number (get_prop (map_of flds ''padding'') ''left''))))]
        else [])
     @ opt_field ''itemSpacing'' json_num (toNumber Number (map_of flds ''itemSpacing''))
     @ truthy_field ''fill'' (map_of flds ''fill'')
     @ truthy_field ''stroke'' (map_of flds ''stroke'')
     @ opt_field ''strokeWidth'' json_num (toNumber Number (map_of flds ''strokeWidth''))
     @ opt_field ''cornerRadius'' json_num (toNumber Number (map_of flds ''cornerRadius''))"

text \<open>\<^verbatim>\<open>.filter(Boolean)\<close> on the results: the nodes that were dropped (null) go.\<close>

fun compact :: "'a option list \<Rightarrow> 'a list" where
  "compact [] = []"
| "compact (None # xs) = compact xs"
| "compact (Some x # xs) = x # compact xs"

definition array_items :: "json option \<Rightarrow> json list option" where
  "array_items v = (case v of Some (JArr cs) \<Rightarrow> Some cs | _ \<Rightarrow> None)"

function normalizeNode :: "(string \<Rightarrow> jsnum) \<Rightarrow> json \<Rightarrow> json option" where
  "normalizeNode Number input =
     (case input of
        JObj flds \<Rightarrow>
          (case as_string (map_of flds ''type'') of
             None \<Rightarrow> None
           | Some type \<Rightarrow>
               if type \<noteq> ''rect'' \<and> type \<noteq> ''text'' \<and> type \<noteq> ''frame'' \<and> type \<noteq> ''ellipse''
                  \<and> type \<noteq> ''image''
               then None
               else
                 (case (toNumber Number (map_of flds ''x''), toNumber Number (map_of flds ''y''),
                        toNumber Number (map_of flds ''width''),
                        toNumber Number (map_of flds ''height'')) of
                    (Some x, Some y, Some width, Some height) \<Rightarrow>
                      (let base = [(''type'', JStr type), (''x'', json_num x), (''y'', json_num y),
                                   (''width'', json_num width), (''height'', json_num height)]
                                  @ opt_field ''name'' JStr (as_string (map_of flds ''name''))
                                  @ opt_field ''opacity'' json_num
                                      (toNumber Number (map_of flds ''opacity''))
                       in if type = ''text'' then Some (JObj (base @ normalizeText Number flds))
                          else if type = ''rect'' then Some (JObj (base @ normalizeRect Number flds))
                          else if type = ''ellipse''
                            then Some (JObj (base @ normalizeEllipse Number flds))
                          else if type = ''image'' then
                            (if as_string (map_of flds ''imageUrl'') = None
                                \<and> as_string (map_of flds ''imageDataUrl'') = None
                             then Some (imagePlaceholder Number flds x y width height)
                             else Some (JObj (base @ normalizeImage Number flds)))
                          else
                            Some (JObj (base @ normalizeFrame Number flds
                              @ (case array_items (map_of flds ''children'') of
                                   Some cs \<Rightarrow>
                                     [(''children'',
                                       JArr (compact (map (normalizeNode Number) cs)))]
                                 | None \<Rightarrow> []))))
                  | _ \<Rightarrow> None))
      | _ \<Rightarrow> None)"
  by pat_completeness auto
termination
proof -
  have smaller: "size c < size (JObj flds)"
    if a: "array_items (map_of flds k) = Some cs" and c: "c \<in> set cs" for flds k cs c
  proof -
    from a have "map_of flds k = Some (JArr cs)"
      by (auto simp: array_items_def split: option.splits json.splits)
    then have "(k, JArr cs) \<in> set flds" by (rule map_of_SomeD)
    then have "size (JArr cs) \<le> size_list (size_prod (\<lambda>_. 0) size) flds"
      by (induction flds) auto
    moreover from c have "size c < size (JArr cs)"
      by (induction cs) auto
    ultimately show ?thesis by simp
  qed
  show ?thesis
    by (relation "measure (\<lambda>(Number, input). size input)") (auto dest: smaller)
qed

declare normalizeNode.simps [simp del]

definition normalizeSpec :: "(string \<Rightarrow> jsnum) \<Rightarrow> json \<Rightarrow> rat \<Rightarrow> rat \<Rightarrow> json" where
  "normalizeSpec Number input width height =
     JObj [(''canvas'',
            JObj [(''name'', JStr (case as_string (get_prop (get_prop (Some input) ''canvas'') ''name'') of
                                    Some n \<Rightarrow> n | None \<Rightarrow> ''Generated from Image'')),
                  (''width'', json_num (case toNumber Number (get_prop (get_prop (Some input) ''canvas'') ''width'') of
                                          Some w \<Rightarrow> w | None \<Rightarrow> width)),
                  (''height'', json_num (case toNumber Number (get_prop (get_prop (Some input) ''canvas'') ''height'') of
                                           Some h \<Rightarrow> h | None \<Rightarrow> height))]),
           (''nodes'',
            JArr (case array_items (get_prop (Some input) ''nodes'') of
                    Some ns \<Rightarrow> compact (map (normalizeNode Number) ns)
                  | None \<Rightarrow> []))]"

section \<open>The renderer (src/unnamed/part_002)\<close>

subsection \<open>Coordinate resolution\<close>

definition fitScore :: "rat \<Rightarrow> rat \<Rightarrow> rat \<Rightarrow> rat \<Rightarrow> rat \<Rightarrow> rat \<Rightarrow> nat" where
  "fitScore x y width height parentWidth parentHeight =
     (let tol = 1 in
        (if x \<ge> - tol then 1 else 0)
      + (if y \<ge> - tol then 1 else 0)
      + (if x + width \<le> parentWidth + tol then 1 else 0)
      + (if y + height \<le> parentHeight + tol then 1 else 0))"

fun node_base :: "DesignNode \<Rightarrow> NodeBase" where
  "node_base (RectNode b p) = b"
| "node_base (TextNode b p) = b"
| "node_base (FrameNode b p cs) = b"
| "node_base (EllipseNode b p) = b"
| "node_base (ImageNode b p) = b"

text \<open>
  The preferred mode is a string at run time; its declared type allows
  \<^verbatim>\<open>"relative"\<close> and \<^verbatim>\<open>"absolute"\<close> only, and the last two lines of the function are
  what it does with any other value.
\<close>

definition chooseLocalPosition ::
  "DesignNode \<Rightarrow> rat \<Rightarrow> rat \<Rightarrow> rat \<Rightarrow> rat \<Rightarrow> string \<Rightarrow> rat \<times> rat" where
  "chooseLocalPosition node parentAbsX parentAbsY parentWidth parentHeight preferredCoordinateMode =
     (let relative = (nb_x (node_base node), nb_y (node_base node));
          absolute = (nb_x (node_base node) - parentAbsX, nb_y (node_base node) - parentAbsY);
          relScore = fitScore (fst relative) (snd relative) (nb_width (node_base node))
                       (nb_height (node_base node)) parentWidth parentHeight;
          absScore = fitScore (fst absolute) (snd absolute) (nb_width (node_base node))
                       (nb_height (node_base node)) parentWidth parentHeight
      in if absScore > relScore then absolute
         else if relScore > absScore then relative
         else if preferredCoordinateMode = ''absolute'' then absolute
         else if preferredCoordinateMode = ''relative'' then relative
         else if parentAbsX \<noteq> 0 \<or> parentAbsY \<noteq> 0 then absolute
         else relative)"

text \<open>The loop of \<^verbatim>\<open>detectCoordinateMode\<close>: the two running sums.\<close>

fun sumScores :: "DesignNode list \<Rightarrow> rat \<Rightarrow> rat \<Rightarrow> rat \<Rightarrow> rat \<Rightarrow> nat \<times> nat \<Rightarrow> nat \<times> nat" where
  "sumScores [] parentAbsX parentAbsY parentWidth parentHeight acc = acc"
| "sumScores (node # nodes) parentAbsX parentAbsY parentWidth parentHeight (relativeScore, absoluteScore) =
     sumScores nodes parentAbsX parentAbsY parentWidth parentHeight
       (relativeScore
          + fitScore (nb_x (node_base node)) (nb_y (node_base node)) (nb_width (node_base node))
              (nb_height (node_base node)) parentWidth parentHeight,
        absoluteScore
          + fitScore (nb_x (node_base node) - parentAbsX) (nb_y (node_base node) - parentAbsY)
              (nb_width (node_base node)) (nb_height (node_base node)) parentWidth parentHeight)"

definition detectCoordinateMode :: "DesignNode list \<Rightarrow> rat \<Rightarrow> rat \<Rightarrow> rat \<Rightarrow> rat \<Rightarrow> string" where
  "detectCoordinateMode nodes parentAbsX parentAbsY parentWidth parentHeight =
     (case sumScores nodes parentAbsX parentAbsY parentWidth parentHeight (0, 0) of
        (relativeScore, absoluteScore) \<Rightarrow>
          if absoluteScore > relativeScore then ''absolute'' else ''relative'')"

subsection \<open>Double-precision arithmetic\<close>

text \<open>
  The product \<^verbatim>\<open>height * 1.6\<close> and the quotient \<^verbatim>\<open>height / 2\<close> of
  \<^verbatim>\<open>inferPillRadius\<close> are operations on IEEE 754 doubles: the exact result is
  rounded to the nearest double, a tie going to the even significand.

  \<open>binade q\<close> is the exponent \<open>e\<close> with \<open>2 ^ e \<le> \<bar>q\<bar> < 2 ^ (e + 1)\<close>, found by
  halving a number that is at least 1 and doubling one that is below 1.
\<close>

function halvings :: "rat \<Rightarrow> nat" where
  "halvings q = (if q < 2 then 0 else Suc (halvings (q / 2)))"
  by pat_completeness auto
termination
proof (relation "measure (\<lambda>q. nat \<lfloor>q\<rfloor>)")
  fix q :: rat
  assume "\<not> q < 2"
  then have "q < of_int \<lfloor>q\<rfloor> + 1" "(1::rat) \<le> of_int \<lfloor>q\<rfloor>"
    by (linarith, simp add: le_floor_iff)
  then have "q / 2 < of_int \<lfloor>q\<rfloor>" by linarith
  then have "\<lfloor>q / 2\<rfloor> < \<lfloor>q\<rfloor>" by (simp add: floor_less_iff)
  moreover have "0 < \<lfloor>q\<rfloor>" using \<open>\<not> q < 2\<close> by linarith
  ultimately show "(q / 2, q) \<in> measure (\<lambda>q. nat \<lfloor>q\<rfloor>)" by simp
qed simp

function doublings :: "rat \<Rightarrow> nat" where
  "doublings q = (if q \<le> 0 \<or> 1 \<le> q then 0 else Suc (doublings (2 * q)))"
  by pat_completeness auto
termination
proof (relation "measure (\<lambda>q. nat \<lfloor>1 / q\<rfloor>)")
  fix q :: rat
  assume "\<not> (q \<le> 0 \<or> 1 \<le> q)"
  define x where "x = 1 / q"
  from \<open>\<not> (q \<le> 0 \<or> 1 \<le> q)\<close> have x: "1 \<le> x" by (simp add: x_def)
  then have "x < of_int \<lfloor>x\<rfloor> + 1" "(1::rat) \<le> of_int \<lfloor>x\<rfloor>"
    by (linarith, simp add: le_floor_iff)
  then have "x / 2 < of_int \<lfloor>x\<rfloor>" by linarith
  then have "\<lfloor>x / 2\<rfloor> < \<lfloor>x\<rfloor>" by (simp only: floor_less_iff)
  moreover from x have "0 < \<lfloor>x\<rfloor>" by linarith
  ultimately have less: "nat \<lfloor>x / 2\<rfloor> < nat \<lfloor>x\<rfloor>" by simp
  have half: "1 / (2 * q) = x / 2" by (simp add: x_def)
  from less show "(2 * q, q) \<in> measure (\<lambda>q. nat \<lfloor>1 / q\<rfloor>)"
    by (simp only: in_measure half x_def[symmetric])
qed simp

declare halvings.simps [simp del] doublings.simps [simp del]

definition binade :: "rat \<Rightarrow> int" where
  "binade q = (if 1 \<le> \<bar>q\<bar> then int (halvings \<bar>q\<bar>) else - int (doublings \<bar>q\<bar>))"

definition pow2 :: "int \<Rightarrow> rat" where
  "pow2 e = (if 0 \<le> e then 2 ^ nat e else 1 / 2 ^ nat (- e))"

text \<open>The nearest integer, a tie going to the even one.\<close>

definition roundEven :: "rat \<Rightarrow> int" where
  "roundEven q =
     (let f = \<lfloor>q\<rfloor> in
      if q - of_int f < 1 / 2 then f
      else if 1 / 2 < q - of_int f then f + 1
      else if even f then f else f + 1)"

text \<open>
  A double has a significand of 53 bits, so the doubles of the binade \<open>e\<close> are the
  multiples of \<open>2 ^ (e - 52)\<close>; below \<open>2 ^ -1022\<close> they are the multiples of
  \<open>2 ^ -1074\<close> (the subnormal numbers). \<open>nearest_double\<close> rounds to that grid, and
  \<open>round_double\<close> gives an infinity to what rounds to \<open>2 ^ 1024\<close> or beyond. The two
  zeros of the doubles are one number here.
\<close>

definition ulp_exponent :: "rat \<Rightarrow> int" where
  "ulp_exponent q = max (binade q) (- 1022) - 52"

definition nearest_double :: "rat \<Rightarrow> rat" where
  "nearest_double q =
     (if q = 0 then 0
      else of_int (roundEven (q / pow2 (ulp_exponent q))) * pow2 (ulp_exponent q))"

definition round_double :: "rat \<Rightarrow> jsnum" where
  "round_double q =
     (let r = nearest_double q in
      if 2 ^ 1024 \<le> r then PosInfinity
      else if r \<le> - (2 ^ 1024) then NegInfinity
      else Finite r)"

text \<open>\<^verbatim>\<open>a * b\<close> and \<^verbatim>\<open>a >= b\<close> on numbers.\<close>

definition js_times :: "rat \<Rightarrow> rat \<Rightarrow> jsnum" where
  "js_times a b = round_double (a * b)"

fun js_ge :: "rat \<Rightarrow> jsnum \<Rightarrow> bool" where
  "js_ge a (Finite b) = (b \<le> a)"
| "js_ge a NegInfinity = True"
| "js_ge a PosInfinity = False"
| "js_ge a NaN = False"

text \<open>The double that the literal \<^verbatim>\<open>1.6\<close> denotes: \<open>1.6 * (1 + 2 ^ -54)\<close>.\<close>

definition double_1_6 :: rat where
  "double_1_6 = 3602879701896397 / 2251799813685248"

subsection \<open>The pill radius\<close>

text \<open>
  \<^verbatim>\<open>inferPillRadius\<close>. Half of a double is a double again unless it falls between
  two subnormal numbers, and it is never an infinity, so \<^verbatim>\<open>Math.floor\<close> gets a
  finite number.
\<close>

definition inferPillRadius :: "rat \<Rightarrow> rat \<Rightarrow> bool \<Rightarrow> rat option \<Rightarrow> rat option" where
  "inferPillRadius width height hasFill explicitCornerRadius =
     (case explicitCornerRadius of
        Some r \<Rightarrow> Some r
      | None \<Rightarrow>
          if \<not> hasFill then None
          else if height \<le> 28 \<and> js_ge width (js_times height double_1_6)
            then Some (of_int \<lfloor>nearest_double (height / 2)\<rfloor>)
          else None)"

subsection \<open>The host canvas\<close>

datatype Paint =
    SolidPaint rat rat rat "rat option"
  | ImagePaint string ScaleMode

datatype obj_kind = RECTANGLE | TEXT | ELLIPSE | FRAME

text \<open>
  A canvas object: its kind and the properties the renderer assigns; \<open>None\<close> is a
  property the renderer has not assigned.
\<close>

record SceneNode =
  sn_kind :: obj_kind
  sn_name :: "string option"
  sn_x :: "rat option"
  sn_y :: "rat option"
  sn_size :: "(rat \<times> rat) option"
  sn_cornerRadius :: "rat option"
  sn_fills :: "Paint list option"
  sn_strokes :: "Paint list option"
  sn_strokeWeight :: "rat option"
  sn_opacity :: "rat option"
  sn_clipsContent :: "bool option"
  sn_fontName :: "(string \<times> string) option"
  sn_characters :: "string option"
  sn_fontSize :: "rat option"
  sn_textAlignHorizontal :: "AlignHorizontal option"
  sn_layoutMode :: "LayoutMode option"
  sn_padding :: "(rat \<times> rat \<times> rat \<times> rat) option"
  sn_itemSpacing :: "rat option"
  sn_axisSizing :: "(string \<times> string) option"

definition blank :: "obj_kind \<Rightarrow> SceneNode" where
  "blank k = \<lparr>sn_kind = k, sn_name = None, sn_x = None, sn_y = None, sn_size = None,
     sn_cornerRadius = None, sn_fills = None, sn_strokes = None, sn_strokeWeight = None,
     sn_opacity = None, sn_clipsContent = None, sn_fontName = None, sn_characters = None,
     sn_fontSize = None, sn_textAlignHorizontal = None, sn_layoutMode = None,
     sn_padding = None, sn_itemSpacing = None, sn_axisSizing = None\<rparr>"

text \<open>
  What the host can answer to the calls that may fail: a font load or a fetch that
  is rejected, a response that is not ok, a body that cannot be read, bytes that are
  no image, a resize that is refused, and the base64 decoders that exist.
\<close>

datatype FetchOutcome = FetchRejected | Response bool "nat list option"

record Host =
  h_loadFontAsync :: "string \<Rightarrow> string \<Rightarrow> bool"
  h_fetch :: "string \<Rightarrow> FetchOutcome"
  h_createImage :: "nat list \<Rightarrow> string option"
  h_resize :: "obj_kind \<Rightarrow> rat \<Rightarrow> rat \<Rightarrow> bool"
  h_atob :: "(string \<Rightarrow> nat list option) option"
  h_base64Decode :: "(string \<Rightarrow> nat list option) option"
  h_viewportCenter :: "rat \<times> rat"

datatype host_call = LoadFontAsync | Fetch | ArrayBuffer | CreateImage | Resize | Atob | Base64Decode

datatype exn = Error string | HostFailure host_call

text \<open>
  The state of one render: the objects created so far (an object's id is its
  position), the \<^verbatim>\<open>appendChild\<close> calls in the order they were made (parent, child),
  the font cache, and what was put on the page and selected.
\<close>

record RenderState =
  rs_objs :: "SceneNode list"
  rs_attached :: "(nat \<times> nat) list"
  rs_fontCache :: "(string \<times> bool) list"
  rs_page :: "nat list"
  rs_selection :: "nat list"

type_synonym 'a outcome = "(exn \<times> RenderState) + 'a"

definition create :: "SceneNode \<Rightarrow> RenderState \<Rightarrow> RenderState" where
  "create obj s = s\<lparr>rs_objs := rs_objs s @ [obj]\<rparr>"

text \<open>The object is created and \<^verbatim>\<open>parent.appendChild\<close> is called on it.\<close>

definition create_appended :: "nat \<Rightarrow> SceneNode \<Rightarrow> RenderState \<Rightarrow> RenderState" where
  "create_appended parent obj s =
     s\<lparr>rs_objs := rs_objs s @ [obj],
       rs_attached := rs_attached s @ [(parent, length (rs_objs s))]\<rparr>"

subsection \<open>Paints\<close>

definition solid :: "RGBA \<Rightarrow> Paint" where
  "solid c = SolidPaint (rgba_r c) (rgba_g c) (rgba_b c) (rgba_a c)"

text \<open>\<^verbatim>\<open>s || d\<close> for an optional string: absent and empty give the default.\<close>

definition or_default :: "string option \<Rightarrow> string \<Rightarrow> string" where
  "or_default s d = (case s of None \<Rightarrow> d | Some t \<Rightarrow> if t = [] then d else t)"

definition base64ToBytes :: "Host \<Rightarrow> string \<Rightarrow> exn + nat list" where
  "base64ToBytes h b64 =
     (case h_atob h of
        Some atob \<Rightarrow> (case atob b64 of Some bytes \<Rightarrow> Inr bytes | None \<Rightarrow> Inl (HostFailure Atob))
      | None \<Rightarrow>
          (case h_base64Decode h of
             Some decode \<Rightarrow>
               (case decode b64 of Some bytes \<Rightarrow> Inr bytes | None \<Rightarrow> Inl (HostFailure Base64Decode))
           | None \<Rightarrow> Inl (Error ''No base64 decoder available in this environment.'')))"

text \<open>
  The pattern \<^verbatim>\<open>/^data:(image\/[^;]+);base64,(.*)$/\<close>: after \<^verbatim>\<open>data:image/\<close> a non-empty
  run without a semicolon, then \<^verbatim>\<open>;base64,\<close>, then a payload without a line
  terminator up to the end of the string. The result is the two groups.
\<close>

definition strip_prefix :: "string \<Rightarrow> string \<Rightarrow> string option" where
  "strip_prefix p s = (if startsWith p s then Some (drop (length p) s) else None)"

definition match_data_url :: "string \<Rightarrow> (string \<times> string) option" where
  "match_data_url s =
     (case strip_prefix ''data:image/'' s of
        None \<Rightarrow> None
      | Some rest \<Rightarrow>
          (let subtype = takeWhile (\<lambda>c. c \<noteq> CHR '';'') rest in
           if subtype = [] then None
           else (case strip_prefix '';base64,'' (dropWhile (\<lambda>c. c \<noteq> CHR '';'') rest) of
                   None \<Rightarrow> None
                 | Some payload \<Rightarrow>
                     if \<exists>c \<in> set payload. c = CHR 0x0A \<or> c = CHR 0x0D then None
                     else Some (''image/'' @ subtype, payload))))"

text \<open>\<^verbatim>\<open>if (s)\<close> on an optional string: the string when it is there and not empty.\<close>

definition nonempty :: "string option \<Rightarrow> string option" where
  "nonempty s = (case s of None \<Rightarrow> None | Some t \<Rightarrow> if t = [] then None else Some t)"

definition imagePaintFromNode :: "Host \<Rightarrow> ImageProps \<Rightarrow> exn + Paint option" where
  "imagePaintFromNode h node =
     (let scaleMode = (case image_scaleMode node of Some m \<Rightarrow> m | None \<Rightarrow> FILL) in
      case nonempty (image_imageDataUrl node) of
        Some imageDataUrl \<Rightarrow>
          (case match_data_url imageDataUrl of
             None \<Rightarrow> Inr None
           | Some m \<Rightarrow>
               (case base64ToBytes h (snd m) of
                  Inl e \<Rightarrow> Inl e
                | Inr bytes \<Rightarrow>
                    (case h_createImage h bytes of
                       None \<Rightarrow> Inl (HostFailure CreateImage)
                     | Some hash \<Rightarrow> Inr (Some (ImagePaint hash scaleMode)))))
      | None \<Rightarrow>
          (case nonempty (image_imageUrl node) of
             Some imageUrl \<Rightarrow>
               (case h_fetch h imageUrl of
                  FetchRejected \<Rightarrow> Inl (HostFailure Fetch)
                | Response ok body \<Rightarrow>
                    if \<not> ok then Inr None
                    else (case body of
                            None \<Rightarrow> Inl (HostFailure ArrayBuffer)
                          | Some buf \<Rightarrow>
                              (case h_createImage h buf of
                                 None \<Rightarrow> Inl (HostFailure CreateImage)
                               | Some hash \<Rightarrow> Inr (Some (ImagePaint hash scaleMode)))))
           | None \<Rightarrow> Inr None))"

text \<open>
  \<^verbatim>\<open>loadFont\<close> of \<^verbatim>\<open>renderToFigma\<close>: the promise of the first load under a key is
  kept, and every later call under that key awaits the same promise.
\<close>

definition loadFont :: "Host \<Rightarrow> string \<Rightarrow> string \<Rightarrow> RenderState \<Rightarrow> bool \<times> RenderState" where
  "loadFont h family style s =
     (let key = family @ ''::'' @ style in
      case map_of (rs_fontCache s) key of
        Some loaded \<Rightarrow> (loaded, s)
      | None \<Rightarrow>
          (h_loadFontAsync h family style,
           s\<lparr>rs_fontCache := (key, h_loadFontAsync h family style) # rs_fontCache s\<rparr>))"

subsection \<open>One node\<close>

text \<open>The strokes and the stroke weight: both are set when colour and width are there.\<close>

definition with_stroke :: "RGBA option \<Rightarrow> rat option \<Rightarrow> SceneNode \<Rightarrow> SceneNode" where
  "with_stroke stroke strokeWidth obj =
     (case (stroke, strokeWidth) of
        (Some c, Some w) \<Rightarrow> obj\<lparr>sn_strokes := Some [solid c], sn_strokeWeight := Some w\<rparr>
      | _ \<Rightarrow> obj\<lparr>sn_strokes := Some []\<rparr>)"

definition with_opacity :: "rat option \<Rightarrow> SceneNode \<Rightarrow> SceneNode" where
  "with_opacity opacity obj = (case opacity of Some v \<Rightarrow> obj\<lparr>sn_opacity := Some v\<rparr> | None \<Rightarrow> obj)"

definition with_cornerRadius :: "rat option \<Rightarrow> SceneNode \<Rightarrow> SceneNode" where
  "with_cornerRadius radius obj =
     (case radius of Some v \<Rightarrow> obj\<lparr>sn_cornerRadius := Some v\<rparr> | None \<Rightarrow> obj)"

definition placed :: "obj_kind \<Rightarrow> string \<Rightarrow> rat \<times> rat \<Rightarrow> SceneNode" where
  "placed k name pos = (blank k)\<lparr>sn_name := Some name, sn_x := Some (fst pos), sn_y := Some (snd pos)\<rparr>"

definition transparent_white :: Paint where
  "transparent_white = SolidPaint 1 1 1 (Some 0)"

definition gray_fallback :: Paint where
  "gray_fallback = SolidPaint (9 / 10) (9 / 10) (9 / 10) (Some 1)"

definition renderRect :: "Host \<Rightarrow> NodeBase \<Rightarrow> RectProps \<Rightarrow> nat \<Rightarrow> rat \<times> rat \<Rightarrow> RenderState \<Rightarrow> RenderState outcome" where
  "renderRect h node p parent pos s =
     (let r = placed RECTANGLE (or_default (nb_name node) ''Rect'') pos in
      if \<not> h_resize h RECTANGLE (nb_width node) (nb_height node)
      then Inl (HostFailure Resize, create r s)
      else
        Inr (create_appended parent
          (with_opacity (nb_opacity node)
            (with_stroke (rect_stroke p) (rect_strokeWidth p)
              ((with_cornerRadius
                  (inferPillRadius (nb_width node) (nb_height node) (rect_fill p \<noteq> None)
                     (rect_cornerRadius p))
                  (r\<lparr>sn_size := Some (nb_width node, nb_height node)\<rparr>))
               \<lparr>sn_fills := Some [case rect_fill p of Some c \<Rightarrow> solid c
                                   | None \<Rightarrow> transparent_white]\<rparr>))) s))"

definition renderText :: "Host \<Rightarrow> NodeBase \<Rightarrow> TextProps \<Rightarrow> nat \<Rightarrow> rat \<times> rat \<Rightarrow> RenderState \<Rightarrow> RenderState outcome" where
  "renderText h node p parent pos s =
     (let t = placed TEXT (or_default (nb_name node) ''Text'') pos;
          family = or_default (text_fontFamily p) ''Inter'';
          style = or_default (text_fontStyle p) ''Regular''
      in case loadFont h family style s of
           (False, s1) \<Rightarrow> Inl (HostFailure LoadFontAsync, create t s1)
         | (True, s1) \<Rightarrow>
             (let t1 = t\<lparr>sn_fontName := Some (family, style),
                         sn_characters := Some (text_text p)\<rparr>;
                  t2 = (case text_fontSize p of
                          Some fs \<Rightarrow> if fs \<noteq> 0 then t1\<lparr>sn_fontSize := Some fs\<rparr> else t1
                        | None \<Rightarrow> t1);
                  t3 = (case text_fill p of Some c \<Rightarrow> t2\<lparr>sn_fills := Some [solid c]\<rparr>
                        | None \<Rightarrow> t2);
                  t4 = (case text_alignHorizontal p of
                          Some al \<Rightarrow> t3\<lparr>sn_textAlignHorizontal := Some al\<rparr>
                        | None \<Rightarrow> t3);
                  t5 = with_opacity (nb_opacity node) t4;
                  t6 = (if h_resize h TEXT (nb_width node) (nb_height node)
                        then t5\<lparr>sn_size := Some (nb_width node, nb_height node)\<rparr>
                        else t5)
              in Inr (create_appended parent t6 s1)))"

definition renderEllipse :: "Host \<Rightarrow> NodeBase \<Rightarrow> EllipseProps \<Rightarrow> nat \<Rightarrow> rat \<times> rat \<Rightarrow> RenderState \<Rightarrow> RenderState outcome" where
  "renderEllipse h node p parent pos s =
     (let e = placed ELLIPSE (or_default (nb_name node) ''Ellipse'') pos in
      if \<not> h_resize h ELLIPSE (nb_width node) (nb_height node)
      then Inl (HostFailure Resize, create e s)
      else
        Inr (create_appended parent
          (with_opacity (nb_opacity node)
            (with_stroke (ellipse_stroke p) (ellipse_strokeWidth p)
              (e\<lparr>sn_size := Some (nb_width node, nb_height node),
                 sn_fills := Some [case ellipse_fill p of Some c \<Rightarrow> solid c
                                   | None \<Rightarrow> transparent_white]\<rparr>))) s))"

definition renderImage :: "Host \<Rightarrow> NodeBase \<Rightarrow> ImageProps \<Rightarrow> nat \<Rightarrow> rat \<times> rat \<Rightarrow> RenderState \<Rightarrow> RenderState outcome" where
  "renderImage h node p parent pos s =
     (let r = placed RECTANGLE (or_default (nb_name node) ''Image'') pos in
      if \<not> h_resize h RECTANGLE (nb_width node) (nb_height node)
      then Inl (HostFailure Resize, create r s)
      else
        (let r1 = with_cornerRadius (image_cornerRadius p)
                    (r\<lparr>sn_size := Some (nb_width node, nb_height node)\<rparr>)
         in case imagePaintFromNode h p of
              Inl e \<Rightarrow> Inl (e, create r1 s)
            | Inr paint \<Rightarrow>
                Inr (create_appended parent
                  (with_opacity (nb_opacity node)
                    (with_stroke (image_stroke p) (image_strokeWidth p)
                      (r1\<lparr>sn_fills := Some [case paint of Some pt \<Rightarrow> pt
                                               | None \<Rightarrow> gray_fallback]\<rparr>))) s)))"

text \<open>The frame object, as it is when it is appended to its parent.\<close>

definition frameObject :: "NodeBase \<Rightarrow> FrameProps \<Rightarrow> rat \<times> rat \<Rightarrow> SceneNode" where
  "frameObject node p pos =
     (let f = (placed FRAME (or_default (nb_name node) ''Frame'') pos)
                \<lparr>sn_size := Some (nb_width node, nb_height node),
                  sn_fills := Some (case frame_fill p of Some c \<Rightarrow> [solid c] | None \<Rightarrow> [])\<rparr>;
          f1 = with_opacity (nb_opacity node)
                 (with_cornerRadius
                    (inferPillRadius (nb_width node) (nb_height node) (frame_fill p \<noteq> None)
                       (frame_cornerRadius p))
                    (with_stroke (frame_stroke p) (frame_strokeWidth p) f))
      in if frame_layoutMode p \<noteq> NONE then
           (let f2 = f1\<lparr>sn_layoutMode := Some (frame_layoutMode p)\<rparr>;
                f3 = (case frame_padding p of
                        Some pd \<Rightarrow>
                          f2\<lparr>sn_padding :=
                               Some (case pad_top pd of Some v \<Rightarrow> v | None \<Rightarrow> 0,
                                     case pad_right pd of Some v \<Rightarrow> v | None \<Rightarrow> 0,
                                     case pad_bottom pd of Some v \<Rightarrow> v | None \<Rightarrow> 0,
                                     case pad_left pd of Some v \<Rightarrow> v | None \<Rightarrow> 0)\<rparr>
                      | None \<Rightarrow> f2);
                f4 = (case frame_itemSpacing p of
                        Some sp \<Rightarrow> f3\<lparr>sn_itemSpacing := Some sp\<rparr>
                      | None \<Rightarrow> f3)
            in f4\<lparr>sn_axisSizing := Some (''AUTO'', ''AUTO'')\<rparr>)
         else f1\<lparr>sn_layoutMode := Some NONE\<rparr>)"

text \<open>
  \<^verbatim>\<open>renderNode\<close>, and the loop \<^verbatim>\<open>for (const c of ...) await renderNode(c, ...)\<close> that
  \<^verbatim>\<open>renderNode\<close> runs over the children of a frame and \<^verbatim>\<open>renderToFigma\<close> over the
  nodes of the spec: every node is awaited before the next one starts, and an
  exception ends the loop.
\<close>

fun renderNode ::
    "Host \<Rightarrow> DesignNode \<Rightarrow> nat \<Rightarrow> rat \<Rightarrow> rat \<Rightarrow> rat \<Rightarrow> rat \<Rightarrow> string \<Rightarrow> RenderState \<Rightarrow> RenderState outcome"
  and renderNodes ::
    "Host \<Rightarrow> DesignNode list \<Rightarrow> nat \<Rightarrow> rat \<Rightarrow> rat \<Rightarrow> rat \<Rightarrow> rat \<Rightarrow> string \<Rightarrow> RenderState \<Rightarrow> RenderState outcome"
  where
  "renderNode h (RectNode node p) parent parentAbsX parentAbsY parentWidth parentHeight mode s =
     renderRect h node p parent
       (chooseLocalPosition (RectNode node p) parentAbsX parentAbsY parentWidth parentHeight mode) s"
| "renderNode h (TextNode node p) parent parentAbsX parentAbsY parentWidth parentHeight mode s =
     renderText h node p parent
       (chooseLocalPosition (TextNode node p) parentAbsX parentAbsY parentWidth parentHeight mode) s"
| "renderNode h (EllipseNode node p) parent parentAbsX parentAbsY parentWidth parentHeight mode s =
     renderEllipse h node p parent
       (chooseLocalPosition (EllipseNode node p) parentAbsX parentAbsY parentWidth parentHeight mode) s"
| "renderNode h (ImageNode node p) parent parentAbsX parentAbsY parentWidth parentHeight mode s =
     renderImage h node p parent
       (chooseLocalPosition (ImageNode node p) parentAbsX parentAbsY parentWidth parentHeight mode) s"
| "renderNode h (FrameNode node p children) parent parentAbsX parentAbsY parentWidth parentHeight mode s =
     (let pos = chooseLocalPosition (FrameNode node p children) parentAbsX parentAbsY
                  parentWidth parentHeight mode
      in if \<not> h_resize h FRAME (nb_width node) (nb_height node)
         then Inl (HostFailure Resize,
                   create (placed FRAME (or_default (nb_name node) ''Frame'') pos) s)
         else
           renderNodes h children (length (rs_objs s)) (nb_x node) (nb_y node)
             (nb_width node) (nb_height node)
             (detectCoordinateMode children (nb_x node) (nb_y node) (nb_width node)
                (nb_height node))
             (create_appended parent (frameObject node p pos) s))"
| "renderNodes h [] parent parentAbsX parentAbsY parentWidth parentHeight mode s = Inr s"
| "renderNodes h (n # ns) parent parentAbsX parentAbsY parentWidth parentHeight mode s =
     (case renderNode h n parent parentAbsX parentAbsY parentWidth parentHeight mode s of
        Inl e \<Rightarrow> Inl e
      | Inr s' \<Rightarrow> renderNodes h ns parent parentAbsX parentAbsY parentWidth parentHeight mode s')"

subsection \<open>The whole render\<close>

record Screenshot =
  shot_base64 :: string
  shot_mime :: string

definition normalizeScreenshot :: "Screenshot option \<Rightarrow> exn + Screenshot option" where
  "normalizeScreenshot screenshot =
     (case screenshot of
        None \<Rightarrow> Inr None
      | Some sh \<Rightarrow>
          (let mime = toLowerCase (shot_mime sh) in
           if mime = [] \<or> (mime \<noteq> ''image/png'' \<and> mime \<noteq> ''image/jpeg'' \<and> mime \<noteq> ''image/jpg'')
           then Inl (Error (''Unsupported image type: '' @ shot_mime sh @ ''. Use PNG or JPEG.''))
           else if shot_base64 sh = [] \<or> length (shot_base64 sh) < 16
           then Inl (Error ''Image data is empty or too small.'')
           else Inr (Some \<lparr>shot_base64 = shot_base64 sh, shot_mime = mime\<rparr>)))"

definition empty_state :: RenderState where
  "empty_state = \<lparr>rs_objs = [], rs_attached = [], rs_fontCache = [], rs_page = [], rs_selection = []\<rparr>"

text \<open>
  The root frame is object 0 and the overlay is object 1 of a fresh render; the
  nodes of the spec are rendered into the overlay, at the origin, in the default
  mode \<^verbatim>\<open>"relative"\<close>.
\<close>

definition rootObject :: "Host \<Rightarrow> Canvas \<Rightarrow> SceneNode" where
  "rootObject h canvas =
     (blank FRAME)\<lparr>sn_name := Some (or_default (Some (canvas_name canvas)) ''Generated''),
       sn_size := Some (canvas_width canvas, canvas_height canvas),
       sn_x := Some (fst (h_viewportCenter h) - canvas_width canvas / 2),
       sn_y := Some (snd (h_viewportCenter h) - canvas_height canvas / 2),
       sn_clipsContent := Some True\<rparr>"

definition overlayObject :: "Canvas \<Rightarrow> SceneNode" where
  "overlayObject canvas =
     (blank FRAME)\<lparr>sn_name := Some ''AI layers'',
       sn_size := Some (canvas_width canvas, canvas_height canvas),
       sn_x := Some 0, sn_y := Some 0, sn_fills := Some [], sn_strokes := Some []\<rparr>"

definition renderToFigma :: "Host \<Rightarrow> DesignSpec \<Rightarrow> Screenshot option \<Rightarrow> RenderState outcome" where
  "renderToFigma h spec screenshot =
     (case normalizeScreenshot screenshot of
        Inl e \<Rightarrow> Inl (e, empty_state)
      | Inr shot \<Rightarrow>
          if \<not> h_resize h FRAME (canvas_width (spec_canvas spec)) (canvas_height (spec_canvas spec))
          then Inl (HostFailure Resize, create (blank FRAME) empty_state)
          else
            (case (case shot of
                     None \<Rightarrow> Inr []
                   | Some sh \<Rightarrow>
                       (case base64ToBytes h (shot_base64 sh) of
                          Inl e \<Rightarrow> Inl e
                        | Inr bytes \<Rightarrow>
                            (case h_createImage h bytes of
                               None \<Rightarrow> Inl (HostFailure CreateImage)
                             | Some hash \<Rightarrow> Inr [ImagePaint hash FILL]))) of
               Inl e \<Rightarrow> Inl (e, create (rootObject h (spec_canvas spec)) empty_state)
             | Inr fills \<Rightarrow>
                 (case renderNodes h (spec_nodes spec) 1 0 0 (canvas_width (spec_canvas spec))
                         (canvas_height (spec_canvas spec)) ''relative''
                         (create_appended 0 (overlayObject (spec_canvas spec))
                            (create ((rootObject h (spec_canvas spec))\<lparr>sn_fills := Some fills\<rparr>)
                               empty_state)) of
                    Inl e \<Rightarrow> Inl e
                  | Inr s \<Rightarrow> Inr (s\<lparr>rs_page := rs_page s @ [0], rs_selection := [0]\<rparr>))))"

section \<open>The vocabulary of the properties\<close>

subsection \<open>Validated nodes, and validated values read as raw values\<close>

text \<open>
  The constraints of the schemas, on the validated values: \<open>valid_node\<close> holds of a
  node when every field of it, and of the nodes below it, is in the range its
  schema asks for.
\<close>

definition opt_ok :: "('a \<Rightarrow> bool) \<Rightarrow> 'a option \<Rightarrow> bool" where
  "opt_ok P v = (case v of None \<Rightarrow> True | Some x \<Rightarrow> P x)"

definition unit_interval :: "rat \<Rightarrow> bool" where
  "unit_interval q = (0 \<le> q \<and> q \<le> 1)"

definition color_ok :: "RGBA \<Rightarrow> bool" where
  "color_ok c = (unit_interval (rgba_r c) \<and> unit_interval (rgba_g c) \<and> unit_interval (rgba_b c)
                \<and> opt_ok unit_interval (rgba_a c))"

definition base_ok :: "NodeBase \<Rightarrow> bool" where
  "base_ok b = (0 < nb_width b \<and> 0 < nb_height b \<and> opt_ok unit_interval (nb_opacity b))"

definition rect_ok :: "RectProps \<Rightarrow> bool" where
  "rect_ok p = (opt_ok color_ok (rect_fill p) \<and> opt_ok color_ok (rect_stroke p)
      \<and> opt_ok (\<lambda>q. 0 \<le> q) (rect_strokeWidth p) \<and> opt_ok (\<lambda>q. 0 \<le> q) (rect_cornerRadius p))"

definition text_ok :: "TextProps \<Rightarrow> bool" where
  "text_ok p = (opt_ok (\<lambda>q. 0 < q) (text_fontSize p) \<and> opt_ok color_ok (text_fill p))"

definition padding_ok :: "FramePadding \<Rightarrow> bool" where
  "padding_ok p = (opt_ok (\<lambda>q. 0 \<le> q) (pad_top p) \<and> opt_ok (\<lambda>q. 0 \<le> q) (pad_right p)
      \<and> opt_ok (\<lambda>q. 0 \<le> q) (pad_bottom p) \<and> opt_ok (\<lambda>q. 0 \<le> q) (pad_left p))"

definition frame_ok :: "FrameProps \<Rightarrow> bool" where
  "frame_ok p = (opt_ok padding_ok (frame_padding p) \<and> opt_ok (\<lambda>q. 0 \<le> q) (frame_itemSpacing p)
      \<and> opt_ok color_ok (frame_fill p) \<and> opt_ok color_ok (frame_stroke p)
      \<and> opt_ok (\<lambda>q. 0 \<le> q) (frame_strokeWidth p) \<and> opt_ok (\<lambda>q. 0 \<le> q) (frame_cornerRadius p))"

definition ellipse_ok :: "EllipseProps \<Rightarrow> bool" where
  "ellipse_ok p = (opt_ok color_ok (ellipse_fill p) \<and> opt_ok color_ok (ellipse_stroke p)
      \<and> opt_ok (\<lambda>q. 0 \<le> q) (ellipse_strokeWidth p))"

definition image_ok :: "ImageProps \<Rightarrow> bool" where
  "image_ok p = (opt_ok (\<lambda>s. s \<noteq> []) (image_imageUrl p)
      \<and> opt_ok (startsWith ''data:image/'') (image_imageDataUrl p)
      \<and> (image_imageUrl p \<noteq> None \<or> image_imageDataUrl p \<noteq> None)
      \<and> opt_ok (\<lambda>q. 0 \<le> q) (image_cornerRadius p) \<and> opt_ok color_ok (image_stroke p)
      \<and> opt_ok (\<lambda>q. 0 \<le> q) (image_strokeWidth p))"

fun valid_node :: "DesignNode \<Rightarrow> bool" where
  "valid_node (RectNode b p) = (base_ok b \<and> rect_ok p)"
| "valid_node (TextNode b p) = (base_ok b \<and> text_ok p)"
| "valid_node (FrameNode b p cs) = (base_ok b \<and> frame_ok p \<and> list_all valid_node cs)"
| "valid_node (EllipseNode b p) = (base_ok b \<and> ellipse_ok p)"
| "valid_node (ImageNode b p) = (base_ok b \<and> image_ok p)"

text \<open>
  The validator returns a plain object: the validated value is a raw value again,
  with the keys of the schema only and the defaults filled in.
\<close>

definition json_of_RGBA :: "RGBA \<Rightarrow> json" where
  "json_of_RGBA c =
     JObj ([(''r'', json_num (rgba_r c)), (''g'', json_num (rgba_g c)),
            (''b'', json_num (rgba_b c))] @ opt_field ''a'' json_num (rgba_a c))"

definition base_fields :: "NodeBase \<Rightarrow> (string \<times> json) list" where
  "base_fields b =
     [(''x'', json_num (nb_x b)), (''y'', json_num (nb_y b)),
      (''width'', json_num (nb_width b)), (''height'', json_num (nb_height b))]
     @ opt_field ''name'' JStr (nb_name b) @ opt_field ''opacity'' json_num (nb_opacity b)"

fun AlignHorizontal_str :: "AlignHorizontal \<Rightarrow> string" where
  "AlignHorizontal_str LEFT = ''LEFT''"
| "AlignHorizontal_str CENTER = ''CENTER''"
| "AlignHorizontal_str RIGHT = ''RIGHT''"
| "AlignHorizontal_str JUSTIFIED = ''JUSTIFIED''"

fun LayoutMode_str :: "LayoutMode \<Rightarrow> string" where
  "LayoutMode_str NONE = ''NONE''"
| "LayoutMode_str HORIZONTAL = ''HORIZONTAL''"
| "LayoutMode_str VERTICAL = ''VERTICAL''"

fun ScaleMode_str :: "ScaleMode \<Rightarrow> string" where
  "ScaleMode_str FILL = ''FILL''"
| "ScaleMode_str FIT = ''FIT''"
| "ScaleMode_str CROP = ''CROP''"
| "ScaleMode_str TILE = ''TILE''"

definition json_of_padding :: "FramePadding \<Rightarrow> json" where
  "json_of_padding p =
     JObj (opt_field ''top'' json_num (pad_top p) @ opt_field ''right'' json_num (pad_right p)
           @ opt_field ''bottom'' json_num (pad_bottom p) @ opt_field ''left'' json_num (pad_left p))"

definition frame_fields :: "FrameProps \<Rightarrow> (string \<times> json) list" where
  "frame_fields p =
     [(''layoutMode'', JStr (LayoutMode_str (frame_layoutMode p)))]
     @ opt_field ''padding'' json_of_padding (frame_padding p)
     @ opt_field ''itemSpacing'' json_num (frame_itemSpacing p)
     @ opt_field ''fill'' json_of_RGBA (frame_fill p)
     @ opt_field ''stroke'' json_of_RGBA (frame_stroke p)
     @ opt_field ''strokeWidth'' json_num (frame_strokeWidth p)
     @ opt_field ''cornerRadius'' json_num (frame_cornerRadius p)"

fun json_of_node :: "DesignNode \<Rightarrow> json" where
  "json_of_node (RectNode b p) =
     JObj ((''type'', JStr ''rect'') # base_fields b
           @ opt_field ''fill'' json_of_RGBA (rect_fill p)
           @ opt_field ''stroke'' json_of_RGBA (rect_stroke p)
           @ opt_field ''strokeWidth'' json_num (rect_strokeWidth p)
           @ opt_field ''cornerRadius'' json_num (rect_cornerRadius p))"
| "json_of_node (TextNode b p) =
     JObj ((''type'', JStr ''text'') # base_fields b
           @ [(''text'', JStr (text_text p))]
           @ opt_field ''fontFamily'' JStr (text_fontFamily p)
           @ opt_field ''fontStyle'' JStr (text_fontStyle p)
           @ opt_field ''fontSize'' json_num (text_fontSize p)
           @ opt_field ''fill'' json_of_RGBA (text_fill p)
           @ opt_field ''alignHorizontal'' (\<lambda>a. JStr (AlignHorizontal_str a))
               (text_alignHorizontal p))"
| "json_of_node (FrameNode b p cs) =
     JObj ((''type'', JStr ''frame'') # base_fields b @ frame_fields p
           @ [(''children'', JArr (map json_of_node cs))])"
| "json_of_node (EllipseNode b p) =
     JObj ((''type'', JStr ''ellipse'') # base_fields b
           @ opt_field ''fill'' json_of_RGBA (ellipse_fill p)
           @ opt_field ''stroke'' json_of_RGBA (ellipse_stroke p)
           @ opt_field ''strokeWidth'' json_num (ellipse_strokeWidth p))"
| "json_of_node (ImageNode b p) =
     JObj ((''type'', JStr ''image'') # base_fields b
           @ opt_field ''imageUrl'' JStr (image_imageUrl p)
           @ opt_field ''imageDataUrl'' JStr (image_imageDataUrl p)
           @ opt_field ''scaleMode'' (\<lambda>m. JStr (ScaleMode_str m)) (image_scaleMode p)
           @ opt_field ''cornerRadius'' json_num (image_cornerRadius p)
           @ opt_field ''stroke'' json_of_RGBA (image_stroke p)
           @ opt_field ''strokeWidth'' json_num (image_strokeWidth p))"

definition json_of_spec :: "DesignSpec \<Rightarrow> json" where
  "json_of_spec s =
     JObj [(''canvas'', JObj [(''name'', JStr (canvas_name (spec_canvas s))),
                              (''width'', json_num (canvas_width (spec_canvas s))),
                              (''height'', json_num (canvas_height (spec_canvas s)))]),
           (''nodes'', JArr (map json_of_node (spec_nodes s)))]"

text \<open>
  The invariant of a validated node: tag, size, opacity and colours. \<open>subnodes\<close>
  lists a node and the nodes below it, in document order.
\<close>

fun node_type :: "DesignNode \<Rightarrow> string" where
  "node_type (RectNode b p) = ''rect''"
| "node_type (TextNode b p) = ''text''"
| "node_type (FrameNode b p cs) = ''frame''"
| "node_type (EllipseNode b p) = ''ellipse''"
| "node_type (ImageNode b p) = ''image''"

fun node_colors :: "DesignNode \<Rightarrow> RGBA option list" where
  "node_colors (RectNode b p) = [rect_fill p, rect_stroke p]"
| "node_colors (TextNode b p) = [text_fill p]"
| "node_colors (FrameNode b p cs) = [frame_fill p, frame_stroke p]"
| "node_colors (EllipseNode b p) = [ellipse_fill p, ellipse_stroke p]"
| "node_colors (ImageNode b p) = [image_stroke p]"

fun subnodes :: "DesignNode \<Rightarrow> DesignNode list" where
  "subnodes (FrameNode b p cs) = FrameNode b p cs # concat (map subnodes cs)"
| "subnodes n = [n]"

definition node_invariant :: "DesignNode \<Rightarrow> bool" where
  "node_invariant m =
     (node_type m \<in> {''rect'', ''text'', ''frame'', ''ellipse'', ''image''}
      \<and> 0 < nb_width (node_base m) \<and> 0 < nb_height (node_base m)
      \<and> opt_ok unit_interval (nb_opacity (node_base m))
      \<and> list_all (opt_ok color_ok) (node_colors m))"

text \<open>
  The same on the raw side: a raw node has one of the five tags and finite numbers
  for x, y, width and height, the last two positive; \<open>raw_node j r\<close> holds when \<open>r\<close>
  is \<open>j\<close> or a node below it, through the \<^verbatim>\<open>children\<close> of frames.
\<close>

fun finite_number :: "json option \<Rightarrow> rat option" where
  "finite_number (Some (JNum (Finite q))) = Some q"
| "finite_number _ = None"

definition positive_number :: "json option \<Rightarrow> bool" where
  "positive_number v = (case finite_number v of None \<Rightarrow> False | Some q \<Rightarrow> 0 < q)"

definition raw_ok :: "json \<Rightarrow> bool" where
  "raw_ok r =
     (case r of
        JObj flds \<Rightarrow>
          map_of flds ''type'' \<in> Some ` JStr ` {''rect'', ''text'', ''frame'', ''ellipse'', ''image''}
          \<and> finite_number (map_of flds ''x'') \<noteq> None
          \<and> finite_number (map_of flds ''y'') \<noteq> None
          \<and> positive_number (map_of flds ''width'')
          \<and> positive_number (map_of flds ''height'')
      | _ \<Rightarrow> False)"

inductive raw_node :: "json \<Rightarrow> json \<Rightarrow> bool" where
  self: "raw_node j j"
| child: "map_of flds ''type'' = Some (JStr ''frame'') \<Longrightarrow> map_of flds ''children'' = Some (JArr cs)
    \<Longrightarrow> c \<in> set cs \<Longrightarrow> raw_node c r \<Longrightarrow> raw_node (JObj flds) r"

subsection \<open>Whole specs, and an example\<close>

text \<open>The raw nodes of a raw spec: the nodes of the trees under its \<^verbatim>\<open>nodes\<close>.\<close>

definition spec_raw_node :: "json \<Rightarrow> json \<Rightarrow> bool" where
  "spec_raw_node j r =
     (case j of
        JObj flds \<Rightarrow>
          (case map_of flds ''nodes'' of
             Some (JArr tops) \<Rightarrow> \<exists>top \<in> set tops. raw_node top r
           | _ \<Rightarrow> False)
      | _ \<Rightarrow> False)"

text \<open>
  An example: a raw spec whose canvas has no name, with a frame that has no
  layout mode and holds a rectangle with a key the schema does not know, and a
  frame that has neither layout mode nor children; the value it validates to;
  and a raw spec with a nested rectangle of width 0 at an infinite x.
\<close>

definition example_raw_rect :: json where
  "example_raw_rect =
     JObj [(''type'', JStr ''rect''), (''x'', JNum (Finite 1)), (''y'', JNum (Finite 2)),
           (''width'', JNum (Finite 10)), (''height'', JNum (Finite 5)),
           (''fill'', JObj [(''r'', JNum (Finite 1)), (''g'', JNum (Finite (1 / 2))),
                            (''b'', JNum (Finite 0))]),
           (''id'', JStr ''n1'')]"

definition example_raw_spec :: json where
  "example_raw_spec =
     JObj [(''canvas'', JObj [(''width'', JNum (Finite 800)), (''height'', JNum (Finite 600))]),
           (''nodes'',
            JArr [JObj [(''type'', JStr ''frame''), (''x'', JNum (Finite 0)),
                        (''y'', JNum (Finite 0)), (''width'', JNum (Finite 100)),
                        (''height'', JNum (Finite 50)),
                        (''children'', JArr [example_raw_rect])],
                  JObj [(''type'', JStr ''frame''), (''x'', JNum (Finite 0)),
                        (''y'', JNum (Finite 60)), (''width'', JNum (Finite 100)),
                        (''height'', JNum (Finite 20))]])]"

definition example_rect :: DesignNode where
  "example_rect =
     RectNode \<lparr>nb_name = None, nb_x = 1, nb_y = 2, nb_width = 10, nb_height = 5,
               nb_opacity = None\<rparr>
       \<lparr>rect_fill = Some \<lparr>rgba_r = 1, rgba_g = 1 / 2, rgba_b = 0, rgba_a = None\<rparr>,
        rect_stroke = None, rect_strokeWidth = None, rect_cornerRadius = None\<rparr>"

definition example_frame :: DesignNode where
  "example_frame =
     FrameNode \<lparr>nb_name = None, nb_x = 0, nb_y = 0, nb_width = 100, nb_height = 50,
                nb_opacity = None\<rparr>
       \<lparr>frame_layoutMode = NONE, frame_padding = None, frame_itemSpacing = None,
        frame_fill = None, frame_stroke = None, frame_strokeWidth = None,
        frame_cornerRadius = None\<rparr>
       [example_rect]"

definition example_empty_frame :: DesignNode where
  "example_empty_frame =
     FrameNode \<lparr>nb_name = None, nb_x = 0, nb_y = 60, nb_width = 100, nb_height = 20,
                nb_opacity = None\<rparr>
       \<lparr>frame_layoutMode = NONE, frame_padding = None, frame_itemSpacing = None,
        frame_fill = None, frame_stroke = None, frame_strokeWidth = None,
        frame_cornerRadius = None\<rparr>
       []"

definition example_spec :: DesignSpec where
  "example_spec =
     \<lparr>spec_canvas = \<lparr>canvas_name = ''Generated from Image'', canvas_width = 800,
                      canvas_height = 600\<rparr>,
      spec_nodes = [example_frame, example_empty_frame]\<rparr>"

definition example_bad_spec :: json where
  "example_bad_spec =
     JObj [(''canvas'', JObj [(''width'', JNum (Finite 800)), (''height'', JNum (Finite 600))]),
           (''nodes'',
            JArr [JObj [(''type'', JStr ''frame''), (''x'', JNum (Finite 0)),
                        (''y'', JNum (Finite 0)), (''width'', JNum (Finite 100)),
                        (''height'', JNum (Finite 50)),
                        (''children'',
                         JArr [JObj [(''type'', JStr ''rect''), (''x'', JNum PosInfinity),
                                     (''y'', JNum (Finite 0)), (''width'', JNum (Finite 0)),
                                     (''height'', JNum (Finite 5))]])]])]"

subsection \<open>Examples for the normalizer\<close>

text \<open>A conversion that takes no string for a number; the examples hold numbers only.\<close>

definition Number_none :: "string \<Rightarrow> jsnum" where
  "Number_none s = NaN"

text \<open>A text node with a numeric font weight, and an image node without a source.\<close>

definition text_with_weight :: "rat \<Rightarrow> (string \<times> json) list" where
  "text_with_weight weight =
     [(''type'', JStr ''text''), (''x'', JNum (Finite 0)), (''y'', JNum (Finite 0)),
      (''width'', JNum (Finite 120)), (''height'', JNum (Finite 20)),
      (''text'', JStr ''Title''), (''fontWeight'', JNum (Finite weight))]"

definition sourceless_image :: "rat \<Rightarrow> (string \<times> json) list" where
  "sourceless_image width =
     [(''type'', JStr ''image''), (''name'', JStr ''Logo''), (''x'', JNum (Finite 10)),
      (''y'', JNum (Finite 20)), (''width'', JNum (Finite width)), (''height'', JNum (Finite 48))]"

subsection \<open>Document order, calls, hosts and examples for the renderer\<close>

text \<open>
  Document order. The objects of a forest are numbered in the order of the
  document (a node before its children, the children from first to last, then the
  next sibling); \<open>edges parent k ns\<close> lists (parent object, child object) for the
  forest \<open>ns\<close> under the object \<open>parent\<close>, numbered from \<open>k\<close>, in that order.
\<close>

fun node_edges :: "nat \<Rightarrow> nat \<Rightarrow> DesignNode \<Rightarrow> (nat \<times> nat) list"
  and edges :: "nat \<Rightarrow> nat \<Rightarrow> DesignNode list \<Rightarrow> (nat \<times> nat) list" where
  "node_edges parent k (FrameNode b p cs) = (parent, k) # edges k (Suc k) cs"
| "node_edges parent k (RectNode b p) = [(parent, k)]"
| "node_edges parent k (TextNode b p) = [(parent, k)]"
| "node_edges parent k (EllipseNode b p) = [(parent, k)]"
| "node_edges parent k (ImageNode b p) = [(parent, k)]"
| "edges parent k [] = []"
| "edges parent k (n # ns) = node_edges parent k n @ edges parent (k + length (subnodes n)) ns"

definition forest_size :: "DesignNode list \<Rightarrow> nat" where
  "forest_size ns = length (concat (map subnodes ns))"

text \<open>
  The calls of \<^verbatim>\<open>chooseLocalPosition\<close> that rendering a forest makes, in the order of
  the document: a node is resolved against the geometry and the mode its parent
  passes down, and a frame passes its own x, y, width and height and the mode
  that \<^verbatim>\<open>detectCoordinateMode\<close> returns for its children.
\<close>

type_synonym call = "DesignNode \<times> rat \<times> rat \<times> rat \<times> rat \<times> string"

fun node_calls :: "DesignNode \<Rightarrow> rat \<Rightarrow> rat \<Rightarrow> rat \<Rightarrow> rat \<Rightarrow> string \<Rightarrow> call list"
  and calls :: "DesignNode list \<Rightarrow> rat \<Rightarrow> rat \<Rightarrow> rat \<Rightarrow> rat \<Rightarrow> string \<Rightarrow> call list" where
  "node_calls (FrameNode b p cs) pax pay pw ph mode =
     (FrameNode b p cs, pax, pay, pw, ph, mode)
     # calls cs (nb_x b) (nb_y b) (nb_width b) (nb_height b)
         (detectCoordinateMode cs (nb_x b) (nb_y b) (nb_width b) (nb_height b))"
| "node_calls (RectNode b p) pax pay pw ph mode = [(RectNode b p, pax, pay, pw, ph, mode)]"
| "node_calls (TextNode b p) pax pay pw ph mode = [(TextNode b p, pax, pay, pw, ph, mode)]"
| "node_calls (EllipseNode b p) pax pay pw ph mode = [(EllipseNode b p, pax, pay, pw, ph, mode)]"
| "node_calls (ImageNode b p) pax pay pw ph mode = [(ImageNode b p, pax, pay, pw, ph, mode)]"
| "calls [] pax pay pw ph mode = []"
| "calls (n # ns) pax pay pw ph mode =
     node_calls n pax pay pw ph mode @ calls ns pax pay pw ph mode"

text \<open>The kind of object and the default name that \<^verbatim>\<open>renderNode\<close> gives a node.\<close>

fun kind_of :: "DesignNode \<Rightarrow> obj_kind" where
  "kind_of (RectNode b p) = RECTANGLE"
| "kind_of (TextNode b p) = TEXT"
| "kind_of (FrameNode b p cs) = FRAME"
| "kind_of (EllipseNode b p) = ELLIPSE"
| "kind_of (ImageNode b p) = RECTANGLE"

fun default_name :: "DesignNode \<Rightarrow> string" where
  "default_name (RectNode b p) = ''Rect''"
| "default_name (TextNode b p) = ''Text''"
| "default_name (FrameNode b p cs) = ''Frame''"
| "default_name (EllipseNode b p) = ''Ellipse''"
| "default_name (ImageNode b p) = ''Image''"

text \<open>
  The object of a call: it has the kind and the name of the node, and it is placed
  where \<^verbatim>\<open>chooseLocalPosition\<close> resolved the node.
\<close>

definition depicts :: "SceneNode \<Rightarrow> call \<Rightarrow> bool" where
  "depicts obj c =
     (case c of
        (n, pax, pay, pw, ph, mode) \<Rightarrow>
          sn_kind obj = kind_of n
          \<and> sn_name obj = Some (or_default (nb_name (node_base n)) (default_name n))
          \<and> sn_x obj = Some (fst (chooseLocalPosition n pax pay pw ph mode))
          \<and> sn_y obj = Some (snd (chooseLocalPosition n pax pay pw ph mode)))"

text \<open>The calls a node needs from the host succeed.\<close>

fun node_loads :: "Host \<Rightarrow> DesignNode \<Rightarrow> bool" where
  "node_loads h (RectNode b p) = h_resize h RECTANGLE (nb_width b) (nb_height b)"
| "node_loads h (TextNode b p) =
     h_loadFontAsync h (or_default (text_fontFamily p) ''Inter'')
       (or_default (text_fontStyle p) ''Regular'')"
| "node_loads h (EllipseNode b p) = h_resize h ELLIPSE (nb_width b) (nb_height b)"
| "node_loads h (ImageNode b p) =
     (h_resize h RECTANGLE (nb_width b) (nb_height b)
      \<and> (case imagePaintFromNode h p of Inl e \<Rightarrow> False | Inr paint \<Rightarrow> True))"
| "node_loads h (FrameNode b p cs) =
     (h_resize h FRAME (nb_width b) (nb_height b) \<and> list_all (node_loads h) cs)"

text \<open>No font load that the cache holds was rejected.\<close>

definition cache_loaded :: "RenderState \<Rightarrow> bool" where
  "cache_loaded s = list_all snd (rs_fontCache s)"

text \<open>
  \<open>extends s s' new es\<close>: the render went from \<open>s\<close> to \<open>s'\<close> by creating the objects
  \<open>new\<close>, leaving the earlier ones as they were, and by the \<^verbatim>\<open>appendChild\<close> calls
  \<open>es\<close>.
\<close>

definition extends :: "RenderState \<Rightarrow> RenderState \<Rightarrow> SceneNode list \<Rightarrow> (nat \<times> nat) list \<Rightarrow> bool" where
  "extends s s' new es =
     (rs_objs s' = rs_objs s @ new \<and> rs_attached s' = rs_attached s @ es)"

text \<open>The later assignments leave kind, name and position as they are.\<close>

definition same_place :: "SceneNode \<Rightarrow> SceneNode \<Rightarrow> bool" where
  "same_place a b = (sn_kind a = sn_kind b \<and> sn_name a = sn_name b \<and> sn_x a = sn_x b \<and> sn_y a = sn_y b)"

text \<open>A host on which every call succeeds, and nodes with nothing optional set.\<close>

definition friendly_host :: Host where
  "friendly_host =
     \<lparr>h_loadFontAsync = (\<lambda>family style. True),
      h_fetch = (\<lambda>url. Response True (Some [])),
      h_createImage = (\<lambda>bytes. Some ''hash''),
      h_resize = (\<lambda>k w h. True),
      h_atob = Some (\<lambda>b64. Some []),
      h_base64Decode = None,
      h_viewportCenter = (0, 0)\<rparr>"

definition plain_base :: "rat \<Rightarrow> rat \<Rightarrow> rat \<Rightarrow> rat \<Rightarrow> NodeBase" where
  "plain_base x y w h = \<lparr>nb_name = None, nb_x = x, nb_y = y, nb_width = w, nb_height = h,
     nb_opacity = None\<rparr>"

definition plain_rect :: "rat \<Rightarrow> rat \<Rightarrow> rat \<Rightarrow> rat \<Rightarrow> DesignNode" where
  "plain_rect x y w h =
     RectNode (plain_base x y w h)
       \<lparr>rect_fill = None, rect_stroke = None, rect_strokeWidth = None, rect_cornerRadius = None\<rparr>"

definition plain_frame :: "rat \<Rightarrow> rat \<Rightarrow> rat \<Rightarrow> rat \<Rightarrow> DesignNode list \<Rightarrow> DesignNode" where
  "plain_frame x y w h cs =
     FrameNode (plain_base x y w h)
       \<lparr>frame_layoutMode = NONE, frame_padding = None, frame_itemSpacing = None,
        frame_fill = None, frame_stroke = None, frame_strokeWidth = None,
        frame_cornerRadius = None\<rparr> cs"

definition plain_text :: "rat \<Rightarrow> rat \<Rightarrow> rat \<Rightarrow> rat \<Rightarrow> string \<Rightarrow> DesignNode" where
  "plain_text x y w h t =
     TextNode (plain_base x y w h)
       \<lparr>text_text = t, text_fontFamily = None, text_fontStyle = None, text_fontSize = None,
        text_fill = None, text_alignHorizontal = None\<rparr>"

definition two_level_spec :: DesignSpec where
  "two_level_spec =
     \<lparr>spec_canvas = \<lparr>canvas_name = ''Screen'', canvas_width = 800, canvas_height = 600\<rparr>,
      spec_nodes = [plain_rect 0 0 800 60,
                    plain_frame 100 100 400 300
                      [plain_text 20 30 50 40 ''Title'', plain_rect 120 130 50 40]]\<rparr>"

text \<open>The two fit scores of a node against a parent, as the resolver computes them.\<close>

definition relScore :: "DesignNode \<Rightarrow> rat \<Rightarrow> rat \<Rightarrow> nat" where
  "relScore n pw ph =
     fitScore (nb_x (node_base n)) (nb_y (node_base n)) (nb_width (node_base n))
       (nb_height (node_base n)) pw ph"

definition absScore :: "DesignNode \<Rightarrow> rat \<Rightarrow> rat \<Rightarrow> rat \<Rightarrow> rat \<Rightarrow> nat" where
  "absScore n pax pay pw ph =
     fitScore (nb_x (node_base n) - pax) (nb_y (node_base n) - pay) (nb_width (node_base n))
       (nb_height (node_base n)) pw ph"

text \<open>A call whose preferred mode is one of the two modes.\<close>

definition decided :: "call \<Rightarrow> bool" where
  "decided c = (case c of (n, pax, pay, pw, ph, mode) \<Rightarrow> mode = ''relative'' \<or> mode = ''absolute'')"

text \<open>The example of the spec: the frame at (100,100) of size (400,300) and its child.\<close>

definition tied_child :: DesignNode where
  "tied_child = plain_rect 120 130 50 40"

definition sole_child_spec :: DesignSpec where
  "sole_child_spec =
     \<lparr>spec_canvas = \<lparr>canvas_name = ''Screen'', canvas_width = 800, canvas_height = 600\<rparr>,
      spec_nodes = [plain_frame 100 100 400 300 [tied_child]]\<rparr>"

text \<open>
  A number that is a double: rounding leaves it as it is. The heights and widths of
  the nodes are doubles, since they come out of \<^verbatim>\<open>JSON.parse\<close>.
\<close>

definition is_double :: "rat \<Rightarrow> bool" where
  "is_double q = (round_double q = Finite q)"

text \<open>
  The properties of a rect with a fill and without a corner radius, and the
  doubles that the literals \<^verbatim>\<open>4.8\<close> and \<^verbatim>\<open>34.4\<close> denote: the first is below 4.8 and
  the second below 34.4.
\<close>

definition filled :: RectProps where
  "filled =
     \<lparr>rect_fill = Some \<lparr>rgba_r = 1, rgba_g = 0, rgba_b = 0, rgba_a = None\<rparr>,
      rect_stroke = None, rect_strokeWidth = None, rect_cornerRadius = None\<rparr>"

definition double_4_8 :: rat where
  "double_4_8 = 5404319552844595 / 1125899906842624"

definition double_34_4 :: rat where
  "double_34_4 = 4841369599423283 / 140737488355328"

text \<open>An image node whose data URL has the prefix and lacks \<^verbatim>\<open>;base64,\<close>.\<close>

definition bad_data_url_image :: json where
  "bad_data_url_image =
     JObj [(''type'', JStr ''image''), (''x'', JNum (Finite 0)), (''y'', JNum (Finite 0)),
           (''width'', JNum (Finite 32)), (''height'', JNum (Finite 32)),
           (''imageDataUrl'', JStr ''data:image/png,AAAA'')]"

definition bad_data_url_props :: ImageProps where
  "bad_data_url_props =
     \<lparr>image_imageUrl = None, image_imageDataUrl = Some ''data:image/png,AAAA'',
      image_scaleMode = None, image_cornerRadius = None, image_stroke = None,
      image_strokeWidth = None\<rparr>"

text \<open>Two hosts without the image: the fetch is rejected, or the response is not ok.\<close>

definition offline_host :: Host where
  "offline_host = friendly_host\<lparr>h_fetch := (\<lambda>url. FetchRejected)\<rparr>"

definition not_found_host :: Host where
  "not_found_host = friendly_host\<lparr>h_fetch := (\<lambda>url. Response False (Some []))\<rparr>"

definition remote_image :: DesignNode where
  "remote_image =
     ImageNode (plain_base 0 0 32 32)
       \<lparr>image_imageUrl = Some ''https://example.invalid/a.png'', image_imageDataUrl = None,
        image_scaleMode = None, image_cornerRadius = None, image_stroke = None,
        image_strokeWidth = None\<rparr>"

definition remote_image_spec :: DesignSpec where
  "remote_image_spec =
     \<lparr>spec_canvas = \<lparr>canvas_name = ''Screen'', canvas_width = 800, canvas_height = 600\<rparr>,
      spec_nodes = [remote_image, plain_rect 0 40 800 60]\<rparr>"

section \<open>Properties of the schema\<close>

subsection \<open>What a validated node satisfies\<close>

lemma z_number_min0_max1_Some:
  "z_number_min0_max1 v = Some q \<longleftrightarrow> v = Some (JNum (Finite q)) \<and> unit_interval q"
  by (auto simp: z_number_min0_max1_def z_refine_def z_number_def unit_interval_def
      split: option.splits json.splits jsnum.splits if_splits)

lemma z_number_min0_Some:
  "z_number_min0 v = Some q \<longleftrightarrow> v = Some (JNum (Finite q)) \<and> 0 \<le> q"
  by (auto simp: z_number_min0_def z_refine_def z_number_def
      split: option.splits json.splits jsnum.splits if_splits)

lemma z_number_positive_Some:
  "z_number_positive v = Some q \<longleftrightarrow> v = Some (JNum (Finite q)) \<and> 0 < q"
  by (auto simp: z_number_positive_def z_refine_def z_number_def
      split: option.splits json.splits jsnum.splits if_splits)

lemma z_number_Some:
  "z_number v = Some q \<longleftrightarrow> v = Some (JNum (Finite q))"
  by (auto simp: z_number_def split: option.splits json.splits jsnum.splits)

lemma z_string_Some:
  "z_string v = Some s \<longleftrightarrow> v = Some (JStr s)"
  by (auto simp: z_string_def split: option.splits json.splits)

lemma z_optional_Some:
  "z_optional p v = Some r \<longleftrightarrow> (v = None \<and> r = None) \<or> (\<exists>x. v \<noteq> None \<and> p v = Some x \<and> r = Some x)"
  by (auto simp: z_optional_def split: option.splits)

lemma ColorSchema_ok: "ColorSchema v = Some c \<Longrightarrow> color_ok c"
  by (auto simp: ColorSchema_def color_ok_def bind_eq_Some_conv z_number_min0_max1_Some
      z_optional_Some opt_ok_def split: option.splits json.splits)

lemma NodeBaseSchema_ok: "NodeBaseSchema flds = Some b \<Longrightarrow> base_ok b"
  by (auto simp: NodeBaseSchema_def base_ok_def bind_eq_Some_conv z_number_min0_max1_Some
      z_number_positive_Some z_optional_Some opt_ok_def split: option.splits)

lemma z_optional_ok:
  "z_optional p v = Some r \<Longrightarrow> (\<And>x. p v = Some x \<Longrightarrow> P x) \<Longrightarrow> opt_ok P r"
  by (auto simp: z_optional_Some opt_ok_def)

lemma z_optional_min0_ok: "z_optional z_number_min0 v = Some r \<Longrightarrow> opt_ok (\<lambda>q. 0 \<le> q) r"
  by (erule z_optional_ok) (simp add: z_number_min0_Some)

lemma z_optional_color_ok: "z_optional ColorSchema v = Some r \<Longrightarrow> opt_ok color_ok r"
  by (erule z_optional_ok) (rule ColorSchema_ok)

lemma z_optional_positive_ok: "z_optional z_number_positive v = Some r \<Longrightarrow> opt_ok (\<lambda>q. 0 < q) r"
  by (erule z_optional_ok) (simp add: z_number_positive_Some)

lemma RectNodeSchema_valid: "RectNodeSchema j = Some n \<Longrightarrow> valid_node n"
  by (auto simp: RectNodeSchema_def bind_eq_Some_conv rect_ok_def
      dest: NodeBaseSchema_ok z_optional_min0_ok z_optional_color_ok split: json.splits)

lemma TextNodeSchema_valid: "TextNodeSchema j = Some n \<Longrightarrow> valid_node n"
  by (auto simp: TextNodeSchema_def bind_eq_Some_conv text_ok_def
      dest: NodeBaseSchema_ok z_optional_color_ok z_optional_positive_ok split: json.splits)

lemma EllipseNodeSchema_valid: "EllipseNodeSchema j = Some n \<Longrightarrow> valid_node n"
  by (auto simp: EllipseNodeSchema_def bind_eq_Some_conv ellipse_ok_def
      dest: NodeBaseSchema_ok z_optional_min0_ok z_optional_color_ok split: json.splits)

lemma z_string_min1_Some: "z_string_min1 v = Some s \<longleftrightarrow> v = Some (JStr s) \<and> s \<noteq> []"
  by (auto simp: z_string_min1_def z_refine_def z_string_def Suc_le_eq
      split: option.splits if_splits json.splits)

lemma z_string_startsWith_Some:
  "z_string_startsWith p v = Some s \<longleftrightarrow> v = Some (JStr s) \<and> startsWith p s"
  by (auto simp: z_string_startsWith_def z_refine_def z_string_def
      split: option.splits if_splits json.splits)

lemma z_optional_min1_ok: "z_optional z_string_min1 v = Some r \<Longrightarrow> opt_ok (\<lambda>s. s \<noteq> []) r"
  by (erule z_optional_ok) (simp add: z_string_min1_Some)

lemma z_optional_startsWith_ok:
  "z_optional (z_string_startsWith ''data:image/'') v = Some r
   \<Longrightarrow> opt_ok (startsWith ''data:image/'') r"
  by (erule z_optional_ok) (simp add: z_string_startsWith_Some)

lemma ImageNodeSchema_Some:
  "ImageNodeSchema j = Some n \<longleftrightarrow>
     (\<exists>flds b p. j = JObj flds \<and> ImageNodeObject flds = Some (b, p)
        \<and> (str_truthy (image_imageUrl p) \<or> str_truthy (image_imageDataUrl p))
        \<and> n = ImageNode b p)"
  by (auto simp: ImageNodeSchema_def split: json.splits option.splits if_splits)

lemma ImageNodeObject_base:
  "ImageNodeObject flds = Some (b, p) \<Longrightarrow>
     NodeBaseSchema flds = Some b \<and> map_of flds ''type'' = Some (JStr ''image'')"
  by (auto simp: ImageNodeObject_def bind_eq_Some_conv z_literal_def split: if_splits)

lemma ImageNodeObject_ok:
  "ImageNodeObject flds = Some (b, p) \<Longrightarrow>
     base_ok b \<and> opt_ok (\<lambda>s. s \<noteq> []) (image_imageUrl p)
     \<and> opt_ok (startsWith ''data:image/'') (image_imageDataUrl p)
     \<and> opt_ok (\<lambda>q. 0 \<le> q) (image_cornerRadius p) \<and> opt_ok color_ok (image_stroke p)
     \<and> opt_ok (\<lambda>q. 0 \<le> q) (image_strokeWidth p)"
  by (auto simp: ImageNodeObject_def bind_eq_Some_conv
      dest: NodeBaseSchema_ok z_optional_min0_ok z_optional_color_ok z_optional_min1_ok
        z_optional_startsWith_ok)

lemma ImageNodeSchema_valid: "ImageNodeSchema j = Some n \<Longrightarrow> valid_node n"
  by (auto simp: ImageNodeSchema_Some image_ok_def str_truthy_def dest!: ImageNodeObject_ok
      split: option.splits)

lemma PaddingSchema_ok: "PaddingSchema v = Some p \<Longrightarrow> padding_ok p"
  by (auto simp: PaddingSchema_def bind_eq_Some_conv padding_ok_def
      dest: z_optional_min0_ok split: json.splits option.splits)

lemma z_optional_padding_ok: "z_optional PaddingSchema v = Some r \<Longrightarrow> opt_ok padding_ok r"
  by (erule z_optional_ok) (rule PaddingSchema_ok)

lemma FrameFields_ok: "FrameFields flds = Some (b, p) \<Longrightarrow> base_ok b \<and> frame_ok p"
  by (auto simp: FrameFields_def bind_eq_Some_conv frame_ok_def
      dest: NodeBaseSchema_ok z_optional_min0_ok z_optional_color_ok z_optional_padding_ok)

lemma all_some_map_Some:
  "all_some (map f xs) = Some ys \<Longrightarrow> list_all2 (\<lambda>x y. f x = Some y) xs ys"
proof (induction xs arbitrary: ys)
  case Nil
  then show ?case by simp
next
  case (Cons x xs)
  then show ?case by (cases "f x") auto
qed

lemma schema_valid:
  "(\<forall>n. FrameNodeSchema j = Some n \<longrightarrow> valid_node n)"
  "(\<forall>n. DesignNodeSchema j = Some n \<longrightarrow> valid_node n)"
proof (induction j rule: FrameNodeSchema_DesignNodeSchema.induct)
  case (1 j)
  show ?case
  proof (intro allI impI)
    fix n assume a: "FrameNodeSchema j = Some n"
    then obtain flds b p cs ns where j: "j = JObj flds" and f: "FrameFields flds = Some (b, p)"
      and c: "raw_children flds = Some cs" and ns: "all_some (map DesignNodeSchema cs) = Some ns"
      and n: "n = FrameNode b p ns"
      by (auto simp: FrameNodeSchema.simps split: json.splits option.splits)
    from ns have "list_all2 (\<lambda>x y. DesignNodeSchema x = Some y) cs ns"
      by (rule all_some_map_Some)
    then have "list_all valid_node ns"
      using "1.IH"[OF j f refl c]
      by (induction rule: list_all2_induct) auto
    with FrameFields_ok[OF f] n show "valid_node n" by simp
  qed
next
  case (2 j)
  then show ?case
    by (auto simp: DesignNodeSchema.simps[of j] split: option.splits
        dest: RectNodeSchema_valid TextNodeSchema_valid EllipseNodeSchema_valid
          ImageNodeSchema_valid)
qed

subsection \<open>A validated value read as a raw value again\<close>

lemma map_of_app:
  "map_of (xs @ ys) k = (case map_of xs k of None \<Rightarrow> map_of ys k | Some v \<Rightarrow> Some v)"
  by (simp add: map_add_def)

lemma map_of_opt_field:
  "map_of (opt_field k f v) k' = (if k' = k then map_option f v else None)"
  by (simp add: opt_field_def split: option.splits)

lemma z_optional_map:
  "opt_ok P v \<Longrightarrow> (\<And>x. P x \<Longrightarrow> p (Some (f x)) = Some x) \<Longrightarrow> z_optional p (map_option f v) = Some v"
  by (cases v) (simp_all add: z_optional_def opt_ok_def)

lemma z_optional_None [simp]: "z_optional p None = Some None"
  by (simp add: z_optional_def)

lemma json_unit: "unit_interval q \<Longrightarrow> z_number_min0_max1 (Some (json_num q)) = Some q"
  by (simp add: z_number_min0_max1_Some json_num_def)

lemma json_min0: "0 \<le> q \<Longrightarrow> z_number_min0 (Some (json_num q)) = Some q"
  by (simp add: z_number_min0_Some json_num_def)

lemma json_positive: "0 < q \<Longrightarrow> z_number_positive (Some (json_num q)) = Some q"
  by (simp add: z_number_positive_Some json_num_def)

lemma json_number: "z_number (Some (json_num q)) = Some q"
  by (simp add: z_number_Some json_num_def)

lemma opt_unit: "opt_ok unit_interval v \<Longrightarrow> z_optional z_number_min0_max1 (map_option json_num v) = Some v"
  by (erule z_optional_map) (rule json_unit)

lemma opt_min0: "opt_ok (\<lambda>q. 0 \<le> q) v \<Longrightarrow> z_optional z_number_min0 (map_option json_num v) = Some v"
  by (erule z_optional_map) (rule json_min0)

lemma opt_positive: "opt_ok (\<lambda>q. 0 < q) v \<Longrightarrow> z_optional z_number_positive (map_option json_num v) = Some v"
  by (erule z_optional_map) (rule json_positive)

lemma opt_string: "z_optional z_string (map_option JStr v) = Some v"
  by (cases v) (simp_all add: z_optional_def z_string_def)

lemma ColorSchema_json: "color_ok c \<Longrightarrow> ColorSchema (Some (json_of_RGBA c)) = Some c"
  by (simp add: ColorSchema_def json_of_RGBA_def color_ok_def map_of_app map_of_opt_field
      json_unit opt_unit)

lemma opt_color: "opt_ok color_ok v \<Longrightarrow> z_optional ColorSchema (map_option json_of_RGBA v) = Some v"
  by (erule z_optional_map) (rule ColorSchema_json)

lemma case_option_id: "(case x of None \<Rightarrow> None | Some v \<Rightarrow> Some v) = x"
  by (cases x) simp_all

lemma case_option_map: "(case x of None \<Rightarrow> None | Some v \<Rightarrow> Some (f v)) = map_option f x"
  by (cases x) simp_all

lemmas lookup_simps = map_of_app map_of_opt_field case_option_id case_option_map

lemma base_fields_lookup:
  "map_of (base_fields b) ''x'' = Some (json_num (nb_x b))"
  "map_of (base_fields b) ''y'' = Some (json_num (nb_y b))"
  "map_of (base_fields b) ''width'' = Some (json_num (nb_width b))"
  "map_of (base_fields b) ''height'' = Some (json_num (nb_height b))"
  "map_of (base_fields b) ''name'' = map_option JStr (nb_name b)"
  "map_of (base_fields b) ''opacity'' = map_option json_num (nb_opacity b)"
  by (simp_all add: base_fields_def lookup_simps del: map_of_append split: option.splits)

lemma base_fields_other:
  "k \<notin> {''x'', ''y'', ''width'', ''height'', ''name'', ''opacity''}
   \<Longrightarrow> map_of (base_fields b) k = None"
  by (simp add: base_fields_def lookup_simps del: map_of_append)

lemma NodeBaseSchema_json:
  assumes "base_ok b"
    and "map_of flds ''x'' = map_of (base_fields b) ''x''"
    and "map_of flds ''y'' = map_of (base_fields b) ''y''"
    and "map_of flds ''width'' = map_of (base_fields b) ''width''"
    and "map_of flds ''height'' = map_of (base_fields b) ''height''"
    and "map_of flds ''name'' = map_of (base_fields b) ''name''"
    and "map_of flds ''opacity'' = map_of (base_fields b) ''opacity''"
  shows "NodeBaseSchema flds = Some b"
  using assms(1)
  by (simp add: NodeBaseSchema_def assms(2-) base_fields_lookup base_ok_def
      json_number json_positive opt_unit opt_string)

lemma RectNodeSchema_json:
  assumes "base_ok b" and "rect_ok p"
  shows "RectNodeSchema (json_of_node (RectNode b p)) = Some (RectNode b p)"
proof -
  let ?flds = "(''type'', JStr ''rect'') # base_fields b
           @ opt_field ''fill'' json_of_RGBA (rect_fill p)
           @ opt_field ''stroke'' json_of_RGBA (rect_stroke p)
           @ opt_field ''strokeWidth'' json_num (rect_strokeWidth p)
           @ opt_field ''cornerRadius'' json_num (rect_cornerRadius p)"
  have b: "NodeBaseSchema ?flds = Some b"
    by (rule NodeBaseSchema_json[OF assms(1)])
       (simp_all add: lookup_simps base_fields_lookup del: map_of_append split: option.splits)
  have l: "map_of ?flds ''type'' = Some (JStr ''rect'')"
    "map_of ?flds ''fill'' = map_option json_of_RGBA (rect_fill p)"
    "map_of ?flds ''stroke'' = map_option json_of_RGBA (rect_stroke p)"
    "map_of ?flds ''strokeWidth'' = map_option json_num (rect_strokeWidth p)"
    "map_of ?flds ''cornerRadius'' = map_option json_num (rect_cornerRadius p)"
    by (simp_all add: lookup_simps base_fields_other del: map_of_append split: option.splits)
  show ?thesis
    using assms(2) unfolding json_of_node.simps RectNodeSchema_def json.case b l
    by (simp add: z_literal_def rect_ok_def opt_color opt_min0)
qed

lemma z_enum_align:
  "z_optional (z_enum [(''LEFT'', LEFT), (''CENTER'', CENTER), (''RIGHT'', RIGHT),
      (''JUSTIFIED'', JUSTIFIED)]) (map_option (\<lambda>a. JStr (AlignHorizontal_str a)) v) = Some v"
proof (cases v)
  case None
  then show ?thesis by simp
next
  case (Some a)
  then show ?thesis by (cases a) (simp_all add: z_optional_def z_enum_def)
qed

lemma z_enum_scale:
  "z_optional (z_enum [(''FILL'', FILL), (''FIT'', FIT), (''CROP'', CROP), (''TILE'', TILE)])
     (map_option (\<lambda>a. JStr (ScaleMode_str a)) v) = Some v"
proof (cases v)
  case None
  then show ?thesis by simp
next
  case (Some a)
  then show ?thesis by (cases a) (simp_all add: z_optional_def z_enum_def)
qed

lemma z_enum_layout:
  "z_default NONE (z_enum [(''NONE'', NONE), (''HORIZONTAL'', HORIZONTAL),
      (''VERTICAL'', VERTICAL)]) (Some (JStr (LayoutMode_str m))) = Some m"
  by (cases m) (simp_all add: z_default_def z_enum_def)

lemma TextNodeSchema_json:
  assumes "base_ok b" and "text_ok p"
  shows "TextNodeSchema (json_of_node (TextNode b p)) = Some (TextNode b p)"
proof -
  let ?flds = "(''type'', JStr ''text'') # base_fields b
           @ [(''text'', JStr (text_text p))]
           @ opt_field ''fontFamily'' JStr (text_fontFamily p)
           @ opt_field ''fontStyle'' JStr (text_fontStyle p)
           @ opt_field ''fontSize'' json_num (text_fontSize p)
           @ opt_field ''fill'' json_of_RGBA (text_fill p)
           @ opt_field ''alignHorizontal'' (\<lambda>a. JStr (AlignHorizontal_str a))
               (text_alignHorizontal p)"
  have b: "NodeBaseSchema ?flds = Some b"
    by (rule NodeBaseSchema_json[OF assms(1)])
       (simp_all add: lookup_simps base_fields_lookup del: map_of_append split: option.splits)
  have l: "map_of ?flds ''type'' = Some (JStr ''text'')"
    "map_of ?flds ''text'' = Some (JStr (text_text p))"
    "map_of ?flds ''fontFamily'' = map_option JStr (text_fontFamily p)"
    "map_of ?flds ''fontStyle'' = map_option JStr (text_fontStyle p)"
    "map_of ?flds ''fontSize'' = map_option json_num (text_fontSize p)"
    "map_of ?flds ''fill'' = map_option json_of_RGBA (text_fill p)"
    "map_of ?flds ''alignHorizontal'' =
       map_option (\<lambda>a. JStr (AlignHorizontal_str a)) (text_alignHorizontal p)"
    by (simp_all add: lookup_simps base_fields_other del: map_of_append split: option.splits)
  show ?thesis
    using assms(2) unfolding json_of_node.simps TextNodeSchema_def json.case b l
    by (simp add: z_literal_def text_ok_def opt_color opt_positive opt_string z_enum_align
        z_string_def)
qed

lemma EllipseNodeSchema_json:
  assumes "base_ok b" and "ellipse_ok p"
  shows "EllipseNodeSchema (json_of_node (EllipseNode b p)) = Some (EllipseNode b p)"
proof -
  let ?flds = "(''type'', JStr ''ellipse'') # base_fields b
           @ opt_field ''fill'' json_of_RGBA (ellipse_fill p)
           @ opt_field ''stroke'' json_of_RGBA (ellipse_stroke p)
           @ opt_field ''strokeWidth'' json_num (ellipse_strokeWidth p)"
  have b: "NodeBaseSchema ?flds = Some b"
    by (rule NodeBaseSchema_json[OF assms(1)])
       (simp_all add: lookup_simps base_fields_lookup del: map_of_append split: option.splits)
  have l: "map_of ?flds ''type'' = Some (JStr ''ellipse'')"
    "map_of ?flds ''fill'' = map_option json_of_RGBA (ellipse_fill p)"
    "map_of ?flds ''stroke'' = map_option json_of_RGBA (ellipse_stroke p)"
    "map_of ?flds ''strokeWidth'' = map_option json_num (ellipse_strokeWidth p)"
    by (simp_all add: lookup_simps base_fields_other del: map_of_append split: option.splits)
  show ?thesis
    using assms(2) unfolding json_of_node.simps EllipseNodeSchema_def json.case b l
    by (simp add: z_literal_def ellipse_ok_def opt_color opt_min0)
qed

lemma opt_min1: "opt_ok (\<lambda>s. s \<noteq> []) v \<Longrightarrow> z_optional z_string_min1 (map_option JStr v) = Some v"
  by (erule z_optional_map) (simp add: z_string_min1_Some)

lemma opt_startsWith:
  "opt_ok (startsWith p) v \<Longrightarrow> z_optional (z_string_startsWith p) (map_option JStr v) = Some v"
  by (erule z_optional_map) (simp add: z_string_startsWith_Some)

lemma ImageNodeSchema_json:
  assumes "base_ok b" and "image_ok p"
  shows "ImageNodeSchema (json_of_node (ImageNode b p)) = Some (ImageNode b p)"
proof -
  let ?flds = "(''type'', JStr ''image'') # base_fields b
           @ opt_field ''imageUrl'' JStr (image_imageUrl p)
           @ opt_field ''imageDataUrl'' JStr (image_imageDataUrl p)
           @ opt_field ''scaleMode'' (\<lambda>m. JStr (ScaleMode_str m)) (image_scaleMode p)
           @ opt_field ''cornerRadius'' json_num (image_cornerRadius p)
           @ opt_field ''stroke'' json_of_RGBA (image_stroke p)
           @ opt_field ''strokeWidth'' json_num (image_strokeWidth p)"
  have b: "NodeBaseSchema ?flds = Some b"
    by (rule NodeBaseSchema_json[OF assms(1)])
       (simp_all add: lookup_simps base_fields_lookup del: map_of_append split: option.splits)
  have l: "map_of ?flds ''type'' = Some (JStr ''image'')"
    "map_of ?flds ''imageUrl'' = map_option JStr (image_imageUrl p)"
    "map_of ?flds ''imageDataUrl'' = map_option JStr (image_imageDataUrl p)"
    "map_of ?flds ''scaleMode'' = map_option (\<lambda>m. JStr (ScaleMode_str m)) (image_scaleMode p)"
    "map_of ?flds ''cornerRadius'' = map_option json_num (image_cornerRadius p)"
    "map_of ?flds ''stroke'' = map_option json_of_RGBA (image_stroke p)"
    "map_of ?flds ''strokeWidth'' = map_option json_num (image_strokeWidth p)"
    by (simp_all add: lookup_simps base_fields_other del: map_of_append split: option.splits)
  have t: "str_truthy (image_imageUrl p) \<or> str_truthy (image_imageDataUrl p)"
    using assms(2)
    by (auto simp: image_ok_def str_truthy_def opt_ok_def startsWith_def split: option.splits)
  have "ImageNodeObject ?flds = Some (b, p)"
    using assms(2) unfolding ImageNodeObject_def b l
    by (simp add: z_literal_def image_ok_def opt_color opt_min0 opt_min1 opt_startsWith
        z_enum_scale)
  with t show ?thesis
    unfolding json_of_node.simps ImageNodeSchema_def json.case by simp
qed

lemma PaddingSchema_json:
  assumes "padding_ok p"
  shows "PaddingSchema (Some (json_of_padding p)) = Some p"
proof -
  let ?flds = "opt_field ''top'' json_num (pad_top p) @ opt_field ''right'' json_num (pad_right p)
           @ opt_field ''bottom'' json_num (pad_bottom p) @ opt_field ''left'' json_num (pad_left p)"
  have l: "map_of ?flds ''top'' = map_option json_num (pad_top p)"
    "map_of ?flds ''right'' = map_option json_num (pad_right p)"
    "map_of ?flds ''bottom'' = map_option json_num (pad_bottom p)"
    "map_of ?flds ''left'' = map_option json_num (pad_left p)"
    by (simp_all add: lookup_simps del: map_of_append split: option.splits)
  show ?thesis
    using assms unfolding PaddingSchema_def json_of_padding_def option.case json.case l
    by (simp add: padding_ok_def opt_min0)
qed

lemma opt_padding:
  "opt_ok padding_ok v \<Longrightarrow> z_optional PaddingSchema (map_option json_of_padding v) = Some v"
  by (erule z_optional_map) (rule PaddingSchema_json)

lemma frame_fields_lookup:
  "map_of (frame_fields p) ''layoutMode'' = Some (JStr (LayoutMode_str (frame_layoutMode p)))"
  "map_of (frame_fields p) ''padding'' = map_option json_of_padding (frame_padding p)"
  "map_of (frame_fields p) ''itemSpacing'' = map_option json_num (frame_itemSpacing p)"
  "map_of (frame_fields p) ''fill'' = map_option json_of_RGBA (frame_fill p)"
  "map_of (frame_fields p) ''stroke'' = map_option json_of_RGBA (frame_stroke p)"
  "map_of (frame_fields p) ''strokeWidth'' = map_option json_num (frame_strokeWidth p)"
  "map_of (frame_fields p) ''cornerRadius'' = map_option json_num (frame_cornerRadius p)"
  by (simp_all add: frame_fields_def lookup_simps del: map_of_append split: option.splits)

lemma frame_fields_other:
  "k \<notin> {''layoutMode'', ''padding'', ''itemSpacing'', ''fill'', ''stroke'', ''strokeWidth'',
      ''cornerRadius''} \<Longrightarrow> map_of (frame_fields p) k = None"
  by (simp add: frame_fields_def lookup_simps del: map_of_append)

lemma FrameFields_json:
  assumes "base_ok b" and "frame_ok p"
  shows "FrameFields ((''type'', JStr ''frame'') # base_fields b @ frame_fields p
           @ [(''children'', cs)]) = Some (b, p)"
proof -
  let ?flds = "(''type'', JStr ''frame'') # base_fields b @ frame_fields p @ [(''children'', cs)]"
  have b: "NodeBaseSchema ?flds = Some b"
    by (rule NodeBaseSchema_json[OF assms(1)])
       (simp_all add: lookup_simps base_fields_lookup frame_fields_other
          del: map_of_append split: option.splits)
  have l: "map_of ?flds ''type'' = Some (JStr ''frame'')"
    "map_of ?flds ''layoutMode'' = Some (JStr (LayoutMode_str (frame_layoutMode p)))"
    "map_of ?flds ''padding'' = map_option json_of_padding (frame_padding p)"
    "map_of ?flds ''itemSpacing'' = map_option json_num (frame_itemSpacing p)"
    "map_of ?flds ''fill'' = map_option json_of_RGBA (frame_fill p)"
    "map_of ?flds ''stroke'' = map_option json_of_RGBA (frame_stroke p)"
    "map_of ?flds ''strokeWidth'' = map_option json_num (frame_strokeWidth p)"
    "map_of ?flds ''cornerRadius'' = map_option json_num (frame_cornerRadius p)"
    by (simp_all add: lookup_simps base_fields_other frame_fields_lookup
        del: map_of_append split: option.splits)
  show ?thesis
    using assms(2) unfolding FrameFields_def b l
    by (simp add: z_literal_def frame_ok_def opt_color opt_min0 opt_padding z_enum_layout)
qed

lemma raw_children_json:
  "raw_children ((''type'', JStr ''frame'') # base_fields b @ frame_fields p
           @ [(''children'', JArr cs)]) = Some cs"
  by (simp add: raw_children_def lookup_simps base_fields_other frame_fields_other
      del: map_of_append)

lemma schema_tags:
  "RectNodeSchema (JObj flds) = Some n \<Longrightarrow> map_of flds ''type'' = Some (JStr ''rect'')"
  "TextNodeSchema (JObj flds) = Some n \<Longrightarrow> map_of flds ''type'' = Some (JStr ''text'')"
  "FrameFields flds = Some bp \<Longrightarrow> map_of flds ''type'' = Some (JStr ''frame'')"
  "EllipseNodeSchema (JObj flds) = Some n \<Longrightarrow> map_of flds ''type'' = Some (JStr ''ellipse'')"
  "ImageNodeSchema (JObj flds) = Some n \<Longrightarrow> map_of flds ''type'' = Some (JStr ''image'')"
  by (auto simp: RectNodeSchema_def TextNodeSchema_def FrameFields_def EllipseNodeSchema_def
      ImageNodeSchema_Some bind_eq_Some_conv z_literal_def dest: ImageNodeObject_base
      split: if_splits)

lemma FrameNodeSchema_tag:
  "FrameNodeSchema (JObj flds) = Some n \<Longrightarrow> map_of flds ''type'' = Some (JStr ''frame'')"
  by (auto simp: FrameNodeSchema.simps split: option.splits dest: schema_tags(3))

lemma all_some_map_id:
  "(\<And>x. x \<in> set xs \<Longrightarrow> f (g x) = Some x) \<Longrightarrow> all_some (map f (map g xs)) = Some xs"
  by (induction xs) simp_all

lemma schema_json: "valid_node n \<Longrightarrow> DesignNodeSchema (json_of_node n) = Some n"
proof (induction n)
  case (RectNode b p)
  then show ?case
    by (simp add: DesignNodeSchema.simps RectNodeSchema_json del: json_of_node.simps)
next
  case (TextNode b p)
  have "RectNodeSchema (json_of_node (TextNode b p)) = None"
    using schema_tags(1) by (cases "RectNodeSchema (json_of_node (TextNode b p))") fastforce+
  with TextNode show ?case
    by (simp add: DesignNodeSchema.simps TextNodeSchema_json del: json_of_node.simps)
next
  case (FrameNode b p cs)
  let ?j = "json_of_node (FrameNode b p cs)"
  have r: "RectNodeSchema ?j = None"
    using schema_tags(1) by (cases "RectNodeSchema ?j") fastforce+
  have t: "TextNodeSchema ?j = None"
    using schema_tags(2) by (cases "TextNodeSchema ?j") fastforce+
  from FrameNode have "all_some (map DesignNodeSchema (map json_of_node cs)) = Some cs"
    by (intro all_some_map_id) (simp add: list_all_iff)
  with FrameNode.prems have "FrameNodeSchema ?j = Some (FrameNode b p cs)"
    by (simp add: FrameNodeSchema.simps FrameFields_json raw_children_json)
  with r t show ?case
    by (simp add: DesignNodeSchema.simps del: json_of_node.simps)
next
  case (EllipseNode b p)
  let ?j = "json_of_node (EllipseNode b p)"
  have r: "RectNodeSchema ?j = None"
    using schema_tags(1) by (cases "RectNodeSchema ?j") fastforce+
  have t: "TextNodeSchema ?j = None"
    using schema_tags(2) by (cases "TextNodeSchema ?j") fastforce+
  have f: "FrameNodeSchema ?j = None"
    using FrameNodeSchema_tag by (cases "FrameNodeSchema ?j") fastforce+
  from r t f EllipseNode show ?case
    by (simp add: DesignNodeSchema.simps EllipseNodeSchema_json del: json_of_node.simps)
next
  case (ImageNode b p)
  let ?j = "json_of_node (ImageNode b p)"
  have r: "RectNodeSchema ?j = None"
    using schema_tags(1) by (cases "RectNodeSchema ?j") fastforce+
  have t: "TextNodeSchema ?j = None"
    using schema_tags(2) by (cases "TextNodeSchema ?j") fastforce+
  have f: "FrameNodeSchema ?j = None"
    using FrameNodeSchema_tag by (cases "FrameNodeSchema ?j") fastforce+
  have e: "EllipseNodeSchema ?j = None"
    using schema_tags(4) by (cases "EllipseNodeSchema ?j") fastforce+
  from r t f e ImageNode show ?case
    by (simp add: DesignNodeSchema.simps ImageNodeSchema_json del: json_of_node.simps)
qed

subsection \<open>The nodes of a tree, validated and raw\<close>

lemma valid_node_invariant: "valid_node n \<Longrightarrow> m \<in> set (subnodes n) \<Longrightarrow> node_invariant m"
proof (induction n arbitrary: m)
  case (FrameNode b p cs)
  then show ?case
    by (auto simp: node_invariant_def base_ok_def frame_ok_def list_all_iff)
qed (auto simp: node_invariant_def base_ok_def rect_ok_def text_ok_def ellipse_ok_def image_ok_def)

lemma NodeBaseSchema_raw:
  "NodeBaseSchema flds = Some b \<Longrightarrow>
     finite_number (map_of flds ''x'') = Some (nb_x b) \<and> finite_number (map_of flds ''y'') = Some (nb_y b)
     \<and> finite_number (map_of flds ''width'') = Some (nb_width b)
     \<and> finite_number (map_of flds ''height'') = Some (nb_height b)
     \<and> 0 < nb_width b \<and> 0 < nb_height b"
  by (auto simp: NodeBaseSchema_def bind_eq_Some_conv z_number_Some z_number_positive_Some)

lemma DesignNodeSchema_cases:
  assumes "DesignNodeSchema j = Some n"
  obtains "RectNodeSchema j = Some n" | "TextNodeSchema j = Some n" | "FrameNodeSchema j = Some n"
    | "EllipseNodeSchema j = Some n" | "ImageNodeSchema j = Some n"
  using assms by (auto simp: DesignNodeSchema.simps[of j] split: option.splits)

lemma DesignNodeSchema_raw_ok:
  assumes "DesignNodeSchema j = Some n"
  shows "raw_ok j"
  using assms
proof (cases rule: DesignNodeSchema_cases)
  case 3
  then show ?thesis
    by (auto simp: FrameNodeSchema.simps raw_ok_def positive_number_def FrameFields_def
        bind_eq_Some_conv z_literal_def
        dest!: NodeBaseSchema_raw split: json.splits option.splits if_splits)
next
  case 5
  then show ?thesis
    by (auto simp: raw_ok_def positive_number_def ImageNodeSchema_Some
        dest!: ImageNodeObject_base NodeBaseSchema_raw)
qed (auto simp: raw_ok_def positive_number_def RectNodeSchema_def TextNodeSchema_def
      EllipseNodeSchema_def bind_eq_Some_conv z_literal_def
      dest!: NodeBaseSchema_raw split: json.splits if_splits)

lemma DesignNodeSchema_child:
  assumes "DesignNodeSchema (JObj flds) = Some n"
    and "map_of flds ''type'' = Some (JStr ''frame'')"
    and "map_of flds ''children'' = Some (JArr cs)" and "c \<in> set cs"
  shows "\<exists>m. DesignNodeSchema c = Some m"
  using assms(1)
proof (cases rule: DesignNodeSchema_cases)
  case 3
  then obtain ns where "all_some (map DesignNodeSchema cs) = Some ns"
    using assms(3)
    by (auto simp: FrameNodeSchema.simps raw_children_def split: option.splits)
  then have "list_all2 (\<lambda>x y. DesignNodeSchema x = Some y) cs ns"
    by (rule all_some_map_Some)
  with assms(4) show ?thesis
    by (auto simp: list_all2_conv_all_nth in_set_conv_nth)
qed (use assms(2) in \<open>auto dest: schema_tags\<close>)

lemma raw_node_ok: "raw_node j r \<Longrightarrow> DesignNodeSchema j = Some n \<Longrightarrow> raw_ok r"
proof (induction arbitrary: n rule: raw_node.induct)
  case (self j)
  then show ?case by (rule DesignNodeSchema_raw_ok)
next
  case (child flds cs c r)
  from DesignNodeSchema_child[OF child.prems child.hyps(1,2,3)]
  obtain m where "DesignNodeSchema c = Some m" ..
  then show ?case by (rule child.IH)
qed

subsection \<open>The validator on a whole spec\<close>

lemma NodesSchema_valid: "NodesSchema v = Some ns \<Longrightarrow> list_all valid_node ns"
proof -
  assume a: "NodesSchema v = Some ns"
  show ?thesis
  proof (cases v)
    case None
    with a show ?thesis by (simp add: NodesSchema_def)
  next
    case (Some w)
    with a obtain raws where "all_some (map DesignNodeSchema raws) = Some ns"
      by (cases w) (simp_all add: NodesSchema_def)
    then have "list_all2 (\<lambda>x y. DesignNodeSchema x = Some y) raws ns"
      by (rule all_some_map_Some)
    then show ?thesis
      using schema_valid(2) by (induction rule: list_all2_induct) auto
  qed
qed

lemma CanvasSchema_json:
  assumes "CanvasSchema v = Some c"
  shows "CanvasSchema (Some (JObj [(''name'', JStr (canvas_name c)),
            (''width'', json_num (canvas_width c)), (''height'', json_num (canvas_height c))]))
         = Some c"
proof -
  from assms have "0 < canvas_width c" "0 < canvas_height c"
    by (auto simp: CanvasSchema_def bind_eq_Some_conv z_number_positive_Some
        split: option.splits json.splits)
  then show ?thesis
    by (simp add: CanvasSchema_def z_default_def z_string_def json_positive)
qed

text \<open>
  Claim C6. Every value the DesignSpec validator accepts validates again, to the
  same value: the validated value, read as a raw value, is accepted by
  \<open>DesignSpecSchema\<close> and returned unchanged, with the layout mode and the
  children that the first validation inserted where they were absent.
\<close>

theorem DesignSpecSchema_idempotent:
  assumes "DesignSpecSchema j = Some s"
  shows "DesignSpecSchema (json_of_spec s) = Some s"
proof -
  from assms obtain flds where j: "j = JObj flds"
    by (cases j) (simp_all add: DesignSpecSchema_def)
  from assms j have c: "CanvasSchema (map_of flds ''canvas'') = Some (spec_canvas s)"
    and n: "NodesSchema (map_of flds ''nodes'') = Some (spec_nodes s)"
    by (auto simp: DesignSpecSchema_def bind_eq_Some_conv)
  from n have "list_all valid_node (spec_nodes s)" by (rule NodesSchema_valid)
  then have "all_some (map DesignNodeSchema (map json_of_node (spec_nodes s))) = Some (spec_nodes s)"
    by (intro all_some_map_id schema_json) (simp add: list_all_iff)
  then have "NodesSchema (Some (JArr (map json_of_node (spec_nodes s)))) = Some (spec_nodes s)"
    by (simp add: NodesSchema_def)
  with CanvasSchema_json[OF c] show ?thesis
    by (simp add: DesignSpecSchema_def json_of_spec_def)
qed

subsection \<open>An example: two frames given without layout mode\<close>

lemmas schema_defs = DesignSpecSchema_def CanvasSchema_def NodesSchema_def DesignNodeSchema.simps
  FrameNodeSchema.simps RectNodeSchema_def TextNodeSchema_def EllipseNodeSchema_def
  ImageNodeSchema_def ImageNodeObject_def FrameFields_def raw_children_def NodeBaseSchema_def
  ColorSchema_def PaddingSchema_def z_string_def z_number_def z_refine_def z_optional_def z_default_def
  z_literal_def z_enum_def z_number_min0_def z_number_min0_max1_def z_number_positive_def
  z_string_min1_def z_string_startsWith_def startsWith_def str_truthy_def

lemma example_spec_validates: "DesignSpecSchema example_raw_spec = Some example_spec"
  by (simp add: example_raw_spec_def example_raw_rect_def example_spec_def example_frame_def
      example_empty_frame_def example_rect_def schema_defs)

theorem DesignSpecSchema_idempotent_witness:
  "DesignSpecSchema example_raw_spec = Some example_spec
   \<and> DesignSpecSchema (json_of_spec example_spec) = Some example_spec"
  using DesignSpecSchema_idempotent[OF example_spec_validates] example_spec_validates
  by simp

text \<open>
  Claim C7. After validation every node of the tree, at any depth, carries one of
  the five tags, a strictly positive width and height, and colour channels and
  opacities between 0 and 1; and every node of the raw tree that was validated has
  one of the five tags and finite numbers for x, y, width and height, the last two
  strictly positive. So a spec with a node, nested or not, whose width or height
  is not positive or whose geometry is not a finite number is refused.
\<close>

theorem validated_tree_invariant:
  assumes "DesignSpecSchema j = Some s"
  shows "(\<forall>n \<in> set (spec_nodes s). \<forall>m \<in> set (subnodes n). node_invariant m)
         \<and> (\<forall>r. spec_raw_node j r \<longrightarrow> raw_ok r)"
proof -
  from assms obtain flds where j: "j = JObj flds"
    by (cases j) (simp_all add: DesignSpecSchema_def)
  from assms j have n: "NodesSchema (map_of flds ''nodes'') = Some (spec_nodes s)"
    by (auto simp: DesignSpecSchema_def bind_eq_Some_conv)
  have typed: "node_invariant m" if "n \<in> set (spec_nodes s)" and "m \<in> set (subnodes n)" for n m
  proof -
    from n have "list_all valid_node (spec_nodes s)" by (rule NodesSchema_valid)
    with that(1) have "valid_node n" by (simp add: list_all_iff)
    then show ?thesis using that(2) by (rule valid_node_invariant)
  qed
  have raw: "raw_ok r" if "spec_raw_node j r" for r
  proof -
    from that j obtain tops top where t: "map_of flds ''nodes'' = Some (JArr tops)"
      and top: "top \<in> set tops" and r: "raw_node top r"
      by (auto simp: spec_raw_node_def split: option.splits json.splits)
    from n t have "all_some (map DesignNodeSchema tops) = Some (spec_nodes s)"
      by (simp add: NodesSchema_def)
    then have "list_all2 (\<lambda>x y. DesignNodeSchema x = Some y) tops (spec_nodes s)"
      by (rule all_some_map_Some)
    with top obtain m where "DesignNodeSchema top = Some m"
      by (auto simp: list_all2_conv_all_nth in_set_conv_nth)
    with r show ?thesis by (rule raw_node_ok)
  qed
  from typed raw show ?thesis by blast
qed

theorem validated_tree_invariant_witness:
  "DesignSpecSchema example_raw_spec = Some example_spec
   \<and> node_invariant example_rect \<and> raw_ok example_raw_rect
   \<and> DesignSpecSchema example_bad_spec = None"
proof -
  note ok = validated_tree_invariant[OF example_spec_validates]
  have "example_frame \<in> set (spec_nodes example_spec)"
    by (simp add: example_spec_def)
  moreover have "example_rect \<in> set (subnodes example_frame)"
    by (simp add: example_frame_def example_rect_def)
  ultimately have typed: "node_invariant example_rect"
    using ok by blast
  have "raw_node (JObj [(''type'', JStr ''frame''), (''x'', JNum (Finite 0)),
                        (''y'', JNum (Finite 0)), (''width'', JNum (Finite 100)),
                        (''height'', JNum (Finite 50)),
                        (''children'', JArr [example_raw_rect])]) example_raw_rect"
    by (rule raw_node.child[where cs = "[example_raw_rect]" and c = example_raw_rect])
       (simp_all add: raw_node.self)
  then have "spec_raw_node example_raw_spec example_raw_rect"
    by (simp add: spec_raw_node_def example_raw_spec_def)
  with ok have raw: "raw_ok example_raw_rect" by blast
  have bad: "DesignSpecSchema example_bad_spec = None"
  proof (cases "DesignSpecSchema example_bad_spec")
    case None
    then show ?thesis .
  next
    case (Some s)
    let ?r = "JObj [(''type'', JStr ''rect''), (''x'', JNum PosInfinity),
                    (''y'', JNum (Finite 0)), (''width'', JNum (Finite 0)),
                    (''height'', JNum (Finite 5))]"
    have "raw_node (JObj [(''type'', JStr ''frame''), (''x'', JNum (Finite 0)),
                        (''y'', JNum (Finite 0)), (''width'', JNum (Finite 100)),
                        (''height'', JNum (Finite 50)), (''children'', JArr [?r])]) ?r"
      by (rule raw_node.child[where cs = "[?r]" and c = ?r]) (simp_all add: raw_node.self)
    then have "spec_raw_node example_bad_spec ?r"
      by (simp add: spec_raw_node_def example_bad_spec_def)
    with validated_tree_invariant[OF Some] have "raw_ok ?r" by blast
    then show ?thesis by (simp add: raw_ok_def positive_number_def)
  qed
  from example_spec_validates typed raw bad show ?thesis by simp
qed

section \<open>Properties of the normalizer\<close>

lemma map_of_truthy_field:
  "map_of (truthy_field k v) k' = (if k' = k \<and> truthy v then v else None)"
  by (cases v) (simp_all add: truthy_field_def opt_field_def)

lemma normalizeNode_text:
  assumes "as_string (map_of flds ''type'') = Some ''text''"
    and "toNumber Number (map_of flds ''x'') = Some x"
    and "toNumber Number (map_of flds ''y'') = Some y"
    and "toNumber Number (map_of flds ''width'') = Some w"
    and "toNumber Number (map_of flds ''height'') = Some h"
  shows "normalizeNode Number (JObj flds) =
     Some (JObj ([(''type'', JStr ''text''), (''x'', json_num x), (''y'', json_num y),
                  (''width'', json_num w), (''height'', json_num h)]
                 @ opt_field ''name'' JStr (as_string (map_of flds ''name''))
                 @ opt_field ''opacity'' json_num (toNumber Number (map_of flds ''opacity''))
                 @ normalizeText Number flds))"
  using assms by (simp add: normalizeNode.simps)

lemma normalizeText_fontStyle:
  assumes "as_string (map_of flds ''fontStyle'') = None"
  shows "map_of (normalizeText Number flds) ''fontStyle'' =
           map_option (\<lambda>weight. JStr (weight_style weight)) (toNumber Number (map_of flds ''fontWeight''))"
  using assms
  by (simp add: normalizeText_def lookup_simps map_of_truthy_field del: map_of_append
      split: option.splits)

text \<open>
  Claim C4, as amended. For every text node whose geometry converts, that carries
  a numeric font weight and no font style string, the normalizer sets the font
  style from the weight: Bold from 700, Semibold from 600, Medium from 500 and
  Regular below 500. A weight of 700 gives Bold; a weight of 450 gives Regular.
\<close>

theorem fontWeight_style:
  assumes "as_string (map_of flds ''type'') = Some ''text''"
    and "toNumber Number (map_of flds ''x'') \<noteq> None"
    and "toNumber Number (map_of flds ''y'') \<noteq> None"
    and "toNumber Number (map_of flds ''width'') \<noteq> None"
    and "toNumber Number (map_of flds ''height'') \<noteq> None"
    and "as_string (map_of flds ''fontStyle'') = None"
    and "toNumber Number (map_of flds ''fontWeight'') = Some weight"
  shows "get_prop (normalizeNode Number (JObj flds)) ''fontStyle'' =
           Some (JStr (if 700 \<le> weight then ''Bold''
                       else if 600 \<le> weight then ''Semibold''
                       else if 500 \<le> weight then ''Medium''
                       else ''Regular''))"
proof -
  from assms(2-5) obtain x y w h where g: "toNumber Number (map_of flds ''x'') = Some x"
    "toNumber Number (map_of flds ''y'') = Some y"
    "toNumber Number (map_of flds ''width'') = Some w"
    "toNumber Number (map_of flds ''height'') = Some h"
    by auto
  have "map_of ([(''type'', JStr ''text''), (''x'', json_num x), (''y'', json_num y),
                  (''width'', json_num w), (''height'', json_num h)]
                 @ opt_field ''name'' JStr (as_string (map_of flds ''name''))
                 @ opt_field ''opacity'' json_num (toNumber Number (map_of flds ''opacity''))
                 @ normalizeText Number flds) ''fontStyle''
        = map_of (normalizeText Number flds) ''fontStyle''"
    by (simp add: lookup_simps del: map_of_append split: option.splits)
  also have "\<dots> = Some (JStr (weight_style weight))"
    by (simp add: normalizeText_fontStyle[OF assms(6)] assms(7))
  finally show ?thesis
    unfolding normalizeNode_text[OF assms(1) g] get_prop_def
    by (simp add: weight_style_def)
qed

theorem fontWeight_style_witness:
  "get_prop (normalizeNode Number_none (JObj (text_with_weight 700))) ''fontStyle'' = Some (JStr ''Bold'')
   \<and> get_prop (normalizeNode Number_none (JObj (text_with_weight 450))) ''fontStyle'' = Some (JStr ''Regular'')"
  using fontWeight_style[of "text_with_weight 700" Number_none 700]
    fontWeight_style[of "text_with_weight 450" Number_none 450]
  by (simp add: text_with_weight_def as_string_def toNumber_def)

text \<open>
  The claim as given says that a weight of 450 gives Medium. The text node with
  weight 450 gets the style Regular.
\<close>

theorem fontWeight_450_counterexample:
  "get_prop (normalizeNode Number_none (JObj (text_with_weight 450))) ''fontStyle''
     = Some (JStr ''Regular'')
   \<and> get_prop (normalizeNode Number_none (JObj (text_with_weight 450))) ''fontStyle''
     \<noteq> Some (JStr ''Medium'')"
  by (simp add: text_with_weight_def normalizeNode.simps as_string_def toNumber_def get_prop_def
      normalizeText_def opt_field_def json_num_def truthy_field_def weight_style_def)

lemma z_optional_Some_None: "z_optional p v = Some None \<longleftrightarrow> v = None"
  by (auto simp: z_optional_def split: option.splits)

lemma toNumber_json_num [simp]: "toNumber Number (Some (json_num q)) = Some q"
  by (simp add: toNumber_def json_num_def)

lemma NodeBaseSchema_fields:
  assumes "NodeBaseSchema flds = Some b"
  shows "map_of flds ''x'' = Some (json_num (nb_x b))"
    and "map_of flds ''y'' = Some (json_num (nb_y b))"
    and "map_of flds ''width'' = Some (json_num (nb_width b))"
    and "map_of flds ''height'' = Some (json_num (nb_height b))"
    and "as_string (map_of flds ''name'') = nb_name b"
    and "0 < nb_width b" and "0 < nb_height b"
  using assms
  by (auto simp: NodeBaseSchema_def bind_eq_Some_conv z_number_Some z_number_positive_Some
      z_optional_Some z_string_Some json_num_def as_string_def)

lemma z_optional_min0_toNumber:
  assumes "z_optional z_number_min0 v = Some r"
  shows "toNumber Number v = r" and "opt_ok (\<lambda>q. 0 \<le> q) r"
  using assms
  by (auto simp: z_optional_Some z_number_min0_Some toNumber_def opt_ok_def)

lemma DesignNodeSchema_rect: "RectNodeSchema j = Some n \<Longrightarrow> DesignNodeSchema j = Some n"
  by (simp add: DesignNodeSchema.simps)

text \<open>
  Claim C2. An image node without a source is a raw object that the image schema
  accepts field by field and that has neither \<^verbatim>\<open>imageUrl\<close> nor \<^verbatim>\<open>imageDataUrl\<close>.
  Validating it directly fails. The normalizer rewrites it into the rectangle
  placeholder, with the same x, y, width and height, and the placeholder validates
  as a rectangle with those bounds.
\<close>

theorem image_without_source:
  assumes "ImageNodeObject flds = Some (b, p)"
    and "image_imageUrl p = None" and "image_imageDataUrl p = None"
  shows "DesignNodeSchema (JObj flds) = None
     \<and> normalizeNode Number (JObj flds)
         = Some (imagePlaceholder Number flds (nb_x b) (nb_y b) (nb_width b) (nb_height b))
     \<and> DesignNodeSchema (imagePlaceholder Number flds (nb_x b) (nb_y b) (nb_width b) (nb_height b))
         = Some (RectNode
             \<lparr>nb_name = Some (case nb_name b of Some n \<Rightarrow> n @ '' Placeholder''
                               | None \<Rightarrow> ''Image Placeholder''),
              nb_x = nb_x b, nb_y = nb_y b, nb_width = nb_width b, nb_height = nb_height b,
              nb_opacity = None\<rparr>
             \<lparr>rect_fill = Some \<lparr>rgba_r = 9 / 10, rgba_g = 92 / 100, rgba_b = 95 / 100,
                                rgba_a = Some 1\<rparr>,
              rect_stroke = None, rect_strokeWidth = None,
              rect_cornerRadius = Some (case image_cornerRadius p of Some r \<Rightarrow> r | None \<Rightarrow> 8)\<rparr>)"
proof (intro conjI)
  from ImageNodeObject_base[OF assms(1)]
  have base: "NodeBaseSchema flds = Some b" and tag: "map_of flds ''type'' = Some (JStr ''image'')"
    by simp_all
  note g = NodeBaseSchema_fields[OF base]
  from assms have u: "map_of flds ''imageUrl'' = None" and d: "map_of flds ''imageDataUrl'' = None"
    and cr: "z_optional z_number_min0 (map_of flds ''cornerRadius'') = Some (image_cornerRadius p)"
    by (auto simp: ImageNodeObject_def bind_eq_Some_conv z_optional_Some_None)
  note c = z_optional_min0_toNumber[OF cr]
  show "DesignNodeSchema (JObj flds) = None"
  proof (cases "DesignNodeSchema (JObj flds)")
    case None
    then show ?thesis .
  next
    case (Some n)
    then show ?thesis
    proof (cases rule: DesignNodeSchema_cases)
      case 5
      with assms show ?thesis
        by (auto simp: ImageNodeSchema_Some str_truthy_def)
    qed (use tag in \<open>auto dest: schema_tags FrameNodeSchema_tag\<close>)
  qed
  show "normalizeNode Number (JObj flds)
         = Some (imagePlaceholder Number flds (nb_x b) (nb_y b) (nb_width b) (nb_height b))"
    by (simp add: normalizeNode.simps tag g(1-4) u d as_string_def)
  show "DesignNodeSchema (imagePlaceholder Number flds (nb_x b) (nb_y b) (nb_width b) (nb_height b))
         = Some (RectNode
             \<lparr>nb_name = Some (case nb_name b of Some n \<Rightarrow> n @ '' Placeholder''
                               | None \<Rightarrow> ''Image Placeholder''),
              nb_x = nb_x b, nb_y = nb_y b, nb_width = nb_width b, nb_height = nb_height b,
              nb_opacity = None\<rparr>
             \<lparr>rect_fill = Some \<lparr>rgba_r = 9 / 10, rgba_g = 92 / 100, rgba_b = 95 / 100,
                                rgba_a = Some 1\<rparr>,
              rect_stroke = None, rect_strokeWidth = None,
              rect_cornerRadius = Some (case image_cornerRadius p of Some r \<Rightarrow> r | None \<Rightarrow> 8)\<rparr>)"
  proof (rule DesignNodeSchema_rect)
    have r: "0 \<le> (case image_cornerRadius p of Some r \<Rightarrow> r | None \<Rightarrow> 8)"
      using c(2) by (simp add: opt_ok_def split: option.splits)
    show "RectNodeSchema (imagePlaceholder Number flds (nb_x b) (nb_y b) (nb_width b) (nb_height b))
         = Some (RectNode
             \<lparr>nb_name = Some (case nb_name b of Some n \<Rightarrow> n @ '' Placeholder''
                               | None \<Rightarrow> ''Image Placeholder''),
              nb_x = nb_x b, nb_y = nb_y b, nb_width = nb_width b, nb_height = nb_height b,
              nb_opacity = None\<rparr>
             \<lparr>rect_fill = Some \<lparr>rgba_r = 9 / 10, rgba_g = 92 / 100, rgba_b = 95 / 100,
                                rgba_a = Some 1\<rparr>,
              rect_stroke = None, rect_strokeWidth = None,
              rect_cornerRadius = Some (case image_cornerRadius p of Some r \<Rightarrow> r | None \<Rightarrow> 8)\<rparr>)"
      using g(6,7) r
      by (simp add: imagePlaceholder_def RectNodeSchema_def NodeBaseSchema_def ColorSchema_def
          z_literal_def z_optional_def z_string_def json_number json_positive json_min0
          json_unit unit_interval_def c(1) g(5))
  qed
qed

lemma sourceless_image_object:
  "ImageNodeObject (sourceless_image 64) =
     Some (\<lparr>nb_name = Some ''Logo'', nb_x = 10, nb_y = 20, nb_width = 64, nb_height = 48,
             nb_opacity = None\<rparr>,
           \<lparr>image_imageUrl = None, image_imageDataUrl = None, image_scaleMode = None,
            image_cornerRadius = None, image_stroke = None, image_strokeWidth = None\<rparr>)"
  by (simp add: sourceless_image_def ImageNodeObject_def NodeBaseSchema_def z_optional_def
      z_string_def z_number_def z_number_positive_def z_refine_def z_literal_def)

theorem image_without_source_witness:
  "DesignNodeSchema (JObj (sourceless_image 64)) = None
   \<and> normalizeNode Number_none (JObj (sourceless_image 64))
       = Some (imagePlaceholder Number_none (sourceless_image 64) 10 20 64 48)
   \<and> DesignNodeSchema (imagePlaceholder Number_none (sourceless_image 64) 10 20 64 48)
       = Some (RectNode
           \<lparr>nb_name = Some ''Logo Placeholder'', nb_x = 10, nb_y = 20, nb_width = 64,
            nb_height = 48, nb_opacity = None\<rparr>
           \<lparr>rect_fill = Some \<lparr>rgba_r = 9 / 10, rgba_g = 92 / 100, rgba_b = 95 / 100,
                              rgba_a = Some 1\<rparr>,
            rect_stroke = None, rect_strokeWidth = None, rect_cornerRadius = Some 8\<rparr>)"
  using image_without_source[OF sourceless_image_object, of Number_none]
  by simp

text \<open>
  The field checks matter: a raw image object of width 0 is rewritten too, and its
  placeholder is refused like any node of width 0.
\<close>

lemma sourceless_image_zero_width:
  "normalizeNode Number_none (JObj (sourceless_image 0))
     = Some (imagePlaceholder Number_none (sourceless_image 0) 10 20 0 48)
   \<and> DesignNodeSchema (imagePlaceholder Number_none (sourceless_image 0) 10 20 0 48) = None"
  by (simp add: sourceless_image_def normalizeNode.simps as_string_def toNumber_def
      imagePlaceholder_def json_num_def DesignNodeSchema.simps FrameNodeSchema.simps
      RectNodeSchema_def TextNodeSchema_def EllipseNodeSchema_def ImageNodeSchema_def
      ImageNodeObject_def FrameFields_def NodeBaseSchema_def z_optional_def z_string_def
      z_number_def z_number_positive_def z_refine_def z_literal_def)

section \<open>Properties of the renderer\<close>

subsection \<open>Document order\<close>

lemma length_calls:
  "length (node_calls n pax pay pw ph mode) = length (subnodes n)"
  "length (calls ns pax pay pw ph mode) = forest_size ns"
  by (induction n pax pay pw ph mode and ns pax pay pw ph mode rule: node_calls_calls.induct)
     (simp_all add: forest_size_def)

lemma loadFont_loaded:
  assumes "cache_loaded s" and "h_loadFontAsync h family style"
  shows "\<exists>s1. loadFont h family style s = (True, s1) \<and> cache_loaded s1
           \<and> rs_objs s1 = rs_objs s \<and> rs_attached s1 = rs_attached s"
proof (cases "map_of (rs_fontCache s) (family @ ''::'' @ style)")
  case None
  with assms show ?thesis by (simp add: loadFont_def cache_loaded_def)
next
  case (Some v)
  then have "(family @ ''::'' @ style, v) \<in> set (rs_fontCache s)" by (rule map_of_SomeD)
  with assms(1) have v by (auto simp: cache_loaded_def list_all_iff)
  with Some assms(1) show ?thesis by (simp add: loadFont_def)
qed

lemma create_appended_simps [simp]:
  "rs_objs (create_appended parent obj s) = rs_objs s @ [obj]"
  "rs_attached (create_appended parent obj s) = rs_attached s @ [(parent, length (rs_objs s))]"
  "rs_fontCache (create_appended parent obj s) = rs_fontCache s"
  by (simp_all add: create_appended_def)

lemma cache_loaded_create_appended [simp]:
  "cache_loaded (create_appended parent obj s) = cache_loaded s"
  by (simp add: cache_loaded_def)

lemma with_keep [simp]:
  "sn_kind (with_opacity v obj) = sn_kind obj" "sn_name (with_opacity v obj) = sn_name obj"
  "sn_x (with_opacity v obj) = sn_x obj" "sn_y (with_opacity v obj) = sn_y obj"
  "sn_kind (with_stroke st sw obj) = sn_kind obj" "sn_name (with_stroke st sw obj) = sn_name obj"
  "sn_x (with_stroke st sw obj) = sn_x obj" "sn_y (with_stroke st sw obj) = sn_y obj"
  "sn_kind (with_cornerRadius r obj) = sn_kind obj" "sn_name (with_cornerRadius r obj) = sn_name obj"
  "sn_x (with_cornerRadius r obj) = sn_x obj" "sn_y (with_cornerRadius r obj) = sn_y obj"
  by (simp_all add: with_opacity_def with_stroke_def with_cornerRadius_def split: option.splits)

lemma depicts_placed:
  assumes "same_place obj (placed (kind_of n) (or_default (nb_name (node_base n)) (default_name n))
      (chooseLocalPosition n pax pay pw ph mode))"
  shows "depicts obj (n, pax, pay, pw, ph, mode)"
  using assms by (simp add: depicts_def same_place_def placed_def blank_def)

lemma renderRect_ok:
  assumes "h_resize h RECTANGLE (nb_width b) (nb_height b)" and "cache_loaded s"
  shows "\<exists>s' obj. renderRect h b p parent pos s = Inr s' \<and> cache_loaded s'
           \<and> extends s s' [obj] [(parent, length (rs_objs s))]
           \<and> same_place obj (placed RECTANGLE (or_default (nb_name b) ''Rect'') pos)"
  using assms by (simp add: renderRect_def Let_def extends_def same_place_def)

lemma renderEllipse_ok:
  assumes "h_resize h ELLIPSE (nb_width b) (nb_height b)" and "cache_loaded s"
  shows "\<exists>s' obj. renderEllipse h b p parent pos s = Inr s' \<and> cache_loaded s'
           \<and> extends s s' [obj] [(parent, length (rs_objs s))]
           \<and> same_place obj (placed ELLIPSE (or_default (nb_name b) ''Ellipse'') pos)"
  using assms by (simp add: renderEllipse_def Let_def extends_def same_place_def)

lemma renderImage_ok:
  assumes "h_resize h RECTANGLE (nb_width b) (nb_height b)"
    and "imagePaintFromNode h p = Inr paint" and "cache_loaded s"
  shows "\<exists>s' obj. renderImage h b p parent pos s = Inr s' \<and> cache_loaded s'
           \<and> extends s s' [obj] [(parent, length (rs_objs s))]
           \<and> same_place obj (placed RECTANGLE (or_default (nb_name b) ''Image'') pos)"
  using assms by (simp add: renderImage_def Let_def extends_def same_place_def)

lemma renderText_ok:
  assumes "h_loadFontAsync h (or_default (text_fontFamily p) ''Inter'')
       (or_default (text_fontStyle p) ''Regular'')" and "cache_loaded s"
  shows "\<exists>s' obj. renderText h b p parent pos s = Inr s' \<and> cache_loaded s'
           \<and> extends s s' [obj] [(parent, length (rs_objs s))]
           \<and> same_place obj (placed TEXT (or_default (nb_name b) ''Text'') pos)"
proof -
  from loadFont_loaded[OF assms(2,1)] obtain s1 where
    l: "loadFont h (or_default (text_fontFamily p) ''Inter'') (or_default (text_fontStyle p) ''Regular'') s
          = (True, s1)" and c: "cache_loaded s1" and o: "rs_objs s1 = rs_objs s"
    and a: "rs_attached s1 = rs_attached s"
    by blast
  show ?thesis
    by (simp add: renderText_def Let_def l c o a extends_def same_place_def
        split: option.splits)
qed

lemma frameObject_place:
  "same_place (frameObject b p pos) (placed FRAME (or_default (nb_name b) ''Frame'') pos)"
  by (simp add: frameObject_def Let_def same_place_def split: option.splits)

lemma extends_trans:
  assumes "extends s s1 new es" and "extends s1 s2 new' es'"
  shows "extends s s2 (new @ new') (es @ es')"
  using assms by (simp add: extends_def)

lemma extends_create_appended:
  "extends s (create_appended parent obj s) [obj] [(parent, length (rs_objs s))]"
  by (simp add: extends_def)

lemma render_trace:
  "node_loads h n \<Longrightarrow> cache_loaded s \<Longrightarrow>
     \<exists>s' new. renderNode h n parent pax pay pw ph mode s = Inr s' \<and> cache_loaded s'
          \<and> extends s s' new (node_edges parent (length (rs_objs s)) n)
          \<and> list_all2 depicts new (node_calls n pax pay pw ph mode)"
  "list_all (node_loads h) ns \<Longrightarrow> cache_loaded s \<Longrightarrow>
     \<exists>s' new. renderNodes h ns parent pax pay pw ph mode s = Inr s' \<and> cache_loaded s'
          \<and> extends s s' new (edges parent (length (rs_objs s)) ns)
          \<and> list_all2 depicts new (calls ns pax pay pw ph mode)"
proof (induction h n parent pax pay pw ph mode s and h ns parent pax pay pw ph mode s
    rule: renderNode_renderNodes.induct)
  case (1 h node p parent pax pay pw ph mode s)
  then show ?case
    using renderRect_ok[of h node s p parent "chooseLocalPosition (RectNode node p) pax pay pw ph mode"]
      depicts_placed[of _ "RectNode node p" pax pay pw ph mode]
    by fastforce
next
  case (2 h node p parent pax pay pw ph mode s)
  then show ?case
    using renderText_ok[of h p s node parent "chooseLocalPosition (TextNode node p) pax pay pw ph mode"]
      depicts_placed[of _ "TextNode node p" pax pay pw ph mode]
    by fastforce
next
  case (3 h node p parent pax pay pw ph mode s)
  then show ?case
    using renderEllipse_ok[of h node s p parent "chooseLocalPosition (EllipseNode node p) pax pay pw ph mode"]
      depicts_placed[of _ "EllipseNode node p" pax pay pw ph mode]
    by fastforce
next
  case (4 h node p parent pax pay pw ph mode s)
  from "4.prems" obtain paint where r: "h_resize h RECTANGLE (nb_width node) (nb_height node)"
    and pt: "imagePaintFromNode h p = Inr paint"
    by (auto split: sum.splits)
  from renderImage_ok[OF r pt "4.prems"(2), where parent = parent
      and pos = "chooseLocalPosition (ImageNode node p) pax pay pw ph mode"]
    depicts_placed[of _ "ImageNode node p" pax pay pw ph mode]
  show ?case by fastforce
next
  case (5 h node p children parent pax pay pw ph mode s)
  let ?pos = "chooseLocalPosition (FrameNode node p children) pax pay pw ph mode"
  let ?obj = "frameObject node p ?pos"
  let ?s1 = "create_appended parent ?obj s"
  let ?mode = "detectCoordinateMode children (nb_x node) (nb_y node) (nb_width node) (nb_height node)"
  from "5.prems" have r: "h_resize h FRAME (nb_width node) (nb_height node)"
    and cs: "list_all (node_loads h) children" by simp_all
  from "5.prems"(2) have c1: "cache_loaded ?s1" by simp
  from "5.IH"[OF refl _ cs c1] r obtain s' new where
    run: "renderNodes h children (length (rs_objs s)) (nb_x node) (nb_y node) (nb_width node)
            (nb_height node) ?mode ?s1 = Inr s'"
    and c: "cache_loaded s'"
    and e: "extends ?s1 s' new (edges (length (rs_objs s)) (length (rs_objs ?s1)) children)"
    and d: "list_all2 depicts new
              (calls children (nb_x node) (nb_y node) (nb_width node) (nb_height node) ?mode)"
    by auto
  from extends_trans[OF extends_create_appended e]
  have "extends s s' (?obj # new) (node_edges parent (length (rs_objs s)) (FrameNode node p children))"
    by simp
  moreover have "depicts ?obj (FrameNode node p children, pax, pay, pw, ph, mode)"
    by (rule depicts_placed) (simp add: frameObject_place)
  with d have "list_all2 depicts (?obj # new) (node_calls (FrameNode node p children) pax pay pw ph mode)"
    by simp
  ultimately show ?case using run c r by (auto simp: Let_def)
next
  case (6 h parent pax pay pw ph mode s)
  then show ?case by (simp add: extends_def)
next
  case (7 h n ns parent pax pay pw ph mode s)
  from "7.prems" have n: "node_loads h n" and ns: "list_all (node_loads h) ns" by simp_all
  from "7.IH"(1)[OF n "7.prems"(2)] obtain s1 new1 where
    r1: "renderNode h n parent pax pay pw ph mode s = Inr s1" and c1: "cache_loaded s1"
    and e1: "extends s s1 new1 (node_edges parent (length (rs_objs s)) n)"
    and d1: "list_all2 depicts new1 (node_calls n pax pay pw ph mode)"
    by blast
  from "7.IH"(2)[OF r1 ns c1] obtain s2 new2 where
    r2: "renderNodes h ns parent pax pay pw ph mode s1 = Inr s2" and c2: "cache_loaded s2"
    and e2: "extends s1 s2 new2 (edges parent (length (rs_objs s1)) ns)"
    and d2: "list_all2 depicts new2 (calls ns pax pay pw ph mode)"
    by blast
  from d1 have "length new1 = length (subnodes n)"
    by (simp add: list_all2_lengthD length_calls)
  with e1 have l: "length (rs_objs s1) = length (rs_objs s) + length (subnodes n)"
    by (simp add: extends_def)
  from extends_trans[OF e1 e2]
  have "extends s s2 (new1 @ new2) (edges parent (length (rs_objs s)) (n # ns))"
    by (simp add: l)
  moreover from d1 d2 have "list_all2 depicts (new1 @ new2) (calls (n # ns) pax pay pw ph mode)"
    by (simp add: list_all2_appendI)
  ultimately show ?case using r1 r2 c2 by auto
qed

lemma leaf_edges: "subnodes c = [c] \<Longrightarrow> node_edges parent k c = [(parent, k)]"
proof (cases c)
  case (FrameNode b p cs)
  assume "subnodes c = [c]"
  with FrameNode have "concat (map subnodes cs) = []" by simp
  then have "cs = []" by (cases cs; cases "hd cs") auto
  with FrameNode show ?thesis by simp
qed simp_all

text \<open>
  Claim C8. When the host answers the calls of a render (the resizes, the font
  loads and the image paints of its nodes), \<open>renderToFigma\<close> returns; after the
  root frame (object 0) and the overlay (object 1) it has created one object for
  every node of the spec, in the order of the document, each placed where its
  node was resolved; and the \<^verbatim>\<open>appendChild\<close> calls are those of the document order:
  on every parent the children are appended from first to last, and a frame is
  created and appended before the first of its children is created. For a rect
  and a frame with two childless children there are exactly 4 such objects, and
  the calls are (overlay, rect), (overlay, frame), (frame, first child),
  (frame, second child).
\<close>

theorem render_document_order:
  assumes "h_resize h FRAME (canvas_width (spec_canvas spec)) (canvas_height (spec_canvas spec))"
    and "list_all (node_loads h) (spec_nodes spec)"
  shows "\<exists>s new. renderToFigma h spec None = Inr s
           \<and> rs_objs s = [(rootObject h (spec_canvas spec))\<lparr>sn_fills := Some []\<rparr>,
                           overlayObject (spec_canvas spec)] @ new
           \<and> list_all2 depicts new
                (calls (spec_nodes spec) 0 0 (canvas_width (spec_canvas spec))
                   (canvas_height (spec_canvas spec)) ''relative'')
           \<and> length new = forest_size (spec_nodes spec)
           \<and> rs_attached s = (0, 1) # edges 1 2 (spec_nodes spec)
           \<and> (\<forall>rb rp fb fp c1 c2.
                 spec_nodes spec = [RectNode rb rp, FrameNode fb fp [c1, c2]]
                 \<and> subnodes c1 = [c1] \<and> subnodes c2 = [c2]
                 \<longrightarrow> length new = 4
                     \<and> rs_attached s = [(0, 1), (1, 2), (1, 3), (3, 4), (3, 5)])"
proof -
  let ?root = "(rootObject h (spec_canvas spec))\<lparr>sn_fills := Some []\<rparr>"
  let ?s0 = "create_appended 0 (overlayObject (spec_canvas spec)) (create ?root empty_state)"
  have o0: "rs_objs ?s0 = [?root, overlayObject (spec_canvas spec)]"
    and a0: "rs_attached ?s0 = [(0, 1)]"
    by (simp_all add: create_def empty_state_def)
  have c0: "cache_loaded ?s0"
    by (simp add: cache_loaded_def create_def empty_state_def)
  from render_trace(2)[OF assms(2) c0, where parent = 1 and pax = 0 and pay = 0
      and pw = "canvas_width (spec_canvas spec)" and ph = "canvas_height (spec_canvas spec)"
      and mode = "''relative''"]
  obtain s' new where
    run: "renderNodes h (spec_nodes spec) 1 0 0 (canvas_width (spec_canvas spec))
            (canvas_height (spec_canvas spec)) ''relative'' ?s0 = Inr s'"
    and e: "extends ?s0 s' new (edges 1 (length (rs_objs ?s0)) (spec_nodes spec))"
    and d: "list_all2 depicts new (calls (spec_nodes spec) 0 0 (canvas_width (spec_canvas spec))
              (canvas_height (spec_canvas spec)) ''relative'')"
    by blast
  let ?s = "s'\<lparr>rs_page := rs_page s' @ [0], rs_selection := [0]\<rparr>"
  from run assms(1) have r: "renderToFigma h spec None = Inr ?s"
    by (simp add: renderToFigma_def normalizeScreenshot_def)
  from e o0 a0 have objs: "rs_objs ?s = [?root, overlayObject (spec_canvas spec)] @ new"
    and att: "rs_attached ?s = (0, 1) # edges 1 2 (spec_nodes spec)"
    by (simp_all add: extends_def numeral_2_eq_2)
  from d have len: "length new = forest_size (spec_nodes spec)"
    by (simp add: list_all2_lengthD length_calls)
  have two: "length new = 4 \<and> rs_attached ?s = [(0, 1), (1, 2), (1, 3), (3, 4), (3, 5)]"
    if "spec_nodes spec = [RectNode rb rp, FrameNode fb fp [c1, c2]]"
      and "subnodes c1 = [c1]" and "subnodes c2 = [c2]" for rb rp fb fp c1 c2
    using that len att by (simp add: forest_size_def leaf_edges)
  from r objs d len att two show ?thesis by blast
qed

theorem render_document_order_witness:
  "\<exists>s. renderToFigma friendly_host two_level_spec None = Inr s
       \<and> length (rs_objs s) = 2 + 4
       \<and> rs_attached s = [(0, 1), (1, 2), (1, 3), (3, 4), (3, 5)]"
proof -
  have "h_resize friendly_host FRAME (canvas_width (spec_canvas two_level_spec))
          (canvas_height (spec_canvas two_level_spec))"
    by (simp add: friendly_host_def)
  moreover have "list_all (node_loads friendly_host) (spec_nodes two_level_spec)"
    by (simp add: two_level_spec_def plain_rect_def plain_frame_def plain_text_def
        friendly_host_def)
  ultimately obtain s new where
    "renderToFigma friendly_host two_level_spec None = Inr s"
    "rs_objs s = [(rootObject friendly_host (spec_canvas two_level_spec))\<lparr>sn_fills := Some []\<rparr>,
                  overlayObject (spec_canvas two_level_spec)] @ new"
    "\<forall>rb rp fb fp c1 c2.
        spec_nodes two_level_spec = [RectNode rb rp, FrameNode fb fp [c1, c2]]
        \<and> subnodes c1 = [c1] \<and> subnodes c2 = [c2]
        \<longrightarrow> length new = 4 \<and> rs_attached s = [(0, 1), (1, 2), (1, 3), (3, 4), (3, 5)]"
    using render_document_order[of friendly_host two_level_spec] by blast
  then show ?thesis
    by (simp add: two_level_spec_def plain_rect_def plain_frame_def plain_text_def)
qed

subsection \<open>The coordinate mode\<close>

lemma sumScores_sums:
  "sumScores ns pax pay pw ph (r, a) =
     (r + sum_list (map (\<lambda>n. relScore n pw ph) ns),
      a + sum_list (map (\<lambda>n. absScore n pax pay pw ph) ns))"
  by (induction ns arbitrary: r a) (simp_all add: relScore_def absScore_def)

lemma detectCoordinateMode_sums:
  "detectCoordinateMode ns pax pay pw ph =
     (if sum_list (map (\<lambda>n. absScore n pax pay pw ph) ns) > sum_list (map (\<lambda>n. relScore n pw ph) ns)
      then ''absolute'' else ''relative'')"
  by (simp add: detectCoordinateMode_def sumScores_sums)

lemma chooseLocalPosition_decided:
  assumes "mode = ''relative'' \<or> mode = ''absolute''"
  shows "chooseLocalPosition n pax pay pw ph mode =
     (if absScore n pax pay pw ph > relScore n pw ph
        then (nb_x (node_base n) - pax, nb_y (node_base n) - pay)
      else if relScore n pw ph > absScore n pax pay pw ph
        then (nb_x (node_base n), nb_y (node_base n))
      else if mode = ''absolute'' then (nb_x (node_base n) - pax, nb_y (node_base n) - pay)
      else (nb_x (node_base n), nb_y (node_base n)))"
  using assms by (auto simp: chooseLocalPosition_def relScore_def absScore_def Let_def)

lemma calls_decided:
  "mode = ''relative'' \<or> mode = ''absolute'' \<Longrightarrow> list_all decided (node_calls n pax pay pw ph mode)"
  "mode = ''relative'' \<or> mode = ''absolute'' \<Longrightarrow> list_all decided (calls ns pax pay pw ph mode)"
proof (induction n pax pay pw ph mode and ns pax pay pw ph mode rule: node_calls_calls.induct)
  case (1 b p cs pax pay pw ph mode)
  have "detectCoordinateMode cs (nb_x b) (nb_y b) (nb_width b) (nb_height b) = ''relative''
      \<or> detectCoordinateMode cs (nb_x b) (nb_y b) (nb_width b) (nb_height b) = ''absolute''"
    by (simp add: detectCoordinateMode_sums)
  with 1 show ?case by (simp add: decided_def)
qed (simp_all add: decided_def)

text \<open>
  Claim C9. \<open>detectCoordinateMode\<close> returns \<^verbatim>\<open>"absolute"\<close> exactly when the summed
  absolute fit scores of the nodes exceed the summed relative ones, and
  \<^verbatim>\<open>"relative"\<close> otherwise, so for no node and for an aggregate tie. Every call of
  \<open>chooseLocalPosition\<close> that a render of a spec makes (the calls are those of
  \<open>calls\<close>, see \<open>render_trace\<close>) has \<^verbatim>\<open>"relative"\<close> or \<^verbatim>\<open>"absolute"\<close> for its preferred
  mode, and its result is the one of the first four branches: the branch that
  looks at the parent's absolute origin is not reached.
\<close>

theorem preferred_mode_decided:
  "detectCoordinateMode nodes pax pay pw ph =
     (if sum_list (map (\<lambda>n. absScore n pax pay pw ph) nodes)
           > sum_list (map (\<lambda>n. relScore n pw ph) nodes)
      then ''absolute'' else ''relative'')
   \<and> detectCoordinateMode [] pax pay pw ph = ''relative''
   \<and> (\<forall>c \<in> set (calls (spec_nodes spec) 0 0 (canvas_width (spec_canvas spec))
                     (canvas_height (spec_canvas spec)) ''relative'').
        case c of
          (n, cax, cay, cw, ch, mode) \<Rightarrow>
            (mode = ''relative'' \<or> mode = ''absolute'')
            \<and> chooseLocalPosition n cax cay cw ch mode =
                (if absScore n cax cay cw ch > relScore n cw ch
                   then (nb_x (node_base n) - cax, nb_y (node_base n) - cay)
                 else if relScore n cw ch > absScore n cax cay cw ch
                   then (nb_x (node_base n), nb_y (node_base n))
                 else if mode = ''absolute''
                   then (nb_x (node_base n) - cax, nb_y (node_base n) - cay)
                 else (nb_x (node_base n), nb_y (node_base n))))"
proof (intro conjI ballI)
  show "detectCoordinateMode nodes pax pay pw ph =
     (if sum_list (map (\<lambda>n. absScore n pax pay pw ph) nodes)
           > sum_list (map (\<lambda>n. relScore n pw ph) nodes)
      then ''absolute'' else ''relative'')"
    by (rule detectCoordinateMode_sums)
  show "detectCoordinateMode [] pax pay pw ph = ''relative''"
    by (simp add: detectCoordinateMode_def)
  fix c
  assume c: "c \<in> set (calls (spec_nodes spec) 0 0 (canvas_width (spec_canvas spec))
                     (canvas_height (spec_canvas spec)) ''relative'')"
  obtain n cax cay cw ch mode where eq: "c = (n, cax, cay, cw, ch, mode)"
    by (cases c) auto
  have "list_all decided (calls (spec_nodes spec) 0 0 (canvas_width (spec_canvas spec))
                     (canvas_height (spec_canvas spec)) ''relative'')"
    by (rule calls_decided) simp
  with c eq have m: "mode = ''relative'' \<or> mode = ''absolute''"
    by (auto simp: list_all_iff decided_def)
  from m chooseLocalPosition_decided[OF m, of n cax cay cw ch]
  show "case c of
          (n, cax, cay, cw, ch, mode) \<Rightarrow>
            (mode = ''relative'' \<or> mode = ''absolute'')
            \<and> chooseLocalPosition n cax cay cw ch mode =
                (if absScore n cax cay cw ch > relScore n cw ch
                   then (nb_x (node_base n) - cax, nb_y (node_base n) - cay)
                 else if relScore n cw ch > absScore n cax cay cw ch
                   then (nb_x (node_base n), nb_y (node_base n))
                 else if mode = ''absolute''
                   then (nb_x (node_base n) - cax, nb_y (node_base n) - cay)
                 else (nb_x (node_base n), nb_y (node_base n)))"
    unfolding eq by simp
qed

lemma tied_child_scores:
  "relScore tied_child 400 300 = 4" "absScore tied_child 100 100 400 300 = 4"
  by (simp_all add: relScore_def absScore_def tied_child_def plain_rect_def plain_base_def
      fitScore_def)

theorem preferred_mode_decided_witness:
  "detectCoordinateMode [tied_child] 100 100 400 300 = ''relative''
   \<and> chooseLocalPosition tied_child 100 100 400 300 ''relative'' = (120, 130)"
proof -
  note t = preferred_mode_decided[of "[tied_child]" 100 100 400 300 sole_child_spec]
  from t[THEN conjunct1]
  have m: "detectCoordinateMode [tied_child] 100 100 400 300 = ''relative''"
    by (simp add: tied_child_scores)
  have "(tied_child, 100, 100, 400, 300, ''relative'')
          \<in> set (calls (spec_nodes sole_child_spec) 0 0 (canvas_width (spec_canvas sole_child_spec))
                     (canvas_height (spec_canvas sole_child_spec)) ''relative'')"
    using m by (simp add: sole_child_spec_def plain_frame_def plain_base_def tied_child_def
        plain_rect_def)
  from bspec[OF t[THEN conjunct2, THEN conjunct2] this]
  have "chooseLocalPosition tied_child 100 100 400 300 ''relative''
      = (nb_x (node_base tied_child), nb_y (node_base tied_child))"
    by (simp add: tied_child_scores)
  then have "chooseLocalPosition tied_child 100 100 400 300 ''relative'' = (120, 130)"
    by (simp add: tied_child_def plain_rect_def plain_base_def)
  with m show ?thesis by simp
qed

text \<open>
  A child whose two fit scores are equal goes where the aggregate of its frame
  goes, and to the relative point when the aggregate is tied too, whatever the
  origin of the frame: \<open>detectCoordinateMode\<close> answers \<^verbatim>\<open>"relative"\<close> to a tie.
\<close>

lemma tie_by_aggregate:
  assumes "relScore c pw ph = absScore c pax pay pw ph"
  shows "chooseLocalPosition c pax pay pw ph (detectCoordinateMode children pax pay pw ph)
       = (if sum_list (map (\<lambda>n. absScore n pax pay pw ph) children)
               > sum_list (map (\<lambda>n. relScore n pw ph) children)
          then (nb_x (node_base c) - pax, nb_y (node_base c) - pay)
          else (nb_x (node_base c), nb_y (node_base c)))"
proof -
  have m: "detectCoordinateMode children pax pay pw ph = ''relative''
      \<or> detectCoordinateMode children pax pay pw ph = ''absolute''"
    by (simp add: detectCoordinateMode_sums)
  show ?thesis
    unfolding chooseLocalPosition_decided[OF m]
    using assms by (simp add: detectCoordinateMode_sums)
qed

text \<open>
  The last two lines of \<open>chooseLocalPosition\<close> are the rule of the claim; they are
  reached with a preferred mode that is neither of the two modes only, and no call
  of a render has such a mode (\<open>calls_decided\<close>).
\<close>

lemma origin_rule:
  assumes "relScore c pw ph = absScore c pax pay pw ph"
    and "mode \<noteq> ''absolute''" and "mode \<noteq> ''relative''"
  shows "chooseLocalPosition c pax pay pw ph mode
       = (if pax \<noteq> 0 \<or> pay \<noteq> 0 then (nb_x (node_base c) - pax, nb_y (node_base c) - pay)
          else (nb_x (node_base c), nb_y (node_base c)))"
  using assms by (simp add: chooseLocalPosition_def relScore_def absScore_def Let_def)

lemmas render_defs = renderToFigma_def normalizeScreenshot_def renderImage_def renderRect_def
  imagePaintFromNode_def nonempty_def create_def create_appended_def empty_state_def
  chooseLocalPosition_def fitScore_def Let_def

text \<open>
  Claim C1 fails on the code. When the two fit scores of a child are equal and the
  aggregate of its frame is tied as well, \<open>detectCoordinateMode\<close> returns
  \<^verbatim>\<open>"relative"\<close> and the child is placed at its relative point, whatever the
  origin of the frame; the claim places it at the absolute point when the origin
  is not zero.
\<close>

theorem tied_aggregate_goes_relative:
  assumes "relScore c pw ph = absScore c pax pay pw ph"
    and "sum_list (map (\<lambda>n. absScore n pax pay pw ph) children)
           = sum_list (map (\<lambda>n. relScore n pw ph) children)"
  shows "detectCoordinateMode children pax pay pw ph = ''relative''
       \<and> chooseLocalPosition c pax pay pw ph (detectCoordinateMode children pax pay pw ph)
           = (nb_x (node_base c), nb_y (node_base c))
       \<and> (pax \<noteq> 0 \<or> pay \<noteq> 0 \<longrightarrow>
            chooseLocalPosition c pax pay pw ph (detectCoordinateMode children pax pay pw ph)
              \<noteq> (nb_x (node_base c) - pax, nb_y (node_base c) - pay))"
  using assms(2) tie_by_aggregate[OF assms(1), of children]
  by (simp add: detectCoordinateMode_sums)

text \<open>
  The example of the claim: in the frame at (100,100) of size (400,300), the only
  child (120,130,50,40) scores 4 as a relative and 4 as an absolute position, and
  the render puts its rectangle at (120,130), not at (20,30), although the origin
  of the frame is not zero.
\<close>

theorem tied_aggregate_goes_relative_witness:
  "relScore tied_child 400 300 = 4 \<and> absScore tied_child 100 100 400 300 = 4
   \<and> detectCoordinateMode [tied_child] 100 100 400 300 = ''relative''
   \<and> chooseLocalPosition tied_child 100 100 400 300
         (detectCoordinateMode [tied_child] 100 100 400 300) = (120, 130)
   \<and> chooseLocalPosition tied_child 100 100 400 300
         (detectCoordinateMode [tied_child] 100 100 400 300) \<noteq> (20, 30)
   \<and> (case renderToFigma friendly_host sole_child_spec None of
         Inl (e, s) \<Rightarrow> False
       | Inr s \<Rightarrow> length (rs_objs s) = 4 \<and> rs_attached s = [(0, 1), (1, 2), (2, 3)]
           \<and> sn_kind (rs_objs s ! 3) = RECTANGLE
           \<and> sn_x (rs_objs s ! 3) = Some 120 \<and> sn_y (rs_objs s ! 3) = Some 130)"
proof -
  have t: "relScore tied_child 400 300 = absScore tied_child 100 100 400 300"
    by (simp add: tied_child_scores)
  have a: "sum_list (map (\<lambda>n. absScore n 100 100 400 300) [tied_child])
      = sum_list (map (\<lambda>n. relScore n 400 300) [tied_child])"
    by (simp add: tied_child_scores)
  note w = tied_aggregate_goes_relative[OF t a]
  from w have m: "detectCoordinateMode [tied_child] 100 100 400 300 = ''relative''"
    by (rule conjunct1)
  have p: "(nb_x (node_base tied_child), nb_y (node_base tied_child)) = (120, 130)"
    by (simp add: tied_child_def plain_rect_def plain_base_def)
  from w have c: "chooseLocalPosition tied_child 100 100 400 300
         (detectCoordinateMode [tied_child] 100 100 400 300) = (120, 130)"
    unfolding p by (rule conjunct2[THEN conjunct1])
  then have n: "chooseLocalPosition tied_child 100 100 400 300
         (detectCoordinateMode [tied_child] 100 100 400 300) \<noteq> (20, 30)"
    by simp
  have r: "(case renderToFigma friendly_host sole_child_spec None of
         Inl (e, s) \<Rightarrow> False
       | Inr s \<Rightarrow> length (rs_objs s) = 4 \<and> rs_attached s = [(0, 1), (1, 2), (2, 3)]
           \<and> sn_kind (rs_objs s ! 3) = RECTANGLE
           \<and> sn_x (rs_objs s ! 3) = Some 120 \<and> sn_y (rs_objs s ! 3) = Some 130)"
    by (simp add: render_defs friendly_host_def sole_child_spec_def tied_child_def
        plain_frame_def plain_rect_def plain_base_def frameObject_def inferPillRadius_def
        detectCoordinateMode_def with_opacity_def with_stroke_def with_cornerRadius_def
        placed_def blank_def or_default_def)
  from m c n r show ?thesis by (simp only: tied_child_scores simp_thms)
qed

subsection \<open>Rounding to a double\<close>

lemma pow2_powi: "pow2 e = 2 powi e"
  by (simp add: pow2_def power_int_def inverse_eq_divide power_one_over)

lemma pow2_pos: "0 < pow2 e"
  by (simp add: pow2_powi)

lemma pow2_nonzero: "pow2 e \<noteq> 0"
  by (simp add: pow2_powi)

lemma pow2_add: "pow2 (a + b) = pow2 a * pow2 b"
  by (simp add: pow2_powi power_int_add)

lemma pow2_mono: "a \<le> b \<Longrightarrow> pow2 a \<le> pow2 b"
  by (simp add: pow2_powi power_int_increasing)

lemma pow2_less_imp: "pow2 a < pow2 b \<Longrightarrow> a < b"
  using pow2_mono[of b a] by (cases "a < b") simp_all

lemma pow2_pred: "pow2 (e - 1) = pow2 e / 2"
proof -
  have "pow2 e = pow2 ((e - 1) + 1)" by simp
  also have "\<dots> = pow2 (e - 1) * pow2 1" by (rule pow2_add)
  finally show ?thesis by (simp add: pow2_def)
qed

lemma pow2_Suc: "pow2 (e + 1) = 2 * pow2 e"
  using pow2_pred[of "e + 1"] by simp

lemma halvings_bounds: "1 \<le> q \<Longrightarrow> 2 ^ halvings q \<le> q \<and> q < 2 * 2 ^ halvings q"
proof (induction q rule: halvings.induct)
  case (1 q)
  show ?case
  proof (cases "q < 2")
    case True
    with 1(2) show ?thesis by (simp add: halvings.simps)
  next
    case False
    then have "1 \<le> q / 2" by simp
    from 1(1)[OF False this]
    have "2 ^ halvings (q / 2) \<le> q / 2 \<and> q / 2 < 2 * 2 ^ halvings (q / 2)" .
    moreover have "halvings q = Suc (halvings (q / 2))"
      using False by (simp add: halvings.simps[of q])
    ultimately show ?thesis by simp
  qed
qed

lemma doublings_bounds:
  "0 < q \<Longrightarrow> q < 1 \<Longrightarrow> 1 \<le> q * 2 ^ doublings q \<and> q * 2 ^ doublings q < 2"
proof (induction q rule: doublings.induct)
  case (1 q)
  from 1(2,3) have rec: "doublings q = Suc (doublings (2 * q))"
    by (simp add: doublings.simps[of q])
  from 1(2,3) have n: "\<not> (q \<le> 0 \<or> 1 \<le> q)" by simp
  show ?case
  proof (cases "1 \<le> 2 * q")
    case True
    then have "doublings (2 * q) = 0" by (simp add: doublings.simps[of "2 * q"])
    with rec True 1(3) show ?thesis by simp
  next
    case False
    then have "2 * q < 1" by simp
    moreover from 1(2) have "0 < 2 * q" by simp
    ultimately have "1 \<le> 2 * q * 2 ^ doublings (2 * q) \<and> 2 * q * 2 ^ doublings (2 * q) < 2"
      using 1(1)[OF n] by simp
    with rec show ?thesis by (simp add: mult.assoc mult.left_commute)
  qed
qed

text \<open>\<open>binade q\<close> is the binary exponent of \<open>q\<close>, and the only one.\<close>

lemma binade_bounds:
  assumes "q \<noteq> 0"
  shows "pow2 (binade q) \<le> \<bar>q\<bar> \<and> \<bar>q\<bar> < pow2 (binade q + 1)"
proof (cases "1 \<le> \<bar>q\<bar>")
  case True
  from halvings_bounds[OF True] True show ?thesis
    by (simp add: binade_def pow2_def nat_add_distrib)
next
  case False
  with assms have q: "0 < \<bar>q\<bar>" "\<bar>q\<bar> < 1" by simp_all
  let ?d = "doublings \<bar>q\<bar>"
  from doublings_bounds[OF q] have b: "1 \<le> \<bar>q\<bar> * 2 ^ ?d" "\<bar>q\<bar> * 2 ^ ?d < 2" by simp_all
  have e: "binade q = - int ?d" using False by (simp add: binade_def)
  have p: "pow2 (- int ?d) = 1 / 2 ^ ?d" by (simp add: pow2_powi power_int_minus_divide)
  have "pow2 (- int ?d + 1) = pow2 (- int ?d) * pow2 1" by (rule pow2_add)
  then have p1: "pow2 (- int ?d + 1) = 2 / 2 ^ ?d" by (simp add: p pow2_def)
  from b show ?thesis unfolding e p p1 by (simp add: field_simps)
qed

lemma binade_unique:
  assumes "q \<noteq> 0" and "pow2 e \<le> \<bar>q\<bar>" and "\<bar>q\<bar> < pow2 (e + 1)"
  shows "binade q = e"
proof -
  from binade_bounds[OF assms(1)] assms(2,3)
  have "pow2 (binade q) < pow2 (e + 1)" "pow2 e < pow2 (binade q + 1)" by simp_all
  from pow2_less_imp[OF this(1)] pow2_less_imp[OF this(2)] show ?thesis by simp
qed

lemma binade_half:
  assumes "q \<noteq> 0"
  shows "binade (q / 2) = binade q - 1"
proof (rule binade_unique)
  show "q / 2 \<noteq> 0" using assms by simp
  from binade_bounds[OF assms]
  show "pow2 (binade q - 1) \<le> \<bar>q / 2\<bar>" "\<bar>q / 2\<bar> < pow2 (binade q - 1 + 1)"
    by (simp_all add: pow2_pred pow2_Suc)
qed

lemma roundEven_of_int: "roundEven (of_int m) = m"
  by (simp add: roundEven_def)

lemma roundEven_bounds: "\<lfloor>q\<rfloor> \<le> roundEven q \<and> roundEven q \<le> \<lfloor>q\<rfloor> + 1"
  by (simp add: roundEven_def Let_def)

lemma is_double_fixed: "is_double q \<Longrightarrow> nearest_double q = q"
  by (simp add: is_double_def round_double_def Let_def split: if_splits)

text \<open>
  The doubles are the multiples of their own unit in the last place, below
  \<open>2 ^ 1024\<close> in magnitude.
\<close>

lemma is_double_iff:
  "is_double q \<longleftrightarrow>
     (\<exists>m. q = of_int m * pow2 (ulp_exponent q)) \<and> \<bar>q\<bar> < 2 ^ 1024"
proof
  assume d: "is_double q"
  then have f: "nearest_double q = q" by (rule is_double_fixed)
  have "\<exists>m. q = of_int m * pow2 (ulp_exponent q)"
  proof (cases "q = 0")
    case True
    then show ?thesis by (intro exI[of _ 0]) simp
  next
    case False
    with f have "q = of_int (roundEven (q / pow2 (ulp_exponent q))) * pow2 (ulp_exponent q)"
      by (simp add: nearest_double_def)
    then show ?thesis ..
  qed
  moreover from d f have "\<bar>q\<bar> < 2 ^ 1024"
    by (simp add: is_double_def round_double_def Let_def split: if_splits)
  ultimately show "(\<exists>m. q = of_int m * pow2 (ulp_exponent q)) \<and> \<bar>q\<bar> < 2 ^ 1024" ..
next
  assume "(\<exists>m. q = of_int m * pow2 (ulp_exponent q)) \<and> \<bar>q\<bar> < 2 ^ 1024"
  then obtain m where m: "q = of_int m * pow2 (ulp_exponent q)" and r: "\<bar>q\<bar> < 2 ^ 1024"
    by blast
  from m have "q / pow2 (ulp_exponent q) = of_int m"
    using pow2_nonzero[of "ulp_exponent q"] by (metis nonzero_mult_div_cancel_right)
  then have "nearest_double q = (if q = 0 then 0 else of_int m * pow2 (ulp_exponent q))"
    by (simp only: nearest_double_def roundEven_of_int)
  with m have "nearest_double q = q" by (simp split: if_splits)
  moreover from r have "q < 2 ^ 1024" "- (2 ^ 1024) < q" by linarith+
  ultimately show "is_double q" by (simp add: is_double_def round_double_def Let_def)
qed

text \<open>Half of a double that is not among the smallest is a double.\<close>

lemma half_exact:
  assumes "h \<noteq> 0" and "nearest_double h = h" and "- 1021 \<le> binade h"
  shows "nearest_double (h / 2) = h / 2"
proof -
  let ?e = "ulp_exponent h"
  let ?m = "roundEven (h / pow2 ?e)"
  from assms(1,2) have h: "h = of_int ?m * pow2 ?e"
    by (simp add: nearest_double_def)
  have pos: "pow2 ?e \<noteq> 0" by (rule pow2_nonzero)
  from h have m: "h / pow2 ?e = of_int ?m"
    using pos by (metis nonzero_mult_div_cancel_right)
  have e: "ulp_exponent (h / 2) = ?e - 1"
    using assms(3) by (simp add: ulp_exponent_def binade_half[OF assms(1)])
  have q: "(h / 2) / pow2 (?e - 1) = of_int ?m"
    using m by (simp add: pow2_pred)
  have "nearest_double (h / 2) = of_int (roundEven ((h / 2) / pow2 (?e - 1))) * pow2 (?e - 1)"
    using assms(1) by (simp add: nearest_double_def e)
  also have "\<dots> = of_int ?m * pow2 (?e - 1)"
    by (simp only: q roundEven_of_int)
  also have "\<dots> = h / 2"
    using h by (simp add: pow2_pred)
  finally show ?thesis .
qed

text \<open>Half of one of the smallest doubles rounds to a number below 1.\<close>

lemma half_small:
  assumes "0 < h" and "binade h < - 1021"
  shows "0 \<le> nearest_double (h / 2) \<and> nearest_double (h / 2) < 1"
proof -
  let ?q = "h / 2"
  from assms(1) have h0: "h \<noteq> 0" and q0: "?q \<noteq> 0" and qpos: "0 < ?q" by simp_all
  have b: "binade ?q = binade h - 1" by (rule binade_half[OF h0])
  with assms(2) have e: "ulp_exponent ?q = - 1074" by (simp add: ulp_exponent_def)
  from binade_bounds[OF q0] qpos have "?q < pow2 (binade ?q + 1)" by simp
  also have "\<dots> \<le> pow2 (- 1022)" using b assms(2) by (intro pow2_mono) simp
  finally have small: "?q < pow2 (- 1022)" .
  have split: "pow2 (- 1022) = 2 ^ 52 * pow2 (- 1074)"
  proof -
    have "pow2 (- 1022) = pow2 (52 + (- 1074))" by simp
    also have "\<dots> = pow2 52 * pow2 (- 1074)" by (rule pow2_add)
    finally show ?thesis by (simp add: pow2_def)
  qed
  define x where "x = ?q / pow2 (- 1074)"
  have x0: "0 \<le> x"
    unfolding x_def using qpos by (intro divide_nonneg_pos pow2_pos) simp_all
  have x1: "x < 2 ^ 52"
    unfolding x_def using small pow2_pos[of "- 1074"] unfolding split by (simp add: field_simps)
  have "x < of_int (2 ^ 52)" using x1 by simp
  then have "\<lfloor>x\<rfloor> < 2 ^ 52" by (simp only: floor_less_iff)
  with roundEven_bounds[of x] have up: "roundEven x \<le> 2 ^ 52" by linarith
  have "0 \<le> \<lfloor>x\<rfloor>" using x0 by simp
  with roundEven_bounds[of x] have lo: "0 \<le> roundEven x" by linarith
  have n: "nearest_double ?q = of_int (roundEven x) * pow2 (- 1074)"
    using q0 by (simp add: nearest_double_def e x_def)
  have "(of_int (roundEven x) :: rat) \<le> of_int (2 ^ 52)" using up by (simp only: of_int_le_iff)
  then have "of_int (roundEven x) * pow2 (- 1074) \<le> 2 ^ 52 * pow2 (- 1074)"
    using pow2_pos[of "- 1074"] by (intro mult_right_mono) simp_all
  also have "\<dots> = pow2 (- 1022)" by (simp only: split)
  also have "\<dots> \<le> pow2 (- 1)" by (rule pow2_mono) simp
  also have "\<dots> < 1" by (simp add: pow2_def)
  finally have "nearest_double ?q < 1" by (simp only: n)
  moreover have "(0::rat) \<le> of_int (roundEven x)" using lo by simp
  then have "0 \<le> nearest_double ?q"
    unfolding n using pow2_pos[of "- 1074"] by (intro mult_nonneg_nonneg) simp_all
  ultimately show ?thesis by simp
qed

text \<open>So the floor of the rounded half of a positive double is the floor of its half.\<close>

lemma floor_half_double:
  assumes "is_double h" and "0 < h"
  shows "\<lfloor>nearest_double (h / 2)\<rfloor> = \<lfloor>h / 2\<rfloor>"
proof (cases "- 1021 \<le> binade h")
  case True
  from assms(2) have "h \<noteq> 0" by simp
  then have "nearest_double (h / 2) = h / 2"
    using is_double_fixed[OF assms(1)] True by (rule half_exact)
  then show ?thesis by (simp only:)
next
  case False
  then have s: "binade h < - 1021" by simp
  from half_small[OF assms(2) s] have "\<lfloor>nearest_double (h / 2)\<rfloor> = 0"
    by (simp add: floor_eq_iff)
  moreover have "h < pow2 (- 1021)"
  proof -
    from binade_bounds[of h] assms(2) have "h < pow2 (binade h + 1)" by simp
    also have "\<dots> \<le> pow2 (- 1021)" using s by (intro pow2_mono) simp
    finally show ?thesis .
  qed
  then have "h < 1" using pow2_mono[of "- 1021" 0] by (simp add: pow2_def)
  with assms(2) have "\<lfloor>h / 2\<rfloor> = 0" by (simp add: floor_eq_iff)
  ultimately show ?thesis by simp
qed

text \<open>
  Rounding moves a number that is not below the smallest normal double by at most
  half a unit in the last place, a relative \<open>2 ^ -53\<close>.
\<close>

lemma roundEven_error: "\<bar>of_int (roundEven x) - x\<bar> \<le> 1 / 2"
proof -
  define f where "f = \<lfloor>x\<rfloor>"
  have b: "of_int f \<le> x" "x < of_int f + 1" unfolding f_def by linarith+
  consider "x - of_int f < 1 / 2" | "1 / 2 < x - of_int f" | "x - of_int f = 1 / 2"
    by linarith
  then show ?thesis
  proof cases
    case 1
    then have "roundEven x = f" by (simp add: roundEven_def Let_def f_def)
    with 1 b show ?thesis by simp
  next
    case 2
    then have "roundEven x = f + 1" by (simp add: roundEven_def Let_def f_def)
    with 2 b show ?thesis by simp
  next
    case 3
    then have "roundEven x = f \<or> roundEven x = f + 1" by (simp add: roundEven_def Let_def f_def)
    with 3 b show ?thesis by auto
  qed
qed

lemma nearest_double_error:
  assumes "q \<noteq> 0" and "- 1022 \<le> binade q"
  shows "\<bar>nearest_double q - q\<bar> \<le> \<bar>q\<bar> / 2 ^ 53"
proof -
  let ?e = "binade q - 52"
  define x where "x = q / pow2 ?e"
  have e: "ulp_exponent q = ?e" using assms(2) by (simp add: ulp_exponent_def)
  have q: "q = x * pow2 ?e" using pow2_nonzero[of ?e] by (simp add: x_def)
  have n: "nearest_double q = of_int (roundEven x) * pow2 ?e"
    using assms(1) by (simp add: nearest_double_def e x_def)
  have "nearest_double q - q = (of_int (roundEven x) - x) * pow2 ?e"
    unfolding n by (subst (2) q) (simp add: algebra_simps)
  then have "\<bar>nearest_double q - q\<bar> = \<bar>of_int (roundEven x) - x\<bar> * pow2 ?e"
    using pow2_pos[of ?e] by (simp add: abs_mult)
  also have "\<dots> \<le> 1 / 2 * pow2 ?e"
    using roundEven_error[of x] pow2_pos[of ?e] by (intro mult_right_mono) simp_all
  also have "\<dots> = pow2 (binade q) / 2 ^ 53"
  proof -
    have "pow2 (binade q) = pow2 (?e + 52)" by simp
    also have "\<dots> = pow2 ?e * pow2 52" by (rule pow2_add)
    finally show ?thesis by (simp add: pow2_def)
  qed
  also have "\<dots> \<le> \<bar>q\<bar> / 2 ^ 53"
    using binade_bounds[OF assms(1)] by (simp add: divide_right_mono)
  finally show ?thesis .
qed

text \<open>
  So the double that \<^verbatim>\<open>height * 1.6\<close> is lies within a relative \<open>2 ^ -52\<close> of 1.6
  times the height, for a height from the smallest normal double up to 28.
\<close>

lemma binade_lower: "q \<noteq> 0 \<Longrightarrow> pow2 e \<le> \<bar>q\<bar> \<Longrightarrow> e \<le> binade q"
proof -
  assume q: "q \<noteq> 0" and "pow2 e \<le> \<bar>q\<bar>"
  with binade_bounds[OF q] have "pow2 e < pow2 (binade q + 1)" by simp
  from pow2_less_imp[OF this] show ?thesis by simp
qed

lemma product_threshold:
  assumes "pow2 (- 1022) \<le> h" and "h \<le> 28"
  shows "\<exists>t. js_times h double_1_6 = Finite t \<and> \<bar>t - 16 / 10 * h\<bar> \<le> 16 / 10 * h / 2 ^ 52"
proof -
  let ?q = "h * double_1_6"
  from assms(1) pow2_pos[of "- 1022"] have hpos: "0 < h" by linarith
  have c: "double_1_6 = 16 / 10 * (1 + 1 / 2 ^ 54)" by (simp add: double_1_6_def)
  have qpos: "0 < ?q" using hpos by (simp add: double_1_6_def)
  have "h \<le> ?q" using hpos by (simp add: double_1_6_def)
  with assms(1) have "pow2 (- 1022) \<le> \<bar>?q\<bar>" using qpos by simp
  then have b: "- 1022 \<le> binade ?q"
    using hpos by (intro binade_lower) (simp_all add: double_1_6_def)
  have q0: "?q \<noteq> 0" using hpos by (simp add: double_1_6_def)
  have err: "\<bar>nearest_double ?q - ?q\<bar> \<le> ?q / 2 ^ 53"
    using nearest_double_error[OF q0 b] by (simp only: abs_of_pos[OF qpos])
  have gap: "?q - 16 / 10 * h = 16 / 10 * h / 2 ^ 54" by (simp add: c algebra_simps)
  have "0 \<le> 16 / 10 * h / 2 ^ 54" using hpos by simp
  with gap have gap2: "\<bar>?q - 16 / 10 * h\<bar> = 16 / 10 * h / 2 ^ 54" by linarith
  have q28: "?q \<le> 45" using assms(2) hpos by (simp add: double_1_6_def)
  have near: "\<bar>nearest_double ?q - 16 / 10 * h\<bar> \<le> 16 / 10 * h / 2 ^ 52"
  proof -
    have "\<bar>nearest_double ?q - 16 / 10 * h\<bar> \<le> \<bar>nearest_double ?q - ?q\<bar> + \<bar>?q - 16 / 10 * h\<bar>"
      by linarith
    also have "\<dots> \<le> ?q / 2 ^ 53 + 16 / 10 * h / 2 ^ 54"
      using err gap2 by linarith
    also have "\<dots> \<le> 16 / 10 * h / 2 ^ 52"
      using hpos by (simp add: c field_simps)
    finally show ?thesis .
  qed
  have fin: "round_double ?q = Finite (nearest_double ?q)"
  proof -
    have "?q / 2 ^ 53 \<le> ?q / 1"
      using qpos by (intro divide_left_mono) simp_all
    with err q28 qpos have "nearest_double ?q \<le> 90" "- 90 \<le> nearest_double ?q"
      by linarith+
    then have "nearest_double ?q < 2 ^ 1024" "- (2 ^ 1024) < nearest_double ?q"
      by simp_all
    then show ?thesis by (simp add: round_double_def Let_def)
  qed
  show ?thesis
    using near fin by (simp add: js_times_def)
qed

subsection \<open>The pill radius\<close>

lemma floor_numeral_div_rat: "\<lfloor>numeral a / numeral b :: rat\<rfloor> = numeral a div numeral b"
  by (metis floor_divide_of_int_eq of_int_numeral)

lemmas double_defs = is_double_def js_times_def round_double_def nearest_double_def
  ulp_exponent_def binade_def halvings.simps doublings.simps pow2_def roundEven_def Let_def
  double_1_6_def floor_numeral_div_rat

text \<open>The doubles, the products and the halves of the examples.\<close>

lemma double_examples:
  "is_double 3" "is_double 24" "is_double 25" "is_double 40" "is_double (43 / 2)"
  "is_double double_4_8" "is_double double_34_4"
  by (simp_all add: double_defs double_4_8_def double_34_4_def)

lemma product_examples:
  "js_times 3 double_1_6 = Finite (1351079888211149 / 281474976710656)"
  "js_times 24 double_1_6 = Finite (1351079888211149 / 35184372088832)"
  "js_times 25 double_1_6 = Finite 40"
  "js_times (43 / 2) double_1_6 = Finite double_34_4"
  by (simp_all add: double_defs double_34_4_def)

lemma half_examples:
  "\<lfloor>(25::rat) / 2\<rfloor> = 12" "\<lfloor>(43::rat) / 4\<rfloor> = 10" "nearest_double (25 / 2) = 25 / 2"
  by (simp_all add: double_defs)

text \<open>
  Claim C3, as amended. For a rect node without a corner radius, whose height is a
  positive double, the inferred radius is the floor of half the height when the
  node has a fill, its height is at most 28 and its width is at least the double
  that the product \<^verbatim>\<open>height * 1.6\<close> is, and there is none otherwise; the rectangle
  that \<open>renderNode\<close> creates gets exactly that radius. Height 24 and width 60 give
  12, height 25 and width 60 give 12 as well, and height 40 gives no radius. The
  product is a rounded one: height 3 and width 4.8 (the double) give no radius,
  and height 21.5 and width 34.4 (the double) give 10, although that width is
  below 1.6 times 21.5.
\<close>

theorem pill_radius_floor:
  assumes "rect_cornerRadius p = None"
    and "h_resize h RECTANGLE (nb_width node) (nb_height node)"
    and "is_double (nb_height node)" and "0 < nb_height node"
  shows "inferPillRadius (nb_width node) (nb_height node) (rect_fill p \<noteq> None) (rect_cornerRadius p)
           = (if rect_fill p \<noteq> None \<and> nb_height node \<le> 28
                 \<and> js_ge (nb_width node) (js_times (nb_height node) double_1_6)
              then Some (of_int \<lfloor>nb_height node / 2\<rfloor>) else None)
       \<and> (\<exists>obj. renderNode h (RectNode node p) parent pax pay pw ph mode s
                    = Inr (create_appended parent obj s)
                \<and> sn_cornerRadius obj
                    = (if rect_fill p \<noteq> None \<and> nb_height node \<le> 28
                          \<and> js_ge (nb_width node) (js_times (nb_height node) double_1_6)
                       then Some (of_int \<lfloor>nb_height node / 2\<rfloor>) else None))"
proof -
  have r: "inferPillRadius (nb_width node) (nb_height node) (rect_fill p \<noteq> None) (rect_cornerRadius p)
           = (if rect_fill p \<noteq> None \<and> nb_height node \<le> 28
                 \<and> js_ge (nb_width node) (js_times (nb_height node) double_1_6)
              then Some (of_int \<lfloor>nb_height node / 2\<rfloor>) else None)"
    using assms(1) by (simp add: inferPillRadius_def floor_half_double[OF assms(3,4)])
  have keep: "sn_cornerRadius (with_opacity v (with_stroke st sw obj)) = sn_cornerRadius obj"
    for v st sw obj
    by (simp add: with_opacity_def with_stroke_def split: option.splits)
  have set: "sn_cornerRadius ((with_cornerRadius v ((placed k nm pos)\<lparr>sn_size := z\<rparr>))\<lparr>sn_fills := f\<rparr>) = v"
    for v k nm pos z f
    by (simp add: with_cornerRadius_def placed_def blank_def split: option.splits)
  let ?radius = "inferPillRadius (nb_width node) (nb_height node) (rect_fill p \<noteq> None)
                   (rect_cornerRadius p)"
  let ?obj = "with_opacity (nb_opacity node)
     (with_stroke (rect_stroke p) (rect_strokeWidth p)
       ((with_cornerRadius ?radius
           ((placed RECTANGLE (or_default (nb_name node) ''Rect'')
               (chooseLocalPosition (RectNode node p) pax pay pw ph mode))
            \<lparr>sn_size := Some (nb_width node, nb_height node)\<rparr>))
        \<lparr>sn_fills := Some [case rect_fill p of Some c \<Rightarrow> solid c | None \<Rightarrow> transparent_white]\<rparr>))"
  have run: "renderNode h (RectNode node p) parent pax pay pw ph mode s
               = Inr (create_appended parent ?obj s)"
    using assms(2) by (simp add: renderRect_def Let_def)
  have c: "sn_cornerRadius ?obj = ?radius"
    by (simp only: keep set)
  have e: "\<exists>obj. renderNode h (RectNode node p) parent pax pay pw ph mode s
                    = Inr (create_appended parent obj s)
                \<and> sn_cornerRadius obj = ?radius"
    by (rule exI[of _ ?obj]) (rule conjI[OF run c])
  show ?thesis by (rule conjI[OF r e[unfolded r]])
qed

theorem pill_radius_floor_witness:
  "inferPillRadius 60 24 True None = Some 12 \<and> inferPillRadius 60 40 True None = None
   \<and> inferPillRadius 60 25 True None = Some 12
   \<and> inferPillRadius double_4_8 3 True None = None
   \<and> inferPillRadius double_34_4 (43 / 2) True None = Some 10
   \<and> double_34_4 < 16 / 10 * (43 / 2)"
  using pill_radius_floor[of filled friendly_host "plain_base 0 0 60 24"]
    pill_radius_floor[of filled friendly_host "plain_base 0 0 60 40"]
    pill_radius_floor[of filled friendly_host "plain_base 0 0 60 25"]
    pill_radius_floor[of filled friendly_host "plain_base 0 0 double_4_8 3"]
    pill_radius_floor[of filled friendly_host "plain_base 0 0 double_34_4 (43 / 2)"]
  by (simp add: filled_def friendly_host_def plain_base_def double_examples product_examples
      half_examples)
    (simp add: double_4_8_def double_34_4_def)

text \<open>
  The claim as given says the radius is half the height. For height 25 and width
  60 the radius is 12, not 12.5.
\<close>

theorem pill_radius_half_counterexample:
  "inferPillRadius 60 25 True None = Some 12 \<and> inferPillRadius 60 25 True None \<noteq> Some (25 / 2)"
  by (simp add: inferPillRadius_def product_examples half_examples)

subsection \<open>Image paints\<close>

lemma nonempty_data_url: "startsWith ''data:image/'' u \<Longrightarrow> nonempty (Some u) = Some u"
  by (auto simp: nonempty_def startsWith_def)

text \<open>
  Claim C10. For a validated image node whose \<^verbatim>\<open>imageDataUrl\<close> starts with
  \<^verbatim>\<open>data:image/\<close> (the validator checks no more) and does not match the pattern of
  the renderer, \<open>imagePaintFromNode\<close> returns null on every host, and the rectangle
  of the node, once the host has resized it, is appended with the gray fallback
  as its only fill.
\<close>

theorem malformed_data_url_fallback:
  assumes "DesignNodeSchema j = Some (ImageNode node p)"
    and "image_imageDataUrl p = Some u"
    and "match_data_url u = None"
    and "h_resize h RECTANGLE (nb_width node) (nb_height node)"
  shows "startsWith ''data:image/'' u
       \<and> imagePaintFromNode h p = Inr None
       \<and> (\<exists>obj. renderNode h (ImageNode node p) parent pax pay pw ph mode s
                    = Inr (create_appended parent obj s)
                \<and> sn_fills obj = Some [gray_fallback])"
proof -
  from assms(1) have "valid_node (ImageNode node p)"
    using schema_valid(2) by blast
  with assms(2) have st: "startsWith ''data:image/'' u"
    by (simp add: image_ok_def opt_ok_def)
  then have paint: "imagePaintFromNode h p = Inr None"
    using assms(2,3) by (simp add: imagePaintFromNode_def nonempty_data_url)
  let ?obj = "with_opacity (nb_opacity node)
     (with_stroke (image_stroke p) (image_strokeWidth p)
       ((with_cornerRadius (image_cornerRadius p)
           ((placed RECTANGLE (or_default (nb_name node) ''Image'')
               (chooseLocalPosition (ImageNode node p) pax pay pw ph mode))
            \<lparr>sn_size := Some (nb_width node, nb_height node)\<rparr>))
        \<lparr>sn_fills := Some [gray_fallback]\<rparr>))"
  have run: "renderNode h (ImageNode node p) parent pax pay pw ph mode s
               = Inr (create_appended parent ?obj s)"
    using assms(4) paint by (simp add: renderImage_def Let_def)
  have keep: "sn_fills (with_opacity v (with_stroke st sw obj)) = sn_fills obj" for v st sw obj
    by (simp add: with_opacity_def with_stroke_def split: option.splits)
  have f: "sn_fills ?obj = Some [gray_fallback]"
    by (simp add: keep)
  have "\<exists>obj. renderNode h (ImageNode node p) parent pax pay pw ph mode s
                    = Inr (create_appended parent obj s)
                \<and> sn_fills obj = Some [gray_fallback]"
    by (rule exI[of _ ?obj]) (rule conjI[OF run f])
  with st paint show ?thesis by (intro conjI)
qed

lemma bad_data_url_image_validates:
  "DesignNodeSchema bad_data_url_image = Some (ImageNode (plain_base 0 0 32 32) bad_data_url_props)"
  by (simp add: bad_data_url_image_def bad_data_url_props_def plain_base_def
      DesignNodeSchema.simps FrameNodeSchema.simps
      RectNodeSchema_def TextNodeSchema_def EllipseNodeSchema_def ImageNodeSchema_def
      ImageNodeObject_def FrameFields_def NodeBaseSchema_def z_optional_def z_string_def
      z_number_def z_number_positive_def z_refine_def z_literal_def z_string_min1_def
      z_string_startsWith_def startsWith_def str_truthy_def)

lemma bad_data_url_no_match: "match_data_url ''data:image/png,AAAA'' = None"
  by (simp add: match_data_url_def strip_prefix_def startsWith_def)

theorem malformed_data_url_fallback_witness:
  "imagePaintFromNode friendly_host bad_data_url_props = Inr None
   \<and> (\<exists>obj. renderNode friendly_host (ImageNode (plain_base 0 0 32 32) bad_data_url_props)
                1 0 0 800 600 ''relative'' empty_state
              = Inr (create_appended 1 obj empty_state)
            \<and> sn_fills obj = Some [gray_fallback])"
  using malformed_data_url_fallback[OF bad_data_url_image_validates, of "''data:image/png,AAAA''"
      friendly_host 1 0 0 800 600 "''relative''" empty_state]
  by (simp add: bad_data_url_props_def bad_data_url_no_match friendly_host_def)

text \<open>
  Claim C5 fails on the code. On a host whose fetch is rejected, rendering an
  image node with a remote reference, followed by a rect, ends with the exception
  of the fetch: the rectangle of the image was created and never appended, it has
  no fill, and the rect after it was never created.
\<close>

theorem rejected_fetch_aborts:
  "(case renderToFigma offline_host remote_image_spec None of
      Inl (e, s) \<Rightarrow> e = HostFailure Fetch \<and> length (rs_objs s) = 3 \<and> rs_attached s = [(0, 1)]
    | Inr s \<Rightarrow> False)"
  by (simp add: render_defs offline_host_def friendly_host_def remote_image_spec_def
      remote_image_def plain_rect_def plain_base_def)

text \<open>
  A response that is not ok is the failure the code handles: the image gets the
  gray fallback and the rect after it is rendered.
\<close>

lemma failed_response_degrades:
  "(case renderToFigma not_found_host remote_image_spec None of
      Inl (e, s) \<Rightarrow> False
    | Inr s \<Rightarrow> length (rs_objs s) = 4 \<and> rs_attached s = [(0, 1), (1, 2), (1, 3)]
        \<and> sn_fills (rs_objs s ! 2) = Some [gray_fallback])"
  by (simp add: render_defs not_found_host_def friendly_host_def remote_image_spec_def
      remote_image_def plain_rect_def plain_base_def with_opacity_def with_stroke_def
      with_cornerRadius_def inferPillRadius_def)

end
